theory Spec2Isabelle
  imports
    Complex_Main
    "HOL-Library.Multiset"
    "HOL-Library.Product_Lexorder"
    "HOL-Library.Char_ord"
    "HOL-Library.List_Lexorder"
begin

section \<open>Tables\<close>

text \<open>
  The dashboard works on pandas tables. A table is modelled by the list of its column
  names and the list of its rows; a row gives a cell for every column name, and only
  the cells under the names listed in \<open>columns\<close> belong to the table.

  A cell is missing (\<open>NA\<close>: NaN, NaT or an empty CSV field), a string, a number
  or a timestamp. A timestamp is the pair of its calendar year and the time elapsed
  since the start of that year, so that timestamps are ordered lexicographically and
  \<open>.dt.year\<close> is the first component. Numbers are reals: the code never computes
  with the values of a table, it only compares and displays them.

  A column also has a dtype. The code depends on it at one place, the \<^verbatim>\<open>.dt\<close>
  accessor in \<open>get_observations\<close>, which pandas gives to a column of dtype
  datetime64 and to no other: a float column that holds only NaN, or an object column
  that holds timestamps, has no \<^verbatim>\<open>.dt\<close>. So the dtype is kept beside the cells,
  as datetime64, a numeric dtype, or object; selecting rows keeps it, and assigning a
  series to a column sets it to the dtype of the series.
\<close>

type_synonym timestamp = "int \<times> nat"

datatype cell =
    is_NA: NA
  | is_Str: Str (the_Str: string)
  | is_Num: Num (the_Num: real)
  | is_Timestamp: Timestamp (the_Timestamp: timestamp)

type_synonym row = "string \<Rightarrow> cell"

datatype dtype = Datetime64 | Number | Object

record dataframe =
  columns :: "string list"
  rows :: "row list"
  dtypes :: "string \<Rightarrow> dtype"

text \<open>The exceptions the modelled code can raise.\<close>

datatype exn =
    KeyError string
  | AttributeError
  | TypeError
  | ValueError
  | IndexError
  | IOError string

definition bindE :: "exn + 'a \<Rightarrow> ('a \<Rightarrow> exn + 'b) \<Rightarrow> exn + 'b" where
  "bindE m f = (case m of Inl e \<Rightarrow> Inl e | Inr v \<Rightarrow> f v)"

text \<open>\<^verbatim>\<open>pd.DataFrame()\<close>: no columns, no rows.\<close>

definition DataFrame0 :: dataframe where
  "DataFrame0 = \<lparr>columns = [], rows = [], dtypes = (\<lambda>_. Object)\<rparr>"

text \<open>\<^verbatim>\<open>df.empty\<close>: one of the two axes has length 0.\<close>

definition is_empty :: "dataframe \<Rightarrow> bool" where
  "is_empty df = (columns df = [] \<or> rows df = [])"

text \<open>\<^verbatim>\<open>df[c]\<close>: the cells of a column, or KeyError.\<close>

definition getcol :: "dataframe \<Rightarrow> string \<Rightarrow> exn + cell list" where
  "getcol df c =
     (if c \<in> set (columns df) then Inr (map (\<lambda>r. r c) (rows df)) else Inl (KeyError c))"

text \<open>
  Elementwise \<^verbatim>\<open>==\<close> of a column with a scalar: a missing cell equals nothing, and
  cells of different kinds are unequal. Two numbers are compared as reals. pandas
  compares an integer with a float after converting the integer to float64, which is
  the comparison of the reals as long as the integers are of magnitude at most
  \<open>2^53\<close>; the lookup by a numeric key is specified below for such numbers.
\<close>

definition cell_eq :: "cell \<Rightarrow> cell \<Rightarrow> bool" where
  "cell_eq a b = (a \<noteq> NA \<and> a = b)"

definition notna :: "cell \<Rightarrow> bool" where
  "notna c = (c \<noteq> NA)"

text \<open>\<^verbatim>\<open>df[mask]\<close> with a Boolean mask computed row by row.\<close>

definition select :: "(row \<Rightarrow> bool) \<Rightarrow> dataframe \<Rightarrow> dataframe" where
  "select p df = df\<lparr>rows := filter p (rows df)\<rparr>"

text \<open>
  \<^verbatim>\<open>df[c] = series\<close>, the series of dtype \<open>d\<close> computed row by row from the
  table itself: the column is overwritten when it exists and appended otherwise.
\<close>

definition set_column ::
  "string \<Rightarrow> dtype \<Rightarrow> (row \<Rightarrow> cell) \<Rightarrow> dataframe \<Rightarrow> dataframe" where
  "set_column c d f df =
     \<lparr>columns = (if c \<in> set (columns df) then columns df else columns df @ [c]),
      rows = map (\<lambda>r. r(c := f r)) (rows df),
      dtypes = (dtypes df)(c := d)\<rparr>"

text \<open>
  \<^verbatim>\<open>series.dt.year\<close>, cell by cell, of a series that has \<^verbatim>\<open>.dt\<close>: the year of
  a timestamp, missing for a missing date. The result is a numeric series.
\<close>

definition dt_year :: "cell \<Rightarrow> cell" where
  "dt_year c = (case c of Timestamp t \<Rightarrow> Num (of_int (fst t)) | _ \<Rightarrow> NA)"

text \<open>
  \<^verbatim>\<open>pd.to_datetime(series, format='mixed', errors='coerce')\<close>, cell by cell. The
  parser of pandas for strings and numbers is a parameter; whatever it rejects becomes
  a missing date. The result is a series of dtype datetime64.
\<close>

definition to_datetime :: "(cell \<Rightarrow> timestamp option) \<Rightarrow> cell \<Rightarrow> cell" where
  "to_datetime parse c =
     (case c of
        NA \<Rightarrow> NA
      | Timestamp t \<Rightarrow> Timestamp t
      | _ \<Rightarrow> (case parse c of None \<Rightarrow> NA | Some t \<Rightarrow> Timestamp t))"

text \<open>\<^verbatim>\<open>df.dropna(subset=cs)\<close>: KeyError when a name of the subset is no column.\<close>

definition dropna :: "string list \<Rightarrow> dataframe \<Rightarrow> exn + dataframe" where
  "dropna cs df =
     (case filter (\<lambda>c. c \<notin> set (columns df)) cs of
        [] \<Rightarrow> Inr (select (\<lambda>r. list_all (\<lambda>c. notna (r c)) cs) df)
      | c # _ \<Rightarrow> Inl (KeyError c))"

text \<open>
  \<^verbatim>\<open>df.sort_values(c)\<close>: ascending, missing cells last. The present cells must be
  of one kind (pandas raises TypeError when it has to compare a string with a number
  or a timestamp). pandas does not promise an order among rows with equal keys; the
  model keeps their order, and no theorem below depends on it.
\<close>

definition sort_values :: "string \<Rightarrow> dataframe \<Rightarrow> exn + dataframe" where
  "sort_values c df =
     (if c \<notin> set (columns df) then Inl (KeyError c)
      else
        let present = filter (\<lambda>r. notna (r c)) (rows df);
            missing = filter (\<lambda>r. \<not> notna (r c)) (rows df);
            vals = map (\<lambda>r. r c) present
        in if list_all is_Timestamp vals
           then Inr (df\<lparr>rows := sort_key (\<lambda>r. the_Timestamp (r c)) present @ missing\<rparr>)
           else if list_all is_Num vals
           then Inr (df\<lparr>rows := sort_key (\<lambda>r. the_Num (r c)) present @ missing\<rparr>)
           else if list_all is_Str vals
           then Inr (df\<lparr>rows := sort_key (\<lambda>r. the_Str (r c)) present @ missing\<rparr>)
           else Inl TypeError)"

text \<open>\<^verbatim>\<open>series.iloc[0]\<close> and \<^verbatim>\<open>series.iloc[-1]\<close>.\<close>

definition iloc_first :: "cell list \<Rightarrow> exn + cell" where
  "iloc_first cs = (case cs of [] \<Rightarrow> Inl IndexError | c # _ \<Rightarrow> Inr c)"

definition iloc_last :: "cell list \<Rightarrow> exn + cell" where
  "iloc_last cs = (if cs = [] then Inl IndexError else Inr (last cs))"

section \<open>The data access layer (utils.py)\<close>

text \<open>The two masks on the discriminator column.\<close>

definition is_observation :: "row \<Rightarrow> bool" where
  "is_observation r = cell_eq (r ''record_type'') (Str ''observation'')"

definition is_event :: "row \<Rightarrow> bool" where
  "is_event r = cell_eq (r ''record_type'') (Str ''event'')"

definition get_observations :: "dataframe \<Rightarrow> exn + dataframe" where
  "get_observations df_main =
     (if is_empty df_main then Inr DataFrame0
      else if ''record_type'' \<notin> set (columns df_main) then Inl (KeyError ''record_type'')
      else
        let obs = select is_observation df_main
        in if ''observation_date'' \<in> set (columns obs)
           then (if dtypes obs ''observation_date'' = Datetime64
                 then Inr (set_column ''year'' Number
                             (\<lambda>r. dt_year (r ''observation_date'')) obs)
                 else Inl AttributeError)
           else Inr obs)"

definition date_col_of :: "dataframe \<Rightarrow> string" where
  "date_col_of events =
     (if ''event_date'' \<in> set (columns events)
         \<and> list_ex (\<lambda>r. notna (r ''event_date'')) (rows events)
      then ''event_date'' else ''observation_date'')"

definition get_events :: "(cell \<Rightarrow> timestamp option) \<Rightarrow> dataframe \<Rightarrow> exn + dataframe" where
  "get_events parse df_main =
     (if is_empty df_main then Inr DataFrame0
      else if ''record_type'' \<notin> set (columns df_main) then Inl (KeyError ''record_type'')
      else
        let events = select is_event df_main;
            date_col = date_col_of events
        in if date_col \<in> set (columns events)
           then Inr (set_column ''event_date_parsed'' Datetime64 (\<lambda>r. r date_col)
                      (set_column date_col Datetime64
                         (\<lambda>r. to_datetime parse (r date_col)) events))
           else Inr events)"

definition get_indicator_series :: "dataframe \<Rightarrow> cell \<Rightarrow> exn + dataframe" where
  "get_indicator_series observations indicator_code =
     (if is_empty observations then Inr DataFrame0
      else if ''indicator_code'' \<notin> set (columns observations)
      then Inl (KeyError ''indicator_code'')
      else
        bindE (dropna [''observation_date'', ''value_numeric'']
                 (select (\<lambda>r. cell_eq (r ''indicator_code'') indicator_code) observations))
          (sort_values ''observation_date''))"

definition get_latest_value :: "dataframe \<Rightarrow> cell \<Rightarrow> exn + cell option" where
  "get_latest_value observations indicator_code =
     bindE (get_indicator_series observations indicator_code) (\<lambda>series.
       if is_empty series then Inr None
       else bindE (getcol series ''value_numeric'') (\<lambda>vs.
              bindE (iloc_last vs) (\<lambda>v. Inr (Some v))))"

definition matches :: "cell \<Rightarrow> cell \<Rightarrow> cell \<Rightarrow> row \<Rightarrow> bool" where
  "matches indicator year scenario r =
     (cell_eq (r ''indicator_code'') indicator
      \<and> cell_eq (r ''year'') year
      \<and> cell_eq (r ''scenario'') scenario)"

definition get_forecast_value ::
  "dataframe option \<Rightarrow> cell \<Rightarrow> cell \<Rightarrow> cell \<Rightarrow> exn + cell option" where
  "get_forecast_value forecast_df indicator year scenario =
     (case forecast_df of
        None \<Rightarrow> Inr None
      | Some df \<Rightarrow>
          if is_empty df then Inr None
          else if ''indicator_code'' \<notin> set (columns df) then Inl (KeyError ''indicator_code'')
          else if ''year'' \<notin> set (columns df) then Inl (KeyError ''year'')
          else if ''scenario'' \<notin> set (columns df) then Inl (KeyError ''scenario'')
          else
            let result = select (matches indicator year scenario) df
            in if is_empty result then Inr None
               else bindE (getcol result ''forecast_value'') (\<lambda>vs.
                      bindE (iloc_first vs) (\<lambda>v. Inr (Some v))))"

section \<open>The two filters on a store\<close>

text \<open>
  Tables are mutable objects. To see what the two filters do to their argument they
  are written once more on a store of tables, addressed by position:
  \<^verbatim>\<open>df_main[mask].copy()\<close> allocates a new table, and the column assignments that
  follow update the table at that new address in place.
\<close>

type_synonym heap = "dataframe list"

definition alloc :: "dataframe \<Rightarrow> heap \<Rightarrow> nat \<times> heap" where
  "alloc df h = (length h, h @ [df])"

definition assign_column ::
  "nat \<Rightarrow> string \<Rightarrow> dtype \<Rightarrow> (row \<Rightarrow> cell) \<Rightarrow> heap \<Rightarrow> heap" where
  "assign_column a c d f h = h[a := set_column c d f (h ! a)]"

definition get_observations_h :: "heap \<Rightarrow> nat \<Rightarrow> exn + nat \<times> heap" where
  "get_observations_h h df_main =
     (if is_empty (h ! df_main) then Inr (alloc DataFrame0 h)
      else if ''record_type'' \<notin> set (columns (h ! df_main)) then Inl (KeyError ''record_type'')
      else
        let (obs, h1) = alloc (select is_observation (h ! df_main)) h
        in if ''observation_date'' \<in> set (columns (h1 ! obs))
           then (if dtypes (h1 ! obs) ''observation_date'' = Datetime64
                 then Inr (obs, assign_column obs ''year'' Number
                                  (\<lambda>r. dt_year (r ''observation_date'')) h1)
                 else Inl AttributeError)
           else Inr (obs, h1))"

definition get_events_h ::
  "(cell \<Rightarrow> timestamp option) \<Rightarrow> heap \<Rightarrow> nat \<Rightarrow> exn + nat \<times> heap" where
  "get_events_h parse h df_main =
     (if is_empty (h ! df_main) then Inr (alloc DataFrame0 h)
      else if ''record_type'' \<notin> set (columns (h ! df_main)) then Inl (KeyError ''record_type'')
      else
        let (events, h1) = alloc (select is_event (h ! df_main)) h;
            date_col = date_col_of (h1 ! events)
        in if date_col \<in> set (columns (h1 ! events))
           then let h2 = assign_column events date_col Datetime64
                               (\<lambda>r. to_datetime parse (r date_col)) h1
                in Inr (events, assign_column events ''event_date_parsed'' Datetime64
                                  (\<lambda>r. r date_col) h2)
           else Inr (events, h1))"

section \<open>The loaders (utils.py)\<close>

text \<open>
  The loaders read files. What the file system and the readers of pandas answer is an
  input of the model: for each path whether it exists, and for each read either the
  table or the exception it raises. The messages shown by \<^verbatim>\<open>st.warning\<close> and
  \<^verbatim>\<open>st.error\<close> are returned in front of the result. \<^verbatim>\<open>st.cache_data\<close> only
  stores the result for later calls and is left out.
\<close>

record files =
  enriched_exists :: bool
  read_enriched :: "exn + dataframe"
  read_excel_main :: "exn + dataframe"
  read_excel_impact :: "exn + dataframe"
  features_exists :: bool
  read_features :: "exn + dataframe"
  matrix_exists :: bool
  read_matrix :: "exn + dataframe"
  long_exists :: bool
  read_long :: "exn + dataframe"
  wide_exists :: bool
  read_wide :: "exn + dataframe"

datatype message = Warning string | Error string exn

text \<open>The body of the \<^verbatim>\<open>try\<close> of \<open>load_unified_data\<close>.\<close>

definition load_unified_body ::
  "(cell \<Rightarrow> timestamp option) \<Rightarrow> files \<Rightarrow> exn + dataframe \<times> dataframe" where
  "load_unified_body parse fs =
     bindE
       (if enriched_exists fs
        then bindE (read_enriched fs) (\<lambda>df_main.
               bindE (getcol df_main ''record_type'') (\<lambda>_.
                 Inr (df_main,
                      select (\<lambda>r. cell_eq (r ''record_type'') (Str ''impact_link'')) df_main)))
        else bindE (read_excel_main fs) (\<lambda>df_main.
               Inr (df_main,
                    (case read_excel_impact fs of Inl _ \<Rightarrow> DataFrame0 | Inr df_impact \<Rightarrow> df_impact))))
       (\<lambda>(df_main, df_impact).
          Inr (if ''observation_date'' \<in> set (columns df_main)
               then set_column ''observation_date'' Datetime64
                      (\<lambda>r. to_datetime parse (r ''observation_date'')) df_main
               else df_main,
               df_impact))"

definition load_unified_data ::
  "(cell \<Rightarrow> timestamp option) \<Rightarrow> files \<Rightarrow> message list \<times> dataframe \<times> dataframe" where
  "load_unified_data parse fs =
     (case load_unified_body parse fs of
        Inl e \<Rightarrow> ([Error ''Error loading unified data'' e], DataFrame0, DataFrame0)
      | Inr (df_main, df_impact) \<Rightarrow> ([], df_main, df_impact))"

definition load_event_features :: "files \<Rightarrow> message list \<times> dataframe option" where
  "load_event_features fs =
     (if \<not> features_exists fs
      then ([Warning ''Event features not found. Run Task 3 notebook first.''], None)
      else (case read_features fs of
              Inl e \<Rightarrow> ([Error ''Error loading event features'' e], None)
            | Inr df \<Rightarrow> ([], Some df)))"

definition load_event_matrix :: "files \<Rightarrow> message list \<times> dataframe option" where
  "load_event_matrix fs =
     (if \<not> matrix_exists fs
      then ([Warning ''Event matrix not found. Run Task 3 notebook first.''], None)
      else (case read_matrix fs of
              Inl e \<Rightarrow> ([Error ''Error loading event matrix'' e], None)
            | Inr df \<Rightarrow> ([], Some df)))"

definition load_forecasts ::
  "files \<Rightarrow> message list \<times> dataframe option \<times> dataframe option" where
  "load_forecasts fs =
     (if \<not> long_exists fs
      then ([Warning ''Forecast data not found. Run Task 4 notebook first.''], None, None)
      else (case bindE (read_long fs) (\<lambda>df_long.
                   bindE (if wide_exists fs
                          then bindE (read_wide fs) (\<lambda>df. Inr (Some df))
                          else Inr None)
                     (\<lambda>df_wide. Inr (df_long, df_wide))) of
              Inl e \<Rightarrow> ([Error ''Error loading forecasts'' e], None, None)
            | Inr (df_long, df_wide) \<Rightarrow> ([], Some df_long, df_wide)))"

section \<open>The Overview and Forecasts pages (app.py)\<close>

text \<open>
  A page is a function of the loaded tables and of the state of the widgets; it
  returns the widgets it draws, in order, or the exception that ends the run. Of the
  five pages the Overview and the Forecasts page are modelled. Decoration is left out:
  the HTML wrappers, the icons in the headings, the line widths and marker shapes of
  the traces, and the layout of a figure other than its title.

  A Python scalar is a cell or \<^verbatim>\<open>None\<close>. The functions below are \<^verbatim>\<open>if v:\<close>,
  \<^verbatim>\<open>f"{v:.1f}"\<close>, \<^verbatim>\<open>a - b\<close>, \<^verbatim>\<open>-a\<close> and \<^verbatim>\<open>a > 0\<close> on such scalars. A missing
  cell of a value column is the float NaN: it is true as a condition, prints as
  \<open>nan\<close>, and compares false.
\<close>

type_synonym pyval = "cell option"

fun truthy :: "pyval \<Rightarrow> bool" where
  "truthy None = False"
| "truthy (Some (Num v)) = (v \<noteq> 0)"
| "truthy (Some (Str s)) = (s \<noteq> [])"
| "truthy (Some NA) = True"
| "truthy (Some (Timestamp t)) = True"

datatype piece = Lit string | F1 real | Val cell | Count nat

fun fmt1 :: "pyval \<Rightarrow> exn + piece" where
  "fmt1 (Some (Num v)) = Inr (F1 v)"
| "fmt1 (Some NA) = Inr (Lit ''nan'')"
| "fmt1 (Some (Str s)) = Inl ValueError"
| "fmt1 (Some (Timestamp t)) = Inr (Lit ''.1f'')"
| "fmt1 None = Inl TypeError"

text \<open>
  The difference of two timestamps is a time span in Python, which the formatting
  that follows every subtraction of the pages rejects with the same TypeError.
\<close>

fun py_sub :: "pyval \<Rightarrow> pyval \<Rightarrow> exn + pyval" where
  "py_sub (Some (Num a)) (Some (Num b)) = Inr (Some (Num (a - b)))"
| "py_sub (Some (Num a)) (Some NA) = Inr (Some NA)"
| "py_sub (Some NA) (Some (Num b)) = Inr (Some NA)"
| "py_sub (Some NA) (Some NA) = Inr (Some NA)"
| "py_sub _ _ = Inl TypeError"

fun py_neg :: "pyval \<Rightarrow> exn + pyval" where
  "py_neg (Some (Num a)) = Inr (Some (Num (- a)))"
| "py_neg (Some NA) = Inr (Some NA)"
| "py_neg _ = Inl TypeError"

fun gt0 :: "pyval \<Rightarrow> exn + bool" where
  "gt0 (Some (Num a)) = Inr (0 < a)"
| "gt0 (Some NA) = Inr False"
| "gt0 _ = Inl TypeError"

record trace =
  tname :: string
  tx :: "cell list"
  ty :: "cell list"
  tmode :: string
  tcolor :: "string option"
  tfill :: "string option"

record figure =
  ftitle :: "piece list"
  ftraces :: "trace list"

datatype widget =
    Markdown string
  | Subheader string
  | Metric string "piece list" "piece list option"
  | Write "piece list"
  | StError string
  | PlotlyChart figure
  | Dataframe dataframe
  | DownloadButton string dataframe string

text \<open>
  The state of the widgets that the two pages read: the scenario chosen in the
  sidebar, and the position chosen in the indicator selector of the Forecasts page.
\<close>

record ui =
  scenario_filter :: string
  indicator_choice :: nat

text \<open>
  \<^verbatim>\<open>st.selectbox(options=..., index=0 if options else None)\<close>: the chosen option,
  the first one by default, \<^verbatim>\<open>None\<close> when there is no option.
\<close>

definition selectbox :: "cell list \<Rightarrow> nat \<Rightarrow> pyval" where
  "selectbox opts choice =
     (if opts = [] then None
      else if choice < length opts then Some (opts ! choice)
      else Some (opts ! 0))"

text \<open>\<^verbatim>\<open>series.unique().tolist()\<close>: the distinct cells in order of first occurrence.\<close>

definition unique :: "cell list \<Rightarrow> cell list" where
  "unique cs = rev (remdups (rev cs))"

fun mapE :: "('a \<Rightarrow> exn + 'b) \<Rightarrow> 'a list \<Rightarrow> exn + 'b list" where
  "mapE f [] = Inr []"
| "mapE f (a # as) = bindE (f a) (\<lambda>b. bindE (mapE f as) (\<lambda>bs. Inr (b # bs)))"

subsection \<open>Overview\<close>

definition kpi_metric :: "string \<Rightarrow> pyval \<Rightarrow> exn + widget" where
  "kpi_metric label v =
     (if truthy v
      then bindE (fmt1 v) (\<lambda>p. Inr (Metric label [p, Lit ''%''] None))
      else Inr (Metric label [Lit ''N/A''] None))"

definition kpi_forecast :: "pyval \<Rightarrow> exn + widget" where
  "kpi_forecast forecast_2027 =
     (if truthy forecast_2027
      then bindE (py_sub (Some (Num 60)) forecast_2027) (\<lambda>target_gap.
           bindE (fmt1 forecast_2027) (\<lambda>p.
           bindE (gt0 target_gap) (\<lambda>pos.
           bindE (if pos
                  then bindE (py_neg target_gap) (\<lambda>g.
                       bindE (fmt1 g) (\<lambda>q. Inr [q, Lit ''pp to 60% target'']))
                  else Inr [Lit ''Target met''])
             (\<lambda>delta. Inr (Metric ''2027 Forecast (Access)'' [p, Lit ''%''] (Some delta))))))
      else Inr (Metric ''2027 Forecast'' [Lit ''N/A''] None))"

definition current_state :: "pyval \<Rightarrow> pyval \<Rightarrow> nat \<Rightarrow> exn + widget list" where
  "current_state latest_access latest_mm n_events =
     bindE (if truthy latest_access \<and> truthy latest_mm
            then bindE (fmt1 latest_access) (\<lambda>a.
                 bindE (fmt1 latest_mm) (\<lambda>m.
                 bindE (py_sub latest_access latest_mm) (\<lambda>gap.
                 bindE (fmt1 gap) (\<lambda>g.
                   Inr [Write [Lit ''- Account ownership: '', a, Lit ''%''],
                        Write [Lit ''- Mobile money penetration: '', m, Lit ''%''],
                        Write [Lit ''- Traditional banking dominates: '', g, Lit ''pp gap'']]))))
            else Inr [])
       (\<lambda>lines.
          Inr ([Markdown ''**Current State**''] @ lines
               @ [Write [Lit ''- Total events tracked: '', Count n_events]]))"

definition uncertainty_range :: "dataframe option \<Rightarrow> exn + widget list" where
  "uncertainty_range forecast_wide =
     (case forecast_wide of
        None \<Rightarrow> Inr []
      | Some fw \<Rightarrow>
          if is_empty fw then Inr []
          else
            bindE (getcol fw ''year'') (\<lambda>_.
            bindE (getcol fw ''indicator_code'') (\<lambda>_.
              let access_2027 =
                    select (\<lambda>r. cell_eq (r ''year'') (Num 2027)
                                 \<and> cell_eq (r ''indicator_code'') (Str ''ACC_OWNERSHIP'')) fw
              in if \<not> is_empty access_2027 \<and> ''lower'' \<in> set (columns access_2027)
                 then bindE (getcol access_2027 ''lower'') (\<lambda>ls.
                      bindE (iloc_first ls) (\<lambda>lower.
                      bindE (getcol access_2027 ''upper'') (\<lambda>us.
                      bindE (iloc_first us) (\<lambda>upper.
                      bindE (fmt1 (Some lower)) (\<lambda>l.
                      bindE (fmt1 (Some upper)) (\<lambda>u.
                        Inr [Write [Lit ''- Uncertainty range: '', l, Lit ''% - '', u,
                                    Lit ''%'']]))))))
                 else Inr [])))"

definition forecast_outlook :: "pyval \<Rightarrow> dataframe option \<Rightarrow> exn + widget list" where
  "forecast_outlook forecast_2027 forecast_wide =
     bindE (if truthy forecast_2027
            then bindE (fmt1 forecast_2027) (\<lambda>p.
                 bindE (uncertainty_range forecast_wide) (\<lambda>range.
                   Inr (Write [Lit ''- 2027 base forecast: '', p, Lit ''%''] # range)))
            else Inr [])
       (\<lambda>lines.
          Inr ([Markdown ''**Forecast Outlook**''] @ lines
               @ [Write [Lit ''- Key drivers: Telebirr, M-Pesa, NFIS-II'']]))"

text \<open>The trace of the observed values of a series, when the series is not empty.\<close>

definition historical_trace :: "dataframe \<Rightarrow> exn + trace list" where
  "historical_trace series =
     (if is_empty series then Inr []
      else bindE (getcol series ''observation_date'') (\<lambda>xs.
           bindE (getcol series ''value_numeric'') (\<lambda>ys.
             Inr [\<lparr>tname = ''Historical'', tx = xs, ty = ys, tmode = ''lines+markers'',
                   tcolor = Some ''#1f77b4'', tfill = None\<rparr>])))"

text \<open>
  The trace of a selection of forecast rows, when there are any. The dates of its
  points are \<^verbatim>\<open>pd.to_datetime(data['year'].astype(str) + '-01-01')\<close>; this conversion
  of pandas, which can raise, is the parameter \<open>year_dates\<close>.
\<close>

definition forecast_trace ::
  "(cell list \<Rightarrow> exn + cell list) \<Rightarrow> string \<Rightarrow> string \<Rightarrow> dataframe \<Rightarrow> exn + trace list" where
  "forecast_trace year_dates nm color data =
     (if is_empty data then Inr []
      else bindE (getcol data ''year'') (\<lambda>ys.
           bindE (year_dates ys) (\<lambda>forecast_dates.
           bindE (getcol data ''forecast_value'') (\<lambda>vs.
             Inr [\<lparr>tname = nm, tx = forecast_dates, ty = vs, tmode = ''lines+markers'',
                   tcolor = Some color, tfill = None\<rparr>]))))"

definition overview_forecast ::
  "(cell list \<Rightarrow> exn + cell list) \<Rightarrow> string \<Rightarrow> dataframe option \<Rightarrow> exn + trace list" where
  "overview_forecast year_dates scenario forecast_long =
     (case forecast_long of
        None \<Rightarrow> Inr []
      | Some fl \<Rightarrow>
          bindE (getcol fl ''indicator_code'') (\<lambda>_.
          bindE (getcol fl ''scenario'') (\<lambda>_.
          bindE (sort_values ''year''
                   (select (\<lambda>r. cell_eq (r ''indicator_code'') (Str ''ACC_OWNERSHIP'')
                                \<and> cell_eq (r ''scenario'') (Str scenario)) fl))
            (\<lambda>forecast_access.
               forecast_trace year_dates (''Forecast ('' @ scenario @ '')'') ''#ff7f0e''
                 forecast_access))))"

definition overview_chart ::
  "ui \<Rightarrow> (cell list \<Rightarrow> exn + cell list) \<Rightarrow> dataframe \<Rightarrow> dataframe option
     \<Rightarrow> exn + widget list" where
  "overview_chart u year_dates observations forecast_long =
     (if is_empty observations then Inr []
      else bindE (get_indicator_series observations (Str ''ACC_OWNERSHIP'')) (\<lambda>acc_series.
           bindE (historical_trace acc_series) (\<lambda>hist.
           bindE (overview_forecast year_dates (scenario_filter u) forecast_long) (\<lambda>fc.
             Inr [PlotlyChart
                    \<lparr>ftitle = [Lit ''Account Ownership: Historical + Forecast''],
                     ftraces = hist @ fc\<rparr>]))))"

text \<open>
  The page, with the two lookups of the data access layer as parameters: \<open>latest\<close>
  stands for \<^verbatim>\<open>get_latest_value(observations, .)\<close> and \<open>forecastv\<close> for
  \<^verbatim>\<open>get_forecast_value(forecast_long, ., ., .)\<close>.
\<close>

definition overview_with ::
  "(cell \<Rightarrow> exn + pyval) \<Rightarrow> (cell \<times> cell \<times> cell \<Rightarrow> exn + pyval) \<Rightarrow> ui
     \<Rightarrow> (cell list \<Rightarrow> exn + cell list) \<Rightarrow> dataframe \<Rightarrow> dataframe
     \<Rightarrow> dataframe option \<Rightarrow> dataframe option \<Rightarrow> exn + widget list" where
  "overview_with latest forecastv u year_dates observations events forecast_long forecast_wide =
     bindE (latest (Str ''ACC_OWNERSHIP'')) (\<lambda>latest_access.
     bindE (kpi_metric ''Latest Account Ownership'' latest_access) (\<lambda>m1.
     bindE (latest (Str ''ACC_MM_ACCOUNT'')) (\<lambda>latest_mm.
     bindE (kpi_metric ''Mobile Money Accounts'' latest_mm) (\<lambda>m2.
     bindE (latest (Str ''USG_DIGITAL_PAYMENT'')) (\<lambda>latest_usage.
     bindE (kpi_metric ''Digital Payment Usage'' latest_usage) (\<lambda>m3.
     bindE (forecastv (Str ''ACC_OWNERSHIP'', Num 2027, Str ''base'')) (\<lambda>forecast_2027.
     bindE (kpi_forecast forecast_2027) (\<lambda>m4.
     bindE (current_state latest_access latest_mm (length (rows events))) (\<lambda>cs.
     bindE (forecast_outlook forecast_2027 forecast_wide) (\<lambda>fo.
     bindE (overview_chart u year_dates observations forecast_long) (\<lambda>chart.
       Inr ([Markdown ''**Forecasting Access and Usage (2025-2027)**'',
             Subheader ''Key Performance Indicators'', m1, m2, m3, m4,
             Subheader ''Key Insights'']
            @ cs @ fo @ [Subheader ''Historical Trend + Forecast''] @ chart))))))))))))"

definition forecast_lookup :: "dataframe option \<Rightarrow> cell \<times> cell \<times> cell \<Rightarrow> exn + pyval" where
  "forecast_lookup forecast_long = (\<lambda>(i, y, s). get_forecast_value forecast_long i y s)"

definition overview_page ::
  "ui \<Rightarrow> (cell list \<Rightarrow> exn + cell list) \<Rightarrow> dataframe \<Rightarrow> dataframe
     \<Rightarrow> dataframe option \<Rightarrow> dataframe option \<Rightarrow> exn + widget list" where
  "overview_page u year_dates observations events forecast_long forecast_wide =
     overview_with (get_latest_value observations) (forecast_lookup forecast_long)
       u year_dates observations events forecast_long forecast_wide"

subsection \<open>Forecasts\<close>

text \<open>
  The loop over the three scenarios, each with its capitalised name and its colour
  (\<^verbatim>\<open>scenario.capitalize()\<close>, \<^verbatim>\<open>colors.get(scenario, '#999')\<close>).
\<close>

definition scenarios :: "(string \<times> string \<times> string) list" where
  "scenarios =
     [(''base'', ''Base'', ''#ff7f0e''),
      (''optimistic'', ''Optimistic'', ''#2ca02c''),
      (''pessimistic'', ''Pessimistic'', ''#d62728'')]"

definition scenario_trace ::
  "(cell list \<Rightarrow> exn + cell list) \<Rightarrow> dataframe \<Rightarrow> string \<times> string \<times> string
     \<Rightarrow> exn + trace list" where
  "scenario_trace year_dates forecast_data =
     (\<lambda>(scenario, label, color).
        bindE (getcol forecast_data ''scenario'') (\<lambda>_.
        bindE (sort_values ''year''
                 (select (\<lambda>r. cell_eq (r ''scenario'') (Str scenario)) forecast_data))
          (\<lambda>scenario_data. forecast_trace year_dates label color scenario_data)))"

definition band_traces ::
  "(cell list \<Rightarrow> exn + cell list) \<Rightarrow> dataframe option \<Rightarrow> cell \<Rightarrow> exn + trace list" where
  "band_traces year_dates forecast_wide selected =
     (case forecast_wide of
        None \<Rightarrow> Inr []
      | Some fw \<Rightarrow>
          bindE (getcol fw ''indicator_code'') (\<lambda>_.
          bindE (sort_values ''year''
                   (select (\<lambda>r. cell_eq (r ''indicator_code'') selected) fw))
            (\<lambda>wide_data.
               if \<not> is_empty wide_data \<and> ''lower'' \<in> set (columns wide_data)
                  \<and> ''upper'' \<in> set (columns wide_data)
               then bindE (getcol wide_data ''year'') (\<lambda>ys.
                    bindE (year_dates ys) (\<lambda>forecast_dates.
                    bindE (getcol wide_data ''upper'') (\<lambda>us.
                    bindE (getcol wide_data ''lower'') (\<lambda>ls.
                      Inr [\<lparr>tname = ''Upper Bound'', tx = forecast_dates, ty = us,
                            tmode = ''lines'', tcolor = None, tfill = None\<rparr>,
                           \<lparr>tname = ''Uncertainty Band'', tx = forecast_dates, ty = ls,
                            tmode = ''lines'', tcolor = None, tfill = Some ''tonexty''\<rparr>]))))
               else Inr [])))"

definition forecast_chart ::
  "(cell list \<Rightarrow> exn + cell list) \<Rightarrow> dataframe \<Rightarrow> dataframe \<Rightarrow> dataframe option \<Rightarrow> cell
     \<Rightarrow> exn + widget list" where
  "forecast_chart year_dates observations fl forecast_wide selected =
     bindE (get_indicator_series observations selected) (\<lambda>historical.
       let forecast_data = select (\<lambda>r. cell_eq (r ''indicator_code'') selected) fl
       in bindE (historical_trace historical) (\<lambda>hist.
          bindE (mapE (scenario_trace year_dates forecast_data) scenarios) (\<lambda>scs.
          bindE (band_traces year_dates forecast_wide selected) (\<lambda>band.
            Inr [PlotlyChart
                   \<lparr>ftitle = [Val selected, Lit '': Historical + Forecast Scenarios''],
                    ftraces = hist @ concat scs @ band\<rparr>]))))"

definition fixed_findings :: "widget list" where
  "fixed_findings =
     [Write [Lit ''**Key Drivers:**''],
      Write [Lit ''- Telebirr expansion (54M+ users)''],
      Write [Lit ''- M-Pesa Ethiopia + EthSwitch integration''],
      Write [Lit ''- NFIS-II policy implementation''],
      Write [Lit ''- Fayda Digital ID rollout''],
      Write [Lit ''**Risks & Uncertainties:**''],
      Write [Lit ''- Survey methodology vs operator data discrepancy''],
      Write [Lit ''- Account overlap (multiple accounts per person)''],
      Write [Lit ''- Cash culture and trust barriers''],
      Write [Lit ''- Affordability constraints'']]"

definition access_finding :: "pyval \<Rightarrow> exn + widget list" where
  "access_finding access_2027_base =
     (if truthy access_2027_base
      then bindE (fmt1 access_2027_base) (\<lambda>p.
           bindE (py_sub (Some (Num 60)) access_2027_base) (\<lambda>gap_to_60.
           bindE (gt0 gap_to_60) (\<lambda>pos.
           bindE (if pos
                  then bindE (fmt1 gap_to_60) (\<lambda>g.
                         Inr (Write [Lit ''  - Gap to 60% target: '', g, Lit ''pp'']))
                  else Inr (Write [Lit ''  - On track to meet 60% target'']))
             (\<lambda>line. Inr [Write [Lit ''- **Account Ownership 2027 (base)**: '', p, Lit ''%''],
                          line]))))
      else Inr [])"

definition usage_finding :: "pyval \<Rightarrow> exn + widget list" where
  "usage_finding usage_2027_base =
     (if truthy usage_2027_base
      then bindE (fmt1 usage_2027_base) (\<lambda>p.
             Inr [Write [Lit ''- **Digital Payment Usage 2027 (base)**: '', p, Lit ''%'']])
      else Inr [])"

definition findings :: "(cell \<times> cell \<times> cell \<Rightarrow> exn + pyval) \<Rightarrow> exn + widget list" where
  "findings forecastv =
     bindE (forecastv (Str ''ACC_OWNERSHIP'', Num 2027, Str ''base'')) (\<lambda>access_2027_base.
     bindE (access_finding access_2027_base) (\<lambda>acc.
     bindE (forecastv (Str ''USG_DIGITAL_PAYMENT'', Num 2027, Str ''base'')) (\<lambda>usage_2027_base.
     bindE (usage_finding usage_2027_base) (\<lambda>usg.
       Inr ([Subheader ''Key Findings'', Markdown ''**Forecast Interpretation**'']
            @ acc @ usg @ fixed_findings)))))"

definition forecasts_with ::
  "(cell \<times> cell \<times> cell \<Rightarrow> exn + pyval) \<Rightarrow> ui \<Rightarrow> (cell list \<Rightarrow> exn + cell list)
     \<Rightarrow> dataframe \<Rightarrow> dataframe option \<Rightarrow> dataframe option \<Rightarrow> exn + widget list" where
  "forecasts_with forecastv u year_dates observations forecast_long forecast_wide =
     (case forecast_long of
        None \<Rightarrow>
          Inr [StError
                 ''Forecast data not available. Run Task 4 notebook to generate forecasts.'']
      | Some fl \<Rightarrow>
          bindE (getcol fl ''indicator_code'') (\<lambda>codes.
            let available_forecast_indicators = unique codes;
                selected_forecast_indicator =
                  selectbox available_forecast_indicators (indicator_choice u)
            in bindE (case selected_forecast_indicator of
                        None \<Rightarrow> Inr []
                      | Some selected \<Rightarrow>
                          if truthy (Some selected)
                          then forecast_chart year_dates observations fl forecast_wide selected
                          else Inr [])
                 (\<lambda>chart.
               bindE (findings forecastv) (\<lambda>kf.
                 Inr ([Subheader ''Scenario Comparison''] @ chart
                      @ [Subheader ''Forecast Data Table'',
                         Dataframe (case forecast_wide of None \<Rightarrow> fl | Some fw \<Rightarrow> fw),
                         Subheader ''Download Forecasts'',
                         DownloadButton ''Download Forecast CSV'' fl
                           ''ethiopia_fi_forecast_2025_2027.csv'']
                      @ kf)))))"

definition forecasts_page ::
  "ui \<Rightarrow> (cell list \<Rightarrow> exn + cell list) \<Rightarrow> dataframe \<Rightarrow> dataframe option
     \<Rightarrow> dataframe option \<Rightarrow> exn + widget list" where
  "forecasts_page u year_dates observations forecast_long forecast_wide =
     forecasts_with (forecast_lookup forecast_long)
       u year_dates observations forecast_long forecast_wide"

section \<open>Schemas, and tables used as examples\<close>

definition has_columns :: "string list \<Rightarrow> dataframe \<Rightarrow> bool" where
  "has_columns cs df = list_all (\<lambda>c. c \<in> set (columns df)) cs"

text \<open>A date column as \<^verbatim>\<open>pd.to_datetime\<close> leaves it: timestamps and missing dates.\<close>

definition dates_or_missing :: "cell list \<Rightarrow> bool" where
  "dates_or_missing cs = list_all (\<lambda>c. is_NA c \<or> is_Timestamp c) cs"

definition observation_table :: "dataframe \<Rightarrow> bool" where
  "observation_table df =
     (rows df = [] \<or>
      (has_columns [''indicator_code'', ''observation_date'', ''value_numeric''] df
       \<and> dates_or_missing (map (\<lambda>r. r ''observation_date'') (rows df))))"

definition in_series :: "cell \<Rightarrow> row \<Rightarrow> bool" where
  "in_series code r =
     (cell_eq (r ''indicator_code'') code
      \<and> notna (r ''observation_date'') \<and> notna (r ''value_numeric''))"

definition obs_date :: "row \<Rightarrow> timestamp" where
  "obs_date r = the_Timestamp (r ''observation_date'')"

definition obs_row :: "string \<Rightarrow> cell \<Rightarrow> cell \<Rightarrow> row" where
  "obs_row code d v =
     (\<lambda>_. NA)(''record_type'' := Str ''observation'', ''indicator_code'' := Str code,
               ''observation_date'' := d, ''value_numeric'' := v)"

definition observations_example :: dataframe where
  "observations_example =
     \<lparr>columns = [''record_type'', ''indicator_code'', ''observation_date'', ''value_numeric''],
      rows = [obs_row ''X'' (Timestamp (2022, 0)) (Num 30),
              obs_row ''Y'' (Timestamp (2023, 0)) (Num 7),
              obs_row ''X'' (Timestamp (2020, 0)) (Num 10),
              obs_row ''X'' NA (Num 99),
              obs_row ''X'' (Timestamp (2021, 0)) (Num 20)],
      dtypes = (\<lambda>_. Object)(''observation_date'' := Datetime64, ''value_numeric'' := Number)\<rparr>"

definition unique_keys :: "dataframe \<Rightarrow> bool" where
  "unique_keys df =
     distinct (map (\<lambda>r. (r ''indicator_code'', r ''observation_date''))
                   (filter (\<lambda>r. notna (r ''observation_date'')) (rows df)))"

definition forecast_table :: "dataframe \<Rightarrow> bool" where
  "forecast_table df =
     (rows df = [] \<or>
      has_columns [''indicator_code'', ''year'', ''scenario'', ''forecast_value''] df)"

text \<open>
  The numbers for which the comparison of the model is the one of pandas, whatever
  the numeric dtypes of the column and of the key are.
\<close>

definition exact_number :: "cell \<Rightarrow> bool" where
  "exact_number c = (case c of Num v \<Rightarrow> \<bar>v\<bar> \<le> 2 ^ 53 | _ \<Rightarrow> True)"

definition exact_keys :: "dataframe \<Rightarrow> cell \<Rightarrow> cell \<Rightarrow> cell \<Rightarrow> bool" where
  "exact_keys df i y s =
     (exact_number i \<and> exact_number y \<and> exact_number s
      \<and> list_all (\<lambda>r. exact_number (r ''indicator_code'') \<and> exact_number (r ''year'')
                       \<and> exact_number (r ''scenario'')) (rows df))"

definition forecast_row :: "string \<Rightarrow> real \<Rightarrow> string \<Rightarrow> real \<Rightarrow> row" where
  "forecast_row code year scenario v =
     (\<lambda>_. NA)(''indicator_code'' := Str code, ''year'' := Num year,
               ''scenario'' := Str scenario, ''forecast_value'' := Num v)"

definition forecast_example :: dataframe where
  "forecast_example =
     \<lparr>columns = [''indicator_code'', ''year'', ''scenario'', ''forecast_value''],
      rows = [forecast_row ''X'' 2025 ''base'' 40,
              forecast_row ''ACC_OWNERSHIP'' 2027 ''optimistic'' 63,
              forecast_row ''ACC_OWNERSHIP'' 2027 ''base'' 58,
              forecast_row ''X'' 2026 ''base'' 45],
      dtypes = (\<lambda>_. Object)(''year'' := Number, ''forecast_value'' := Number)\<rparr>"

text \<open>Two tables that a forecast file without the full schema gives.\<close>

definition no_scenario_example :: dataframe where
  "no_scenario_example =
     \<lparr>columns = [''indicator_code'', ''year'', ''forecast_value''],
      rows = [forecast_row ''X'' 2025 ''base'' 40, forecast_row ''X'' 2026 ''base'' 45],
      dtypes = (\<lambda>_. Object)(''year'' := Number, ''forecast_value'' := Number)\<rparr>"

definition no_value_example :: dataframe where
  "no_value_example =
     \<lparr>columns = [''indicator_code'', ''year'', ''scenario''],
      rows = [forecast_row ''X'' 2025 ''base'' 40, forecast_row ''X'' 2026 ''base'' 45],
      dtypes = (\<lambda>_. Object)(''year'' := Number)\<rparr>"

definition has_record_type :: "dataframe \<Rightarrow> bool" where
  "has_record_type df = (rows df = [] \<or> ''record_type'' \<in> set (columns df))"

text \<open>
  The unified table as \<open>load_unified_data\<close> delivers it: it has the discriminator
  column, and its \<open>observation_date\<close> column, when there is one, has been parsed
  and is of dtype datetime64.
\<close>

definition unified_table :: "dataframe \<Rightarrow> bool" where
  "unified_table df =
     (has_record_type df
      \<and> (''observation_date'' \<in> set (columns df) \<longrightarrow>
           dtypes df ''observation_date'' = Datetime64))"

definition agree_except :: "string list \<Rightarrow> row \<Rightarrow> row \<Rightarrow> bool" where
  "agree_except cs r r' = (\<forall>c. c \<notin> set cs \<longrightarrow> r' c = r c)"

text \<open>
  The columns that the two filters derive: the year of the observation date, and the
  parsed date of the chosen date column, written to that column and to
  \<open>event_date_parsed\<close>. A derived column that is not yet a column of the table is
  appended to its columns.
\<close>

definition with_year :: "row \<Rightarrow> row" where
  "with_year r = r(''year'' := dt_year (r ''observation_date''))"

definition with_parsed :: "(cell \<Rightarrow> timestamp option) \<Rightarrow> string \<Rightarrow> row \<Rightarrow> row" where
  "with_parsed parse c r =
     r(c := to_datetime parse (r c), ''event_date_parsed'' := to_datetime parse (r c))"

definition add_column :: "string \<Rightarrow> string list \<Rightarrow> string list" where
  "add_column c cs = (if c \<in> set cs then cs else cs @ [c])"

definition refines :: "exn + nat \<times> heap \<Rightarrow> heap \<Rightarrow> exn + dataframe \<Rightarrow> bool" where
  "refines res h pure =
     (case res of
        Inl e \<Rightarrow> pure = Inl e
      | Inr (a, h') \<Rightarrow> a = length h \<and> length h' = Suc (length h) \<and> take (length h) h' = h
                       \<and> pure = Inr (h' ! a))"

definition mk_row :: "(string \<times> cell) list \<Rightarrow> row" where
  "mk_row kvs = (\<lambda>c. case map_of kvs c of None \<Rightarrow> NA | Some v \<Rightarrow> v)"

definition parse_example :: "cell \<Rightarrow> timestamp option" where
  "parse_example c = (if c = Str ''2021-05-11'' then Some (2021, 130) else None)"

definition unified_example :: dataframe where
  "unified_example =
     \<lparr>columns = [''record_type'', ''indicator_code'', ''observation_date'', ''value_numeric'',
                 ''event_date''],
      rows = [mk_row [(''record_type'', Str ''observation''), (''indicator_code'', Str ''ACC_OWNERSHIP''),
                      (''observation_date'', Timestamp (2021, 0)), (''value_numeric'', Num 46)],
              mk_row [(''record_type'', Str ''event''), (''observation_date'', Timestamp (2021, 7)),
                      (''event_date'', Str ''2021-05-11'')],
              mk_row [(''record_type'', Str ''impact_link''), (''value_numeric'', Num 2)],
              mk_row [(''record_type'', Str ''event''), (''observation_date'', Timestamp (2020, 0))]],
      dtypes = (\<lambda>_. Object)(''observation_date'' := Datetime64, ''value_numeric'' := Number)\<rparr>"

definition per_row_fallback :: "(cell \<Rightarrow> timestamp option) \<Rightarrow> row \<Rightarrow> cell" where
  "per_row_fallback parse r =
     (if notna (r ''event_date'') then to_datetime parse (r ''event_date'')
      else to_datetime parse (r ''observation_date''))"

text \<open>
  What \<open>load_unified_data\<close> makes of the main table it has read: the
  \<open>observation_date\<close> column, when there is one, is replaced by its parsed dates.
\<close>

definition dates_parsed :: "(cell \<Rightarrow> timestamp option) \<Rightarrow> dataframe \<Rightarrow> dataframe" where
  "dates_parsed parse df =
     \<lparr>columns = columns df,
      rows = (if ''observation_date'' \<in> set (columns df)
              then map (\<lambda>r. r(''observation_date'' := to_datetime parse (r ''observation_date'')))
                     (rows df)
              else rows df),
      dtypes = (if ''observation_date'' \<in> set (columns df)
                then (dtypes df)(''observation_date'' := Datetime64)
                else dtypes df)\<rparr>"

definition enriched_example :: files where
  "enriched_example =
     \<lparr>enriched_exists = True,
      read_enriched = Inr unified_example,
      read_excel_main = Inl (IOError ''ethiopia_fi_unified_data.xlsx''),
      read_excel_impact = Inl (IOError ''ethiopia_fi_unified_data.xlsx''),
      features_exists = False,
      read_features = Inl (IOError ''event_features.csv''),
      matrix_exists = True,
      read_matrix = Inl ValueError,
      long_exists = True,
      read_long = Inr forecast_example,
      wide_exists = True,
      read_wide = Inl ValueError\<rparr>"

definition files_example :: files where
  "files_example =
     \<lparr>enriched_exists = False,
      read_enriched = Inl (IOError ''ethiopia_fi_unified_data_enriched.csv''),
      read_excel_main = Inr unified_example,
      read_excel_impact = Inl ValueError,
      features_exists = True,
      read_features = Inl ValueError,
      matrix_exists = False,
      read_matrix = Inl (IOError ''event_indicator_matrix.csv''),
      long_exists = True,
      read_long = Inr forecast_example,
      wide_exists = False,
      read_wide = Inl (IOError ''forecast_2025_2027_wide.csv'')\<rparr>"

text \<open>
  The values that the pages draw as absent: \<^verbatim>\<open>None\<close> and the number 0, which is
  false as a condition.
\<close>

definition absent_like :: "pyval \<Rightarrow> bool" where
  "absent_like v = (v = None \<or> v = Some (Num 0))"

definition zero_observations :: dataframe where
  "zero_observations =
     \<lparr>columns = [''record_type'', ''indicator_code'', ''observation_date'', ''value_numeric''],
      rows = [obs_row ''ACC_OWNERSHIP'' (Timestamp (2014, 0)) (Num 22),
              obs_row ''ACC_OWNERSHIP'' (Timestamp (2017, 0)) (Num 0)],
      dtypes = (\<lambda>_. Object)(''observation_date'' := Datetime64, ''value_numeric'' := Number)\<rparr>"

definition ui_example :: ui where
  "ui_example = \<lparr>scenario_filter = ''base'', indicator_choice = 0\<rparr>"

definition year_dates_example :: "cell list \<Rightarrow> exn + cell list" where
  "year_dates_example ys =
     Inr (map (\<lambda>c. case c of Num v \<Rightarrow> Timestamp (\<lfloor>v\<rfloor>, 0) | _ \<Rightarrow> NA) ys)"

definition overview_rows :: "string \<Rightarrow> dataframe \<Rightarrow> row list" where
  "overview_rows s fl =
     filter (\<lambda>r. cell_eq (r ''indicator_code'') (Str ''ACC_OWNERSHIP'')
                  \<and> cell_eq (r ''scenario'') (Str s)) (rows fl)"

definition scenario_rows :: "cell \<Rightarrow> string \<Rightarrow> dataframe \<Rightarrow> row list" where
  "scenario_rows selected s fl =
     filter (\<lambda>r. cell_eq (r ''scenario'') (Str s))
       (filter (\<lambda>r. cell_eq (r ''indicator_code'') selected) (rows fl))"

text \<open>
  The forecast line of the Overview chart for a scenario: no trace when there is no
  forecast table or no row of \<open>ACC_OWNERSHIP\<close> for the scenario, and otherwise one
  trace, named after the scenario, that carries the forecast values of these rows.
\<close>

definition overview_line :: "string \<Rightarrow> dataframe option \<Rightarrow> trace list \<Rightarrow> bool" where
  "overview_line s fl fc =
     (length fc \<le> 1
      \<and> (fc = [] \<longleftrightarrow> (case fl of None \<Rightarrow> True | Some fl' \<Rightarrow> overview_rows s fl' = []))
      \<and> list_all (\<lambda>t. tname t = ''Forecast ('' @ s @ '')''
                      \<and> (case fl of
                            None \<Rightarrow> False
                          | Some fl' \<Rightarrow>
                              mset (ty t)
                                = mset (map (\<lambda>r. r ''forecast_value'') (overview_rows s fl'))))
           fc)"

text \<open>
  The line of the Forecasts chart for a scenario: no trace when the selected indicator
  has no row for the scenario, and otherwise one trace, with the label and the colour
  of the scenario, that carries the forecast values of these rows.
\<close>

definition drawn_for :: "cell \<Rightarrow> dataframe \<Rightarrow> string \<times> string \<times> string \<Rightarrow> trace list \<Rightarrow> bool" where
  "drawn_for selected fl =
     (\<lambda>(sc, label, color) ts.
        (ts = [] \<longleftrightarrow> scenario_rows selected sc fl = [])
        \<and> length ts \<le> 1
        \<and> list_all (\<lambda>t. tname t = label \<and> tcolor t = Some color
                        \<and> mset (ty t)
                            = mset (map (\<lambda>r. r ''forecast_value'')
                                      (scenario_rows selected sc fl))) ts)"

text \<open>
  The chart of the Forecasts page for the value of the indicator selector: no chart
  when the selector holds nothing or a value that is false as a condition, and
  otherwise one figure with the historical traces, the lines of the three scenarios in
  the order \<open>base\<close>, \<open>optimistic\<close>, \<open>pessimistic\<close>, and the traces of
  the uncertainty band.
\<close>

definition scenario_chart ::
  "(cell list \<Rightarrow> exn + cell list) \<Rightarrow> dataframe \<Rightarrow> dataframe option \<Rightarrow> pyval
     \<Rightarrow> widget list \<Rightarrow> bool" where
  "scenario_chart year_dates fl fw sel chart =
     (case sel of
        None \<Rightarrow> chart = []
      | Some selected \<Rightarrow>
          if truthy (Some selected)
          then (\<exists>hist scs band.
                  chart = [PlotlyChart
                             \<lparr>ftitle = [Val selected, Lit '': Historical + Forecast Scenarios''],
                              ftraces = hist @ concat scs @ band\<rparr>]
                  \<and> list_all (\<lambda>t. tname t = ''Historical'') hist
                  \<and> list_all2 (drawn_for selected fl) scenarios scs
                  \<and> band_traces year_dates fw selected = Inr band)
          else chart = [])"

definition ui_pessimistic :: ui where
  "ui_pessimistic = \<lparr>scenario_filter = ''pessimistic'', indicator_choice = 1\<rparr>"

text \<open>
  The long-form forecast table as the forecasting notebook writes it, the success of
  the conversion of its years to dates, and the absence of the uncertainty band among
  the traces of the charts of a page.
\<close>

definition forecast_long_table :: "dataframe \<Rightarrow> bool" where
  "forecast_long_table fl =
     (has_columns [''indicator_code'', ''year'', ''scenario'', ''forecast_value''] fl
      \<and> list_all (\<lambda>r. is_Num (r ''year'') \<or> is_NA (r ''year'')) (rows fl)
      \<and> list_all (\<lambda>r. is_Num (r ''forecast_value'') \<or> is_NA (r ''forecast_value''))
           (rows fl))"

definition years_convert :: "(cell list \<Rightarrow> exn + cell list) \<Rightarrow> dataframe \<Rightarrow> bool" where
  "years_convert year_dates fl =
     (\<forall>ys. set ys \<subseteq> set (map (\<lambda>r. r ''year'') (rows fl)) \<longrightarrow> \<not> isl (year_dates ys))"

definition no_band :: "widget list \<Rightarrow> bool" where
  "no_band ws =
     (\<forall>fig t. PlotlyChart fig \<in> set ws \<longrightarrow> t \<in> set (ftraces fig) \<longrightarrow>
        tfill t = None \<and> tname t \<noteq> ''Upper Bound'' \<and> tname t \<noteq> ''Uncertainty Band'')"

text \<open>
  A conversion of years to dates that, as the one of pandas, raises on a missing
  year (it is written \<open>nan\<close>, and \<open>nan-01-01\<close> is no date), and a long-form
  table with a missing year.
\<close>

definition year_dates_strict :: "cell list \<Rightarrow> exn + cell list" where
  "year_dates_strict ys =
     (if list_all is_Num ys
      then Inr (map (\<lambda>c. Timestamp (\<lfloor>the_Num c\<rfloor>, 0)) ys)
      else Inl ValueError)"

definition long_na_example :: dataframe where
  "long_na_example =
     \<lparr>columns = [''indicator_code'', ''year'', ''scenario'', ''forecast_value''],
      rows = [forecast_row ''X'' 2025 ''base'' 40,
              (forecast_row ''X'' 2026 ''base'' 45)(''year'' := NA)],
      dtypes = (\<lambda>_. Object)(''year'' := Number, ''forecast_value'' := Number)\<rparr>"

definition long_example :: dataframe where
  "long_example =
     \<lparr>columns = [''indicator_code'', ''year'', ''scenario'', ''forecast_value''],
      rows = [forecast_row ''X'' 2025 ''base'' 40, forecast_row ''X'' 2026 ''base'' 45],
      dtypes = (\<lambda>_. Object)(''year'' := Number, ''forecast_value'' := Number)\<rparr>"

section \<open>Facts about the data access layer\<close>

lemma bindE_Inl [simp]: "bindE (Inl e) f = Inl e"
  by (simp add: bindE_def)

lemma bindE_Inr [simp]: "bindE (Inr v) f = f v"
  by (simp add: bindE_def)

lemma bindE_eq_Inr:
  "bindE m f = Inr y \<longleftrightarrow> (\<exists>v. m = Inr v \<and> f v = Inr y)"
  by (cases m) simp_all

lemma bindE_InrE:
  assumes "bindE m f = Inr y"
  obtains v where "m = Inr v" and "f v = Inr y"
  using assms by (cases m) simp_all

lemma dropna_ok:
  "set cs \<subseteq> set (columns df) \<Longrightarrow>
     dropna cs df = Inr (select (\<lambda>r. list_all (\<lambda>c. notna (r c)) cs) df)"
proof -
  assume "set cs \<subseteq> set (columns df)"
  then have "filter (\<lambda>c. c \<notin> set (columns df)) cs = []"
    by (auto simp: filter_empty_conv)
  then show ?thesis by (simp add: dropna_def)
qed

lemma filter_all_id: "list_all P xs \<Longrightarrow> filter P xs = xs"
  by (induction xs) auto

lemma filter_all_nil: "list_all P xs \<Longrightarrow> filter (\<lambda>x. \<not> P x) xs = []"
  by (induction xs) auto

lemma sort_values_timestamps:
  assumes "c \<in> set (columns df)" and "list_all (\<lambda>r. is_Timestamp (r c)) (rows df)"
  shows "sort_values c df = Inr (df\<lparr>rows := sort_key (\<lambda>r. the_Timestamp (r c)) (rows df)\<rparr>)"
proof -
  have "list_all (\<lambda>r. notna (r c)) (rows df)"
    using assms(2) by (induction "rows df") (auto simp: notna_def list_all_iff)
  then have p: "filter (\<lambda>r. notna (r c)) (rows df) = rows df"
    and m: "filter (\<lambda>r. \<not> notna (r c)) (rows df) = []"
    by (simp_all add: filter_all_id filter_all_nil)
  have "list_all is_Timestamp (map (\<lambda>r. r c) (rows df))"
    using assms(2) by (simp add: list_all_iff)
  then show ?thesis
    using assms(1) by (simp add: sort_values_def p m)
qed

lemma get_indicator_series_rows_nil:
  "rows df = [] \<Longrightarrow> get_indicator_series df code = Inr DataFrame0"
  by (simp add: get_indicator_series_def is_empty_def)

lemma get_indicator_series_eq:
  assumes "observation_table df" and "rows df \<noteq> []"
  shows "get_indicator_series df code =
           Inr (df\<lparr>rows := sort_key obs_date (filter (in_series code) (rows df))\<rparr>)"
proof -
  from assms have cols: "''indicator_code'' \<in> set (columns df)"
      "''observation_date'' \<in> set (columns df)" "''value_numeric'' \<in> set (columns df)"
    and dt: "dates_or_missing (map (\<lambda>r. r ''observation_date'') (rows df))"
    by (simp_all add: observation_table_def has_columns_def)
  from cols have ne: "\<not> is_empty df"
    using assms(2) by (auto simp: is_empty_def)
  let ?sel = "select (\<lambda>r. cell_eq (r ''indicator_code'') code) df"
  let ?dropped = "select (\<lambda>r. list_all (\<lambda>c. notna (r c)) [''observation_date'', ''value_numeric'']) ?sel"
  have d: "dropna [''observation_date'', ''value_numeric''] ?sel = Inr ?dropped"
    using cols by (intro dropna_ok) (simp add: select_def)
  have rows_dropped: "rows ?dropped = filter (in_series code) (rows df)"
    by (auto simp: select_def in_series_def intro: filter_cong)
  have "list_all (\<lambda>r. is_Timestamp (r ''observation_date'')) (rows ?dropped)"
    unfolding rows_dropped using dt
    by (auto simp: list_all_iff dates_or_missing_def in_series_def notna_def)
  then have "sort_values ''observation_date'' ?dropped =
      Inr (?dropped\<lparr>rows := sort_key (\<lambda>r. the_Timestamp (r ''observation_date'')) (rows ?dropped)\<rparr>)"
    using cols by (intro sort_values_timestamps) (simp_all add: select_def)
  also have "\<dots> = Inr (df\<lparr>rows := sort_key obs_date (filter (in_series code) (rows df))\<rparr>)"
    unfolding rows_dropped by (simp add: select_def obs_date_def[abs_def])
  finally show ?thesis
    using ne cols d by (simp add: get_indicator_series_def)
qed

text \<open>
  Claim C1. On an observation table (the three columns \<open>indicator_code\<close>,
  \<open>observation_date\<close>, \<open>value_numeric\<close>, the dates parsed; or no rows at all)
  \<open>get_indicator_series\<close> does not fail. Its rows are the rows of the table whose
  code equals the given one and whose date and value are both present, each as often
  as in the table, in non-decreasing order of date; no row of the result has a missing
  date or value; and the result has no rows when the table is empty or the code does
  not occur in it.
\<close>

theorem get_indicator_series_spec:
  assumes "observation_table df"
  shows "\<exists>s. get_indicator_series df code = Inr s
           \<and> mset (rows s) = mset (filter (in_series code) (rows df))
           \<and> sorted (map obs_date (rows s))
           \<and> list_all (\<lambda>r. is_Timestamp (r ''observation_date'') \<and> notna (r ''value_numeric'')) (rows s)
           \<and> (is_empty df \<longrightarrow> rows s = [])
           \<and> (list_all (\<lambda>r. \<not> cell_eq (r ''indicator_code'') code) (rows df) \<longrightarrow> rows s = [])"
proof (cases "rows df = []")
  case True
  then show ?thesis
    by (simp add: get_indicator_series_rows_nil DataFrame0_def)
next
  case False
  let ?s = "df\<lparr>rows := sort_key obs_date (filter (in_series code) (rows df))\<rparr>"
  from assms False have dt: "dates_or_missing (map (\<lambda>r. r ''observation_date'') (rows df))"
    and cols: "columns df \<noteq> []"
    by (auto simp: observation_table_def has_columns_def)
  have eq: "get_indicator_series df code = Inr ?s"
    using assms False by (rule get_indicator_series_eq)
  have m: "mset (rows ?s) = mset (filter (in_series code) (rows df))"
    by simp
  have srt: "sorted (map obs_date (rows ?s))"
    by simp
  have ts: "list_all (\<lambda>r. is_Timestamp (r ''observation_date'') \<and> notna (r ''value_numeric'')) (rows ?s)"
    using dt by (auto simp: list_all_iff dates_or_missing_def in_series_def notna_def)
  have e: "is_empty df \<longrightarrow> rows ?s = []"
    using False cols by (simp add: is_empty_def)
  have a: "list_all (\<lambda>r. \<not> cell_eq (r ''indicator_code'') code) (rows df) \<longrightarrow> rows ?s = []"
    by (auto simp: list_all_iff in_series_def filter_empty_conv)
  from eq m srt ts e a show ?thesis by blast
qed

lemma obs_row_simps [simp]:
  "obs_row code d v ''record_type'' = Str ''observation''"
  "obs_row code d v ''indicator_code'' = Str code"
  "obs_row code d v ''observation_date'' = d"
  "obs_row code d v ''value_numeric'' = v"
  by (simp_all add: obs_row_def)

lemma observations_example_ok: "observation_table observations_example"
  by (simp add: observation_table_def has_columns_def observations_example_def
      dates_or_missing_def)

lemma series_example:
  "bindE (get_indicator_series observations_example (Str ''X''))
         (\<lambda>s. getcol s ''value_numeric'') = Inr [Num 10, Num 20, Num 30]"
proof -
  have ne: "rows observations_example \<noteq> []"
    by (simp add: observations_example_def)
  show ?thesis
    unfolding get_indicator_series_eq [OF observations_example_ok ne]
    by (simp add: getcol_def observations_example_def in_series_def
        cell_eq_def notna_def obs_date_def)
qed

lemma sorted_map_le_last:
  "sorted (map f xs) \<Longrightarrow> x \<in> set xs \<Longrightarrow> f x \<le> f (last xs)"
  by (induction xs) (auto split: if_splits)

lemma get_latest_value_rows_nil:
  "rows df = [] \<Longrightarrow> get_latest_value df code = Inr None"
  by (simp add: get_latest_value_def get_indicator_series_rows_nil DataFrame0_def is_empty_def)

lemma get_latest_value_eq:
  assumes "observation_table df" and "rows df \<noteq> []"
  shows "get_latest_value df code =
           (let rs = sort_key obs_date (filter (in_series code) (rows df))
            in if rs = [] then Inr None else Inr (Some (last rs ''value_numeric'')))"
proof -
  from assms have cols: "''value_numeric'' \<in> set (columns df)" "columns df \<noteq> []"
    by (auto simp: observation_table_def has_columns_def)
  show ?thesis
    unfolding get_latest_value_def get_indicator_series_eq [OF assms]
    using cols by (simp add: is_empty_def getcol_def iloc_last_def Let_def last_map)
qed

text \<open>
  Claim C2. On an observation table with at most one row for each pair of indicator
  code and observation date, \<open>get_latest_value\<close> returns nothing when the series of
  the code is empty; otherwise the series has a row of maximal date, and the result is
  the value of any such row.
\<close>

theorem get_latest_value_spec:
  assumes "observation_table df" and "unique_keys df"
  shows "\<exists>s. get_indicator_series df code = Inr s
           \<and> (rows s = [] \<longrightarrow> get_latest_value df code = Inr None)
           \<and> (rows s \<noteq> [] \<longrightarrow>
                (\<exists>r\<in>set (rows s). \<forall>r'\<in>set (rows s). obs_date r' \<le> obs_date r))
           \<and> (\<forall>r\<in>set (rows s). (\<forall>r'\<in>set (rows s). obs_date r' \<le> obs_date r) \<longrightarrow>
                get_latest_value df code = Inr (Some (r ''value_numeric'')))"
proof (cases "rows df = []")
  case True
  then show ?thesis
    by (simp add: get_indicator_series_rows_nil get_latest_value_rows_nil DataFrame0_def)
next
  case False
  let ?rs = "sort_key obs_date (filter (in_series code) (rows df))"
  let ?s = "df\<lparr>rows := ?rs\<rparr>"
  let ?key = "\<lambda>r. (r ''indicator_code'', r ''observation_date'')"
  have eq: "get_indicator_series df code = Inr ?s"
    using assms(1) False by (rule get_indicator_series_eq)
  have lv: "get_latest_value df code =
      (if ?rs = [] then Inr None else Inr (Some (last ?rs ''value_numeric'')))"
    using get_latest_value_eq [OF assms(1) False, of code] by (simp add: Let_def)
  have srt: "sorted (map obs_date ?rs)"
    by simp
  have sub: "set ?rs \<subseteq> set (filter (\<lambda>r. notna (r ''observation_date'')) (rows df))"
    by (auto simp: in_series_def)
  have inj: "inj_on ?key (set (filter (\<lambda>r. notna (r ''observation_date'')) (rows df)))"
    using assms(2) by (simp add: unique_keys_def distinct_map)
  from assms(1) False have dt: "dates_or_missing (map (\<lambda>r. r ''observation_date'') (rows df))"
    by (auto simp: observation_table_def)
  have key: "?key r = (code, Timestamp (obs_date r))" if "r \<in> set ?rs" for r
  proof -
    from that have "r \<in> set (rows df)" and "in_series code r" by auto
    with dt have "is_Timestamp (r ''observation_date'')" and "r ''indicator_code'' = code"
      by (auto simp: dates_or_missing_def list_all_iff in_series_def notna_def cell_eq_def)
    then show ?thesis by (simp add: obs_date_def)
  qed
  have empty: "rows ?s = [] \<longrightarrow> get_latest_value df code = Inr None"
    using lv by simp
  have ex: "rows ?s \<noteq> [] \<longrightarrow>
      (\<exists>r\<in>set (rows ?s). \<forall>r'\<in>set (rows ?s). obs_date r' \<le> obs_date r)"
  proof
    assume "rows ?s \<noteq> []"
    then have ne: "?rs \<noteq> []" by simp
    then have "last ?rs \<in> set ?rs" by (rule last_in_set)
    moreover have "\<forall>r'\<in>set ?rs. obs_date r' \<le> obs_date (last ?rs)"
      using sorted_map_le_last [OF srt] by blast
    ultimately show "\<exists>r\<in>set (rows ?s). \<forall>r'\<in>set (rows ?s). obs_date r' \<le> obs_date r"
      by auto
  qed
  have latest: "get_latest_value df code = Inr (Some (r ''value_numeric''))"
    if r: "r \<in> set ?rs" and mx: "\<forall>r'\<in>set ?rs. obs_date r' \<le> obs_date r" for r
  proof -
    from r have ne: "?rs \<noteq> []" by (metis empty_iff empty_set)
    then have l: "last ?rs \<in> set ?rs" by (rule last_in_set)
    have "obs_date r \<le> obs_date (last ?rs)"
      using srt r by (rule sorted_map_le_last)
    moreover have "obs_date (last ?rs) \<le> obs_date r"
      using mx l by blast
    ultimately have "obs_date r = obs_date (last ?rs)" by simp
    then have "?key r = ?key (last ?rs)"
      using key [OF r] key [OF l] by simp
    moreover from r l sub have "r \<in> set (filter (\<lambda>r. notna (r ''observation_date'')) (rows df))"
      and "last ?rs \<in> set (filter (\<lambda>r. notna (r ''observation_date'')) (rows df))"
      by blast+
    ultimately have "r = last ?rs"
      using inj by (meson inj_onD)
    then show ?thesis using lv ne by simp
  qed
  from eq empty ex latest show ?thesis
    by (intro exI [of _ ?s]) simp
qed

lemma get_forecast_value_None [simp]: "get_forecast_value None i y s = Inr None"
  by (simp add: get_forecast_value_def)

lemma get_forecast_value_eq:
  assumes "forecast_table df"
  shows "get_forecast_value (Some df) i y s =
           (case filter (matches i y s) (rows df) of
              [] \<Rightarrow> Inr None
            | r # _ \<Rightarrow> Inr (Some (r ''forecast_value'')))"
proof (cases "rows df = []")
  case True
  then show ?thesis by (simp add: get_forecast_value_def is_empty_def)
next
  case False
  with assms have "''indicator_code'' \<in> set (columns df)" "''year'' \<in> set (columns df)"
      "''scenario'' \<in> set (columns df)" "''forecast_value'' \<in> set (columns df)"
      "columns df \<noteq> []"
    by (auto simp: forecast_table_def has_columns_def)
  with False show ?thesis
    by (simp add: get_forecast_value_def is_empty_def select_def getcol_def iloc_first_def
        Let_def split: list.splits)
qed

lemma get_forecast_value_raises:
  "(\<exists>e. get_forecast_value (Some df) i y s = Inl e) \<longleftrightarrow>
     \<not> is_empty df
     \<and> (''indicator_code'' \<notin> set (columns df) \<or> ''year'' \<notin> set (columns df)
          \<or> ''scenario'' \<notin> set (columns df)
          \<or> (''forecast_value'' \<notin> set (columns df) \<and> list_ex (matches i y s) (rows df)))"
  by (auto simp: get_forecast_value_def is_empty_def select_def getcol_def iloc_first_def
      Let_def list_ex_iff filter_empty_conv split: list.splits)

lemma get_forecast_value_KeyError:
  "get_forecast_value fd i y s = Inl e \<Longrightarrow> \<exists>c. e = KeyError c"
  by (cases fd)
     (auto simp: get_forecast_value_def is_empty_def select_def getcol_def iloc_first_def
        Let_def split: if_splits list.splits)

text \<open>
  Claim C3, as amended. \<open>get_forecast_value\<close> returns nothing for an absent table.
  On a forecast table (the four columns \<open>indicator_code\<close>, \<open>year\<close>,
  \<open>scenario\<close>, \<open>forecast_value\<close>; or no rows at all) it never raises, returns
  nothing when no row has the three keys, and returns the forecast value of the row
  that has them when there is exactly one. It does raise on other tables, and only a
  KeyError: exactly when the table is not empty and lacks one of the three key columns,
  or lacks the \<open>forecast_value\<close> column while some row has the three keys. The
  numbers among the keys are of magnitude at most \<open>2^53\<close>.
\<close>

theorem get_forecast_value_spec:
  assumes "exact_keys df i y s"
  shows "get_forecast_value None i y s = Inr None
         \<and> (forecast_table df \<longrightarrow>
               (\<exists>v. get_forecast_value (Some df) i y s = Inr v)
               \<and> (list_all (\<lambda>r. \<not> matches i y s r) (rows df) \<longrightarrow>
                    get_forecast_value (Some df) i y s = Inr None)
               \<and> (\<forall>r. filter (matches i y s) (rows df) = [r] \<longrightarrow>
                    get_forecast_value (Some df) i y s = Inr (Some (r ''forecast_value''))))
         \<and> ((\<exists>e. get_forecast_value (Some df) i y s = Inl e) \<longleftrightarrow>
               \<not> is_empty df
               \<and> (''indicator_code'' \<notin> set (columns df) \<or> ''year'' \<notin> set (columns df)
                    \<or> ''scenario'' \<notin> set (columns df)
                    \<or> (''forecast_value'' \<notin> set (columns df)
                        \<and> list_ex (matches i y s) (rows df))))
         \<and> (\<forall>e. get_forecast_value (Some df) i y s = Inl e \<longrightarrow> (\<exists>c. e = KeyError c))"
proof (intro conjI impI allI)
  show "get_forecast_value None i y s = Inr None"
    by simp
next
  assume ft: "forecast_table df"
  show "\<exists>v. get_forecast_value (Some df) i y s = Inr v"
    by (simp add: get_forecast_value_eq [OF ft] split: list.splits)
  {
    assume "list_all (\<lambda>r. \<not> matches i y s r) (rows df)"
    then have "filter (matches i y s) (rows df) = []"
      by (auto simp: list_all_iff filter_empty_conv)
    then show "get_forecast_value (Some df) i y s = Inr None"
      by (simp add: get_forecast_value_eq [OF ft])
  }
  {
    fix r
    assume "filter (matches i y s) (rows df) = [r]"
    then show "get_forecast_value (Some df) i y s = Inr (Some (r ''forecast_value''))"
      by (simp add: get_forecast_value_eq [OF ft])
  }
next
  show "(\<exists>e. get_forecast_value (Some df) i y s = Inl e) \<longleftrightarrow>
               \<not> is_empty df
               \<and> (''indicator_code'' \<notin> set (columns df) \<or> ''year'' \<notin> set (columns df)
                    \<or> ''scenario'' \<notin> set (columns df)
                    \<or> (''forecast_value'' \<notin> set (columns df)
                        \<and> list_ex (matches i y s) (rows df)))"
    by (rule get_forecast_value_raises)
next
  fix e
  assume "get_forecast_value (Some df) i y s = Inl e"
  then show "\<exists>c. e = KeyError c"
    by (rule get_forecast_value_KeyError)
qed

theorem get_indicator_series_spec_witness:
  "observation_table observations_example
   \<and> (\<exists>s. get_indicator_series observations_example (Str ''X'') = Inr s
          \<and> mset (rows s) = mset (filter (in_series (Str ''X'')) (rows observations_example))
          \<and> sorted (map obs_date (rows s))
          \<and> map (\<lambda>r. r ''value_numeric'') (rows s) = [Num 10, Num 20, Num 30])"
proof -
  from get_indicator_series_spec [OF observations_example_ok, of "Str ''X''"]
  obtain s where s: "get_indicator_series observations_example (Str ''X'') = Inr s"
    and m: "mset (rows s) = mset (filter (in_series (Str ''X'')) (rows observations_example))"
    and srt: "sorted (map obs_date (rows s))"
    by blast
  from series_example s have v: "map (\<lambda>r. r ''value_numeric'') (rows s) = [Num 10, Num 20, Num 30]"
    by (simp add: getcol_def split: if_splits)
  show ?thesis
    by (intro conjI exI [of _ s]) (fact observations_example_ok s m srt v)+
qed

lemma observations_example_unique: "unique_keys observations_example"
  by (simp add: unique_keys_def observations_example_def notna_def)

theorem get_latest_value_spec_witness:
  "observation_table observations_example \<and> unique_keys observations_example
   \<and> (\<exists>s. get_indicator_series observations_example (Str ''X'') = Inr s
          \<and> obs_row ''X'' (Timestamp (2022, 0)) (Num 30) \<in> set (rows s)
          \<and> list_all (\<lambda>r'. obs_date r' \<le> (2022, 0)) (rows s))
   \<and> get_latest_value observations_example (Str ''X'') = Inr (Some (Num 30))"
proof -
  let ?r = "obs_row ''X'' (Timestamp (2022, 0)) (Num 30)"
  from get_latest_value_spec [OF observations_example_ok observations_example_unique, of "Str ''X''"]
  obtain s where s: "get_indicator_series observations_example (Str ''X'') = Inr s"
    and mx: "\<forall>r\<in>set (rows s). (\<forall>r'\<in>set (rows s). obs_date r' \<le> obs_date r) \<longrightarrow>
        get_latest_value observations_example (Str ''X'') = Inr (Some (r ''value_numeric''))"
    by blast
  have ne: "rows observations_example \<noteq> []"
    by (simp add: observations_example_def)
  from s have rs: "rows s = sort_key obs_date (filter (in_series (Str ''X'')) (rows observations_example))"
    unfolding get_indicator_series_eq [OF observations_example_ok ne] by auto
  have mem: "?r \<in> set (rows s)"
    unfolding rs by (simp add: observations_example_def in_series_def cell_eq_def notna_def obs_date_def)
  have le: "\<forall>r'\<in>set (rows s). obs_date r' \<le> obs_date ?r"
    unfolding rs by (simp add: observations_example_def in_series_def cell_eq_def notna_def obs_date_def)
  have v: "?r ''value_numeric'' = Num 30"
    by simp
  from mx mem le have lv: "get_latest_value observations_example (Str ''X'') = Inr (Some (?r ''value_numeric''))"
    by blast
  have le': "list_all (\<lambda>r'. obs_date r' \<le> (2022, 0)) (rows s)"
    using le by (simp add: list_all_iff obs_date_def)
  from lv have lv': "get_latest_value observations_example (Str ''X'') = Inr (Some (Num 30))"
    unfolding v .
  show ?thesis
    by (intro conjI exI [of _ s])
       (fact observations_example_ok observations_example_unique s mem le' lv')+
qed

lemma forecast_example_ok: "forecast_table forecast_example"
  by (simp add: forecast_table_def has_columns_def forecast_example_def)

theorem get_forecast_value_spec_witness:
  "forecast_table forecast_example
   \<and> exact_keys forecast_example (Str ''ACC_OWNERSHIP'') (Num 2027) (Str ''base'')
   \<and> get_forecast_value (Some forecast_example) (Str ''ACC_OWNERSHIP'') (Num 2027) (Str ''base'')
       = Inr (Some (Num 58))
   \<and> exact_keys forecast_example (Str ''ACC_OWNERSHIP'') (Num 2030) (Str ''base'')
   \<and> get_forecast_value (Some forecast_example) (Str ''ACC_OWNERSHIP'') (Num 2030) (Str ''base'')
       = Inr None"
proof -
  have k: "exact_keys forecast_example (Str ''ACC_OWNERSHIP'') (Num 2027) (Str ''base'')"
    and k': "exact_keys forecast_example (Str ''ACC_OWNERSHIP'') (Num 2030) (Str ''base'')"
    by (simp_all add: exact_keys_def exact_number_def forecast_example_def forecast_row_def)
  have one: "filter (matches (Str ''ACC_OWNERSHIP'') (Num 2027) (Str ''base'')) (rows forecast_example)
      = [forecast_row ''ACC_OWNERSHIP'' 2027 ''base'' 58]"
    by (simp add: forecast_example_def forecast_row_def matches_def cell_eq_def)
  have none: "list_all (\<lambda>r. \<not> matches (Str ''ACC_OWNERSHIP'') (Num 2030) (Str ''base'') r)
      (rows forecast_example)"
    by (simp add: forecast_example_def forecast_row_def matches_def cell_eq_def)
  have v: "forecast_row ''ACC_OWNERSHIP'' 2027 ''base'' 58 ''forecast_value'' = Num 58"
    by (simp add: forecast_row_def)
  from get_forecast_value_spec [OF k] forecast_example_ok one
  have a: "get_forecast_value (Some forecast_example) (Str ''ACC_OWNERSHIP'') (Num 2027)
      (Str ''base'') = Inr (Some (forecast_row ''ACC_OWNERSHIP'' 2027 ''base'' 58 ''forecast_value''))"
    by blast
  from get_forecast_value_spec [OF k'] forecast_example_ok none
  have b: "get_forecast_value (Some forecast_example) (Str ''ACC_OWNERSHIP'') (Num 2030)
      (Str ''base'') = Inr None"
    by blast
  from a have a': "get_forecast_value (Some forecast_example) (Str ''ACC_OWNERSHIP'') (Num 2027)
      (Str ''base'') = Inr (Some (Num 58))"
    unfolding v .
  show ?thesis
    by (intro conjI) (fact forecast_example_ok k k' a' b)+
qed

text \<open>
  Claim C3 as stated has the lookup raise on no input. The loader does not check the
  schema of the forecast file; on a table without the \<open>scenario\<close> column the lookup
  raises KeyError, and on a table without the \<open>forecast_value\<close> column it raises
  KeyError when a row has the three keys.
\<close>

theorem get_forecast_value_raises_counterexample:
  "get_forecast_value (Some no_scenario_example) (Str ''ACC_OWNERSHIP'') (Num 2027) (Str ''base'')
     = Inl (KeyError ''scenario'')
   \<and> get_forecast_value (Some no_value_example) (Str ''X'') (Num 2025) (Str ''base'')
     = Inl (KeyError ''forecast_value'')"
  by (simp add: get_forecast_value_def is_empty_def no_scenario_example_def
      no_value_example_def select_def matches_def cell_eq_def forecast_row_def getcol_def)

section \<open>Facts about the two filters\<close>

lemma get_observations_h_refines:
  "a < length h \<Longrightarrow> refines (get_observations_h h a) h (get_observations (h ! a))"
  by (simp add: refines_def get_observations_h_def get_observations_def alloc_def
      assign_column_def Let_def nth_append select_def)

lemma get_events_h_refines:
  "a < length h \<Longrightarrow> refines (get_events_h parse h a) h (get_events parse (h ! a))"
  by (simp add: refines_def get_events_h_def get_events_def alloc_def
      assign_column_def Let_def nth_append select_def)

lemma get_observations_rows_nil:
  "rows df = [] \<Longrightarrow> get_observations df = Inr DataFrame0"
  by (simp add: get_observations_def is_empty_def)

lemma get_events_rows_nil:
  "rows df = [] \<Longrightarrow> get_events parse df = Inr DataFrame0"
  by (simp add: get_events_def is_empty_def)

lemma get_observations_eq:
  assumes "unified_table df" and "rows df \<noteq> []"
  shows "get_observations df =
           Inr (if ''observation_date'' \<in> set (columns df)
                then set_column ''year'' Number (\<lambda>r. dt_year (r ''observation_date''))
                       (select is_observation df)
                else select is_observation df)"
  using assms
  by (auto simp: get_observations_def unified_table_def has_record_type_def is_empty_def
      select_def Let_def)

lemma get_events_eq:
  assumes "has_record_type df" and "rows df \<noteq> []"
  shows "get_events parse df =
           Inr (let events = select is_event df; date_col = date_col_of events
                in if date_col \<in> set (columns df)
                   then set_column ''event_date_parsed'' Datetime64 (\<lambda>r. r date_col)
                          (set_column date_col Datetime64
                             (\<lambda>r. to_datetime parse (r date_col)) events)
                   else events)"
  using assms
  by (auto simp: get_events_def has_record_type_def is_empty_def select_def Let_def)

lemma is_observation_not_event: "is_observation r \<Longrightarrow> \<not> is_event r"
  by (auto simp: is_observation_def is_event_def cell_eq_def)

lemma mset_three_way:
  "mset xs = mset (filter P xs) + mset (filter Q xs)
             + mset (filter (\<lambda>x. \<not> P x \<and> \<not> Q x) xs)"
  if "\<And>x. P x \<Longrightarrow> \<not> Q x"
  using that by (induction xs) auto

lemma list_all2_map_same:
  "list_all2 P xs (map f xs) = list_all (\<lambda>x. P x (f x)) xs"
  by (induction xs) auto

lemma date_col_of_cases:
  "date_col_of df = ''event_date'' \<or> date_col_of df = ''observation_date''"
  by (simp add: date_col_of_def)

lemma get_observations_rows:
  assumes "unified_table df"
  shows "\<exists>obs. get_observations df = Inr obs
           \<and> list_all2 (agree_except [''year'']) (filter is_observation (rows df)) (rows obs)"
proof (cases "rows df = []")
  case True
  then show ?thesis by (simp add: get_observations_rows_nil DataFrame0_def)
next
  case False
  show ?thesis
    unfolding get_observations_eq [OF assms False]
    by (auto simp: select_def set_column_def list_all2_map_same list_all_iff agree_except_def
        list_all2_same)
qed

lemma get_events_rows:
  assumes "has_record_type df"
  shows "\<exists>ev. get_events parse df = Inr ev
           \<and> list_all2 (agree_except [''event_date'', ''observation_date'', ''event_date_parsed''])
                (filter is_event (rows df)) (rows ev)"
proof (cases "rows df = []")
  case True
  then show ?thesis by (simp add: get_events_rows_nil DataFrame0_def)
next
  case False
  show ?thesis
    unfolding get_events_eq [OF assms False]
    using date_col_of_cases [of "select is_event df"]
    by (auto simp: select_def set_column_def list_all2_map_same list_all_iff agree_except_def
        list_all2_same Let_def)
qed

lemma agree_except_is_observation:
  "agree_except cs r r' \<Longrightarrow> ''record_type'' \<notin> set cs \<Longrightarrow> is_observation r' = is_observation r"
  by (simp add: agree_except_def is_observation_def)

lemma agree_except_is_event:
  "agree_except cs r r' \<Longrightarrow> ''record_type'' \<notin> set cs \<Longrightarrow> is_event r' = is_event r"
  by (simp add: agree_except_def is_event_def)

lemma list_all2_filter_all:
  assumes "list_all2 R (filter P xs) ys" and "\<And>x y. R x y \<Longrightarrow> Q y = P x"
  shows "list_all Q ys"
proof -
  have "\<forall>y\<in>set ys. \<exists>x\<in>set (filter P xs). R x y"
    using assms(1) by (metis in_set_conv_nth list_all2_conv_all_nth)
  then show ?thesis
    using assms(2) by (auto simp: list_all_iff)
qed

text \<open>
  Claim C4. On a unified table (it has the \<open>record_type\<close> column, and its
  \<open>observation_date\<close> column, when there is one, has been parsed and is of dtype
  datetime64, as \<open>load_unified_data\<close> leaves it) both filters return. The rows of \<open>get_observations\<close> are, in order and one for one, the rows of
  record type \<open>observation\<close>, unchanged outside the derived \<open>year\<close> column; the rows
  of \<open>get_events\<close> are likewise the rows of record type \<open>event\<close>, unchanged outside
  the date columns. Every row of the first result is an observation, every row of the
  second an event, the two results share no row, and the rows of the table split into
  observations, events and the rows of any other record type, which are in neither.
\<close>

theorem record_type_partition:
  assumes "unified_table df"
  shows "\<exists>obs ev. get_observations df = Inr obs \<and> get_events parse df = Inr ev
           \<and> list_all2 (agree_except [''year'']) (filter is_observation (rows df)) (rows obs)
           \<and> list_all2 (agree_except [''event_date'', ''observation_date'', ''event_date_parsed''])
                (filter is_event (rows df)) (rows ev)
           \<and> list_all is_observation (rows obs)
           \<and> list_all is_event (rows ev)
           \<and> set (rows obs) \<inter> set (rows ev) = {}
           \<and> mset (rows df) =
                mset (filter is_observation (rows df)) + mset (filter is_event (rows df))
                + mset (filter (\<lambda>r. \<not> is_observation r \<and> \<not> is_event r) (rows df))"
proof -
  from assms have rt: "has_record_type df"
    by (simp add: unified_table_def)
  from get_observations_rows [OF assms] obtain obs where
    obs: "get_observations df = Inr obs"
    and o2: "list_all2 (agree_except [''year'']) (filter is_observation (rows df)) (rows obs)"
    by blast
  from get_events_rows [OF rt] obtain ev where
    ev: "get_events parse df = Inr ev"
    and e2: "list_all2 (agree_except [''event_date'', ''observation_date'', ''event_date_parsed''])
                (filter is_event (rows df)) (rows ev)"
    by blast
  have ao: "list_all is_observation (rows obs)"
    using o2 by (rule list_all2_filter_all) (simp add: agree_except_is_observation)
  have ae: "list_all is_event (rows ev)"
    using e2 by (rule list_all2_filter_all) (simp add: agree_except_is_event)
  have dj: "set (rows obs) \<inter> set (rows ev) = {}"
    using ao ae is_observation_not_event by (auto simp: list_all_iff)
  have ms: "mset (rows df) =
      mset (filter is_observation (rows df)) + mset (filter is_event (rows df))
      + mset (filter (\<lambda>r. \<not> is_observation r \<and> \<not> is_event r) (rows df))"
    by (rule mset_three_way) (rule is_observation_not_event)
  show ?thesis
    by (intro exI [of _ obs] exI [of _ ev] conjI) (fact obs ev o2 e2 ao ae dj ms)+
qed


lemma mk_row_Cons [simp]:
  "mk_row ((k, v) # kvs) c = (if c = k then v else mk_row kvs c)"
  by (simp add: mk_row_def)

lemma mk_row_Nil [simp]: "mk_row [] c = NA"
  by (simp add: mk_row_def)

lemma unified_example_ok: "unified_table unified_example"
  by (simp add: unified_table_def has_record_type_def unified_example_def)

lemma unified_example_rows: "rows unified_example \<noteq> []"
  by (simp add: unified_example_def)

lemma unified_example_counts:
  "length (filter is_observation (rows unified_example)) = 1"
  "length (filter is_event (rows unified_example)) = 2"
  "length (filter (\<lambda>r. \<not> is_observation r \<and> \<not> is_event r) (rows unified_example)) = 1"
  by (simp_all add: unified_example_def is_observation_def is_event_def cell_eq_def)

lemma to_datetime_unparseable:
  "\<not> is_Timestamp c \<Longrightarrow> parse c = None \<Longrightarrow> to_datetime parse c = NA"
  by (cases c) (simp_all add: to_datetime_def)

text \<open>
  Claim C6, as amended. \<open>get_events\<close> picks one date column for the whole table:
  \<open>event_date\<close> when that column exists and some event row has a value in it,
  \<open>observation_date\<close> otherwise. The \<open>event_date_parsed\<close> of every event row is
  the parsed cell of that row in the chosen column; when the chosen column does not
  exist the events are returned as selected, with no \<open>event_date_parsed\<close> column
  added. A cell that is no timestamp and that the parser rejects becomes a missing
  date; nothing is raised.
\<close>

theorem event_date_parsed_spec:
  assumes "has_record_type df"
  shows "\<exists>ev. get_events parse df = Inr ev \<and>
           (let es = filter is_event (rows df) in
            if rows df = [] then ev = DataFrame0
            else if ''event_date'' \<in> set (columns df) \<and> list_ex (\<lambda>r. notna (r ''event_date'')) es
            then ''event_date_parsed'' \<in> set (columns ev)
                 \<and> map (\<lambda>r. r ''event_date_parsed'') (rows ev)
                     = map (\<lambda>r. to_datetime parse (r ''event_date'')) es
            else if ''observation_date'' \<in> set (columns df)
            then ''event_date_parsed'' \<in> set (columns ev)
                 \<and> map (\<lambda>r. r ''event_date_parsed'') (rows ev)
                     = map (\<lambda>r. to_datetime parse (r ''observation_date'')) es
            else ev = select is_event df)
           \<and> (\<forall>c. \<not> is_Timestamp c \<and> parse c = None \<longrightarrow> to_datetime parse c = NA)"
proof (cases "rows df = []")
  case True
  then show ?thesis
    by (simp add: get_events_rows_nil to_datetime_unparseable)
next
  case False
  show ?thesis
    unfolding get_events_eq [OF assms False]
    using False
    by (auto simp: Let_def date_col_of_def select_def set_column_def to_datetime_unparseable)
qed

lemma get_events_example:
  "get_events parse_example unified_example =
     Inr (set_column ''event_date_parsed'' Datetime64 (\<lambda>r. r ''event_date'')
           (set_column ''event_date'' Datetime64
              (\<lambda>r. to_datetime parse_example (r ''event_date''))
              (select is_event unified_example)))"
proof -
  have rt: "has_record_type unified_example"
    using unified_example_ok by (simp add: unified_table_def)
  have "date_col_of (select is_event unified_example) = ''event_date''"
    by (simp add: date_col_of_def select_def unified_example_def is_event_def cell_eq_def notna_def)
  then show ?thesis
    unfolding get_events_eq [OF rt unified_example_rows]
    by (simp add: Let_def select_def unified_example_def)
qed

theorem event_date_parsed_spec_witness:
  "has_record_type unified_example
   \<and> bindE (get_events parse_example unified_example) (\<lambda>ev. getcol ev ''event_date_parsed'')
       = Inr [Timestamp (2021, 130), NA]"
proof -
  have rt: "has_record_type unified_example"
    using unified_example_ok by (simp add: unified_table_def)
  from event_date_parsed_spec [OF rt, of parse_example]
  obtain ev where ev: "get_events parse_example unified_example = Inr ev"
    and c: "let es = filter is_event (rows unified_example) in
            if rows unified_example = [] then ev = DataFrame0
            else if ''event_date'' \<in> set (columns unified_example) \<and> list_ex (\<lambda>r. notna (r ''event_date'')) es
            then ''event_date_parsed'' \<in> set (columns ev)
                 \<and> map (\<lambda>r. r ''event_date_parsed'') (rows ev)
                     = map (\<lambda>r. to_datetime parse_example (r ''event_date'')) es
            else if ''observation_date'' \<in> set (columns unified_example)
            then ''event_date_parsed'' \<in> set (columns ev)
                 \<and> map (\<lambda>r. r ''event_date_parsed'') (rows ev)
                     = map (\<lambda>r. to_datetime parse_example (r ''observation_date'')) es
            else ev = select is_event unified_example"
    by blast
  from c have "''event_date_parsed'' \<in> set (columns ev)
      \<and> map (\<lambda>r. r ''event_date_parsed'') (rows ev) = [Timestamp (2021, 130), NA]"
    by (simp add: unified_example_def is_event_def cell_eq_def notna_def to_datetime_def
        parse_example_def)
  with ev rt show ?thesis
    by (simp add: getcol_def)
qed

text \<open>
  Claim C6 as stated asks for a fallback row by row. In the example the second event
  has no \<open>event_date\<close> but an \<open>observation_date\<close>; since the first event has an
  \<open>event_date\<close>, the second one gets a missing \<open>event_date_parsed\<close>, not its
  observation date.
\<close>

theorem event_date_per_row_counterexample:
  "map (\<lambda>r. (r ''event_date'', r ''observation_date'')) (filter is_event (rows unified_example))
     = [(Str ''2021-05-11'', Timestamp (2021, 7)), (NA, Timestamp (2020, 0))]
   \<and> map (per_row_fallback parse_example) (filter is_event (rows unified_example))
     = [Timestamp (2021, 130), Timestamp (2020, 0)]
   \<and> bindE (get_events parse_example unified_example) (\<lambda>ev. getcol ev ''event_date_parsed'')
     = Inr [Timestamp (2021, 130), NA]"
  unfolding get_events_example
  by (simp add: getcol_def set_column_def select_def unified_example_def is_event_def
      cell_eq_def notna_def to_datetime_def parse_example_def per_row_fallback_def)


lemma refines_Inr:
  assumes "refines res h (Inr df)"
  shows "\<exists>a h'. res = Inr (a, h') \<and> a = length h \<and> length h' = Suc (length h)
           \<and> take (length h) h' = h \<and> h' ! a = df"
  using assms by (cases res) (auto simp: refines_def)

lemma get_observations_unparsed:
  assumes "rows df \<noteq> []" and "''record_type'' \<in> set (columns df)"
    and "''observation_date'' \<in> set (columns df)"
    and "dtypes df ''observation_date'' \<noteq> Datetime64"
  shows "get_observations df = Inl AttributeError"
  using assms by (auto simp: get_observations_def is_empty_def select_def Let_def)

lemma get_observations_result:
  assumes "unified_table df"
  shows "\<exists>obs. get_observations df = Inr obs
           \<and> (if rows df = [] then obs = DataFrame0
               else if ''observation_date'' \<in> set (columns df)
               then rows obs = map with_year (filter is_observation (rows df))
                    \<and> columns obs = add_column ''year'' (columns df)
               else obs = select is_observation df)"
proof (cases "rows df = []")
  case True
  then show ?thesis by (simp add: get_observations_rows_nil)
next
  case False
  show ?thesis
    unfolding get_observations_eq [OF assms False]
    using False by (simp add: set_column_def select_def with_year_def add_column_def)
qed

lemma get_events_result:
  assumes "has_record_type df"
  shows "\<exists>ev. get_events parse df = Inr ev
           \<and> (let es = filter is_event (rows df);
                   c = (if ''event_date'' \<in> set (columns df)
                           \<and> list_ex (\<lambda>r. notna (r ''event_date'')) es
                        then ''event_date'' else ''observation_date'')
               in if rows df = [] then ev = DataFrame0
                  else if c \<in> set (columns df)
                  then rows ev = map (with_parsed parse c) es
                       \<and> columns ev = add_column ''event_date_parsed'' (columns df)
                  else ev = select is_event df)"
proof (cases "rows df = []")
  case True
  then show ?thesis by (simp add: get_events_rows_nil Let_def)
next
  case False
  show ?thesis
    unfolding get_events_eq [OF assms False]
    using False
    by (auto simp: Let_def date_col_of_def set_column_def select_def with_parsed_def
        add_column_def)
qed

text \<open>
  Claim C7, as amended. Called on a unified table of the store, both filters return a
  new table and leave every table that was in the store, their argument among them,
  as it was. The new table is no bare selection. For the empty argument it is the
  empty table without columns. Otherwise the rows of \<open>get_observations\<close> are, in
  order, the observation rows with the year of their observation date written to
  \<open>year\<close>, a column that is appended when it is new (the bare selection when there
  is no \<open>observation_date\<close> column); the rows of \<open>get_events\<close> are, in order, the
  event rows with the parsed date of the chosen date column written to that column and
  to \<open>event_date_parsed\<close>, a column that is appended when it is new (the bare
  selection when the chosen date column does not exist). So the rows agree with the
  selected rows on every column but \<open>year\<close> (observations) and \<open>event_date\<close>,
  \<open>observation_date\<close>, \<open>event_date_parsed\<close> (events).
\<close>

theorem filters_leave_input_unchanged:
  assumes "df_main < length h" and "unified_table (h ! df_main)"
  shows "\<exists>obs h1 events h2.
           get_observations_h h df_main = Inr (obs, h1)
           \<and> get_events_h parse h df_main = Inr (events, h2)
           \<and> take (length h) h1 = h \<and> take (length h) h2 = h
           \<and> h1 ! df_main = h ! df_main \<and> h2 ! df_main = h ! df_main
           \<and> obs = length h \<and> events = length h
           \<and> (let df = h ! df_main in
               if rows df = [] then h1 ! obs = DataFrame0
               else if ''observation_date'' \<in> set (columns df)
               then rows (h1 ! obs) = map with_year (filter is_observation (rows df))
                    \<and> columns (h1 ! obs) = add_column ''year'' (columns df)
               else h1 ! obs = select is_observation df)
           \<and> (let df = h ! df_main;
                   es = filter is_event (rows df);
                   c = (if ''event_date'' \<in> set (columns df)
                           \<and> list_ex (\<lambda>r. notna (r ''event_date'')) es
                        then ''event_date'' else ''observation_date'')
               in if rows df = [] then h2 ! events = DataFrame0
                  else if c \<in> set (columns df)
                  then rows (h2 ! events) = map (with_parsed parse c) es
                       \<and> columns (h2 ! events) = add_column ''event_date_parsed'' (columns df)
                  else h2 ! events = select is_event df)
           \<and> list_all2 (agree_except [''year''])
                (filter is_observation (rows (h ! df_main))) (rows (h1 ! obs))
           \<and> list_all2 (agree_except [''event_date'', ''observation_date'', ''event_date_parsed''])
                (filter is_event (rows (h ! df_main))) (rows (h2 ! events))"
proof -
  from assms(2) have rt: "has_record_type (h ! df_main)"
    by (simp add: unified_table_def)
  from get_observations_result [OF assms(2)] obtain o_df where
    o1: "get_observations (h ! df_main) = Inr o_df"
    and o4: "if rows (h ! df_main) = [] then o_df = DataFrame0
               else if ''observation_date'' \<in> set (columns (h ! df_main))
               then rows o_df = map with_year (filter is_observation (rows (h ! df_main)))
                    \<and> columns o_df = add_column ''year'' (columns (h ! df_main))
               else o_df = select is_observation (h ! df_main)"
    by blast
  from get_observations_rows [OF assms(2)] o1 have
    o2: "list_all2 (agree_except [''year''])
               (filter is_observation (rows (h ! df_main))) (rows o_df)"
    by simp
  from get_events_result [OF rt, of parse] obtain e_df where
    e1: "get_events parse (h ! df_main) = Inr e_df"
    and e4: "let es = filter is_event (rows (h ! df_main));
                   c = (if ''event_date'' \<in> set (columns (h ! df_main))
                           \<and> list_ex (\<lambda>r. notna (r ''event_date'')) es
                        then ''event_date'' else ''observation_date'')
               in if rows (h ! df_main) = [] then e_df = DataFrame0
                  else if c \<in> set (columns (h ! df_main))
                  then rows e_df = map (with_parsed parse c) es
                       \<and> columns e_df = add_column ''event_date_parsed'' (columns (h ! df_main))
                  else e_df = select is_event (h ! df_main)"
    by blast
  from get_events_rows [OF rt, of parse] e1 have
    e2: "list_all2 (agree_except [''event_date'', ''observation_date'', ''event_date_parsed''])
               (filter is_event (rows (h ! df_main))) (rows e_df)"
    by simp
  from get_observations_h_refines [OF assms(1)] o1
  obtain obs h1 where ro: "get_observations_h h df_main = Inr (obs, h1)"
    and ao: "obs = length h" and to: "take (length h) h1 = h" and vo: "h1 ! obs = o_df"
    using refines_Inr by metis
  from get_events_h_refines [OF assms(1), of parse] e1
  obtain events h2 where re: "get_events_h parse h df_main = Inr (events, h2)"
    and ae: "events = length h" and te: "take (length h) h2 = h" and ve: "h2 ! events = e_df"
    using refines_Inr by metis
  have so: "h1 ! df_main = h ! df_main"
    using assms(1) to by (metis nth_take)
  have se: "h2 ! df_main = h ! df_main"
    using assms(1) te by (metis nth_take)
  from o2 vo have o3: "list_all2 (agree_except [''year''])
      (filter is_observation (rows (h ! df_main))) (rows (h1 ! obs))"
    by simp
  from e2 ve have e3: "list_all2 (agree_except [''event_date'', ''observation_date'', ''event_date_parsed''])
      (filter is_event (rows (h ! df_main))) (rows (h2 ! events))"
    by simp
  from o4 vo have o5: "let df = h ! df_main in
               if rows df = [] then h1 ! obs = DataFrame0
               else if ''observation_date'' \<in> set (columns df)
               then rows (h1 ! obs) = map with_year (filter is_observation (rows df))
                    \<and> columns (h1 ! obs) = add_column ''year'' (columns df)
               else h1 ! obs = select is_observation df"
    by (simp add: Let_def)
  from e4 ve have e5: "let df = h ! df_main;
                   es = filter is_event (rows df);
                   c = (if ''event_date'' \<in> set (columns df)
                           \<and> list_ex (\<lambda>r. notna (r ''event_date'')) es
                        then ''event_date'' else ''observation_date'')
               in if rows df = [] then h2 ! events = DataFrame0
                  else if c \<in> set (columns df)
                  then rows (h2 ! events) = map (with_parsed parse c) es
                       \<and> columns (h2 ! events) = add_column ''event_date_parsed'' (columns df)
                  else h2 ! events = select is_event df"
    by (simp add: Let_def)
  show ?thesis
    by (intro exI [of _ obs] exI [of _ h1] exI [of _ events] exI [of _ h2] conjI)
       (fact ro re to te so se ao ae o5 e5 o3 e3)+
qed

theorem filters_leave_input_unchanged_witness:
  "(0::nat) < length [unified_example] \<and> unified_table ([unified_example] ! 0)
   \<and> (\<exists>h1 h2. get_observations_h [unified_example] 0 = Inr (1, h1)
         \<and> get_events_h parse_example [unified_example] 0 = Inr (1, h2)
         \<and> h1 ! 0 = unified_example \<and> h2 ! 0 = unified_example
         \<and> map (\<lambda>r. r ''year'') (rows (h1 ! 1)) = [Num 2021]
         \<and> columns (h1 ! 1) = columns unified_example @ [''year'']
         \<and> map (\<lambda>r. r ''event_date'') (rows (h2 ! 1)) = [Timestamp (2021, 130), NA]
         \<and> map (\<lambda>r. r ''event_date_parsed'') (rows (h2 ! 1)) = [Timestamp (2021, 130), NA]
         \<and> columns (h2 ! 1) = columns unified_example @ [''event_date_parsed''])"
proof -
  have a: "(0::nat) < length [unified_example]" and u: "unified_table ([unified_example] ! 0)"
    by (simp_all add: unified_example_ok)
  from filters_leave_input_unchanged [OF a u, of parse_example]
  obtain obs h1 events h2 where
    ro: "get_observations_h [unified_example] 0 = Inr (obs, h1)"
    and re: "get_events_h parse_example [unified_example] 0 = Inr (events, h2)"
    and so: "h1 ! 0 = [unified_example] ! 0" and se: "h2 ! 0 = [unified_example] ! 0"
    and ao: "obs = length [unified_example]" and ae: "events = length [unified_example]"
    and o5: "let df = [unified_example] ! 0 in
               if rows df = [] then h1 ! obs = DataFrame0
               else if ''observation_date'' \<in> set (columns df)
               then rows (h1 ! obs) = map with_year (filter is_observation (rows df))
                    \<and> columns (h1 ! obs) = add_column ''year'' (columns df)
               else h1 ! obs = select is_observation df"
    and e5: "let df = [unified_example] ! 0;
                   es = filter is_event (rows df);
                   c = (if ''event_date'' \<in> set (columns df)
                           \<and> list_ex (\<lambda>r. notna (r ''event_date'')) es
                        then ''event_date'' else ''observation_date'')
               in if rows df = [] then h2 ! events = DataFrame0
                  else if c \<in> set (columns df)
                  then rows (h2 ! events) = map (with_parsed parse_example c) es
                       \<and> columns (h2 ! events) = add_column ''event_date_parsed'' (columns df)
                  else h2 ! events = select is_event df"
    by blast
  from ro ao have ro': "get_observations_h [unified_example] 0 = Inr (1, h1)" by simp
  from re ae have re': "get_events_h parse_example [unified_example] 0 = Inr (1, h2)" by simp
  from so have so': "h1 ! 0 = unified_example" by simp
  from se have se': "h2 ! 0 = unified_example" by simp
  from o5 ao have o6: "rows (h1 ! 1) = map with_year (filter is_observation (rows unified_example))
      \<and> columns (h1 ! 1) = add_column ''year'' (columns unified_example)"
    by (simp add: unified_example_def)
  from e5 ae have e6: "rows (h2 ! 1)
        = map (with_parsed parse_example ''event_date'') (filter is_event (rows unified_example))
      \<and> columns (h2 ! 1) = add_column ''event_date_parsed'' (columns unified_example)"
    by (simp add: unified_example_def is_event_def cell_eq_def notna_def Let_def)
  from o6 have y: "map (\<lambda>r. r ''year'') (rows (h1 ! 1)) = [Num 2021]"
    and yc: "columns (h1 ! 1) = columns unified_example @ [''year'']"
    by (simp_all add: unified_example_def is_observation_def cell_eq_def with_year_def
        dt_year_def add_column_def)
  from e6 have d: "map (\<lambda>r. r ''event_date'') (rows (h2 ! 1)) = [Timestamp (2021, 130), NA]"
    and p: "map (\<lambda>r. r ''event_date_parsed'') (rows (h2 ! 1)) = [Timestamp (2021, 130), NA]"
    and pc: "columns (h2 ! 1) = columns unified_example @ [''event_date_parsed'']"
    by (simp_all add: unified_example_def is_event_def cell_eq_def with_parsed_def
        to_datetime_def parse_example_def add_column_def)
  show ?thesis
    by (intro exI [of _ h1] exI [of _ h2] conjI) (fact a u ro' re' so' se' y yc d p pc)+
qed

text \<open>
  Claim C7 as stated says that the results are the selected rows and nothing else. In
  the example \<open>get_events\<close> replaces the text of \<open>event_date\<close> by the parsed date
  and adds the column \<open>event_date_parsed\<close>, and \<open>get_observations\<close> adds the
  column \<open>year\<close>.
\<close>

theorem filters_modify_rows_counterexample:
  "getcol (select is_event unified_example) ''event_date'' = Inr [Str ''2021-05-11'', NA]
   \<and> bindE (get_events parse_example unified_example) (\<lambda>ev. getcol ev ''event_date'')
       = Inr [Timestamp (2021, 130), NA]
   \<and> bindE (get_events parse_example unified_example) (\<lambda>ev. Inr (columns ev))
       = Inr (columns unified_example @ [''event_date_parsed''])
   \<and> bindE (get_observations unified_example) (\<lambda>obs. Inr (columns obs))
       = Inr (columns unified_example @ [''year''])
   \<and> bindE (get_observations unified_example) (\<lambda>obs. getcol obs ''year'') = Inr [Num 2021]"
  unfolding get_events_example get_observations_eq [OF unified_example_ok unified_example_rows]
  by (simp add: getcol_def set_column_def select_def unified_example_def is_event_def
      is_observation_def cell_eq_def to_datetime_def parse_example_def dt_year_def)

section \<open>Facts about the loaders\<close>

lemma dates_parsed_eq:
  "(if ''observation_date'' \<in> set (columns df)
    then set_column ''observation_date'' Datetime64
           (\<lambda>r. to_datetime parse (r ''observation_date'')) df
    else df) = dates_parsed parse df"
  by (simp add: set_column_def dates_parsed_def)

text \<open>
  Claim C5, as amended. Every loader returns a value, whatever the files hold: the
  loaders are total functions of what the file system and the readers answer, and each
  case below gives the value. \<open>load_unified_data\<close> returns two empty tables and one
  error message that carries the exception when the read of the main table raises or,
  on the path of the enriched file, when the table read has no \<open>record_type\<close>
  column; otherwise it returns the main table with its dates parsed, the impact table,
  and no message. The other three loaders return the absent placeholder with exactly
  one warning when the required file is missing, the absent placeholder with exactly
  one error that carries the exception when a read raises, and their tables without a
  message otherwise. Two absences are silent: in the fallback to the workbook a failure
  to read the impact sheet gives an empty impact table with no message, and a missing
  wide forecast file gives an absent wide table with no message.
\<close>

theorem loaders_fail_soft:
  "(enriched_exists fs \<and> read_enriched fs = Inl e \<longrightarrow>
      load_unified_data parse fs
        = ([Error ''Error loading unified data'' e], DataFrame0, DataFrame0))
   \<and> (enriched_exists fs \<and> read_enriched fs = Inr df \<and> ''record_type'' \<notin> set (columns df) \<longrightarrow>
      load_unified_data parse fs
        = ([Error ''Error loading unified data'' (KeyError ''record_type'')],
           DataFrame0, DataFrame0))
   \<and> (enriched_exists fs \<and> read_enriched fs = Inr df \<and> ''record_type'' \<in> set (columns df) \<longrightarrow>
      load_unified_data parse fs
        = ([], dates_parsed parse df,
           select (\<lambda>r. cell_eq (r ''record_type'') (Str ''impact_link'')) df))
   \<and> (\<not> enriched_exists fs \<and> read_excel_main fs = Inl e \<longrightarrow>
      load_unified_data parse fs
        = ([Error ''Error loading unified data'' e], DataFrame0, DataFrame0))
   \<and> (\<not> enriched_exists fs \<and> read_excel_main fs = Inr df \<and> read_excel_impact fs = Inr di \<longrightarrow>
      load_unified_data parse fs = ([], dates_parsed parse df, di))
   \<and> (\<not> enriched_exists fs \<and> read_excel_main fs = Inr df \<and> read_excel_impact fs = Inl e \<longrightarrow>
      load_unified_data parse fs = ([], dates_parsed parse df, DataFrame0))
   \<and> (\<not> features_exists fs \<longrightarrow>
      load_event_features fs
        = ([Warning ''Event features not found. Run Task 3 notebook first.''], None))
   \<and> (features_exists fs \<and> read_features fs = Inl e \<longrightarrow>
      load_event_features fs = ([Error ''Error loading event features'' e], None))
   \<and> (features_exists fs \<and> read_features fs = Inr df \<longrightarrow>
      load_event_features fs = ([], Some df))
   \<and> (\<not> matrix_exists fs \<longrightarrow>
      load_event_matrix fs
        = ([Warning ''Event matrix not found. Run Task 3 notebook first.''], None))
   \<and> (matrix_exists fs \<and> read_matrix fs = Inl e \<longrightarrow>
      load_event_matrix fs = ([Error ''Error loading event matrix'' e], None))
   \<and> (matrix_exists fs \<and> read_matrix fs = Inr df \<longrightarrow>
      load_event_matrix fs = ([], Some df))
   \<and> (\<not> long_exists fs \<longrightarrow>
      load_forecasts fs
        = ([Warning ''Forecast data not found. Run Task 4 notebook first.''], None, None))
   \<and> (long_exists fs \<and> read_long fs = Inl e \<longrightarrow>
      load_forecasts fs = ([Error ''Error loading forecasts'' e], None, None))
   \<and> (long_exists fs \<and> read_long fs = Inr df \<and> wide_exists fs \<and> read_wide fs = Inl e \<longrightarrow>
      load_forecasts fs = ([Error ''Error loading forecasts'' e], None, None))
   \<and> (long_exists fs \<and> read_long fs = Inr df \<and> wide_exists fs \<and> read_wide fs = Inr dw \<longrightarrow>
      load_forecasts fs = ([], Some df, Some dw))
   \<and> (long_exists fs \<and> read_long fs = Inr df \<and> \<not> wide_exists fs \<longrightarrow>
      load_forecasts fs = ([], Some df, None))"
  by (intro conjI impI; (elim conjE)?)
     (simp_all add: load_unified_data_def load_unified_body_def getcol_def dates_parsed_eq
        load_event_features_def load_event_matrix_def load_forecasts_def)

theorem loaders_fail_soft_witness:
  "load_unified_data parse_example files_example
     = ([], dates_parsed parse_example unified_example, DataFrame0)
   \<and> load_event_features files_example = ([Error ''Error loading event features'' ValueError], None)
   \<and> load_event_matrix files_example
       = ([Warning ''Event matrix not found. Run Task 3 notebook first.''], None)
   \<and> load_forecasts files_example = ([], Some forecast_example, None)
   \<and> load_unified_data parse_example enriched_example
     = ([], dates_parsed parse_example unified_example,
        select (\<lambda>r. cell_eq (r ''record_type'') (Str ''impact_link'')) unified_example)
   \<and> load_event_features enriched_example
       = ([Warning ''Event features not found. Run Task 3 notebook first.''], None)
   \<and> load_event_matrix enriched_example = ([Error ''Error loading event matrix'' ValueError], None)
   \<and> load_forecasts enriched_example = ([Error ''Error loading forecasts'' ValueError], None, None)"
proof -
  note f = loaders_fail_soft [where fs = files_example and parse = parse_example
      and df = unified_example and e = ValueError]
  note f' = loaders_fail_soft [where fs = files_example and df = forecast_example]
  note g = loaders_fail_soft [where fs = enriched_example and parse = parse_example
      and df = unified_example and e = ValueError]
  note g' = loaders_fail_soft [where fs = enriched_example and df = forecast_example
      and e = ValueError]
  have 1: "load_unified_data parse_example files_example
      = ([], dates_parsed parse_example unified_example, DataFrame0)"
    using f by (simp add: files_example_def)
  have 2: "load_event_features files_example
      = ([Error ''Error loading event features'' ValueError], None)"
    using f by (simp add: files_example_def)
  have 3: "load_event_matrix files_example
      = ([Warning ''Event matrix not found. Run Task 3 notebook first.''], None)"
    using f by (simp add: files_example_def)
  have 4: "load_forecasts files_example = ([], Some forecast_example, None)"
    using f' by (simp add: files_example_def)
  have 5: "load_unified_data parse_example enriched_example
      = ([], dates_parsed parse_example unified_example,
         select (\<lambda>r. cell_eq (r ''record_type'') (Str ''impact_link'')) unified_example)"
    using g by (simp add: enriched_example_def unified_example_def)
  have 6: "load_event_features enriched_example
      = ([Warning ''Event features not found. Run Task 3 notebook first.''], None)"
    using g by (simp add: enriched_example_def)
  have 7: "load_event_matrix enriched_example
      = ([Error ''Error loading event matrix'' ValueError], None)"
    using g by (simp add: enriched_example_def)
  have 8: "load_forecasts enriched_example
      = ([Error ''Error loading forecasts'' ValueError], None, None)"
    using g' by (simp add: enriched_example_def)
  show ?thesis
    by (intro conjI) (fact 1 2 3 4 5 6 7 8)+
qed

text \<open>
  Claim C5 as stated has every failure accompanied by a message. In the example the
  enriched file is missing, the workbook is read, and the read of its impact sheet
  raises: the impact table is the empty placeholder and no message is shown.
\<close>

theorem silent_impact_sheet_counterexample:
  "\<not> enriched_exists files_example
   \<and> read_excel_impact files_example = Inl ValueError
   \<and> fst (load_unified_data parse_example files_example) = []
   \<and> snd (snd (load_unified_data parse_example files_example)) = DataFrame0"
  by (simp add: load_unified_data_def load_unified_body_def files_example_def
      unified_example_def)

text \<open>
  What \<open>load_unified_data\<close> returns has its date column parsed: the column is of
  dtype datetime64 and holds timestamps and missing dates. On the path of the enriched
  file the \<open>record_type\<close> column is there, or the table is empty; so the table
  loaded from the enriched file is a unified table, whatever the file holds.
\<close>

lemma to_datetime_kind: "is_NA (to_datetime parse c) \<or> is_Timestamp (to_datetime parse c)"
  by (cases c) (simp_all add: to_datetime_def split: option.splits)

lemma load_unified_data_dates:
  "''observation_date'' \<in> set (columns (fst (snd (load_unified_data parse fs)))) \<longrightarrow>
     dtypes (fst (snd (load_unified_data parse fs))) ''observation_date'' = Datetime64
     \<and> dates_or_missing (map (\<lambda>r. r ''observation_date'')
                       (rows (fst (snd (load_unified_data parse fs)))))"
  by (auto simp: load_unified_data_def load_unified_body_def bindE_def DataFrame0_def
      set_column_def dates_or_missing_def list_all_iff to_datetime_kind
      split: sum.splits prod.splits if_splits)

lemma load_unified_data_enriched:
  "enriched_exists fs \<Longrightarrow> unified_table (fst (snd (load_unified_data parse fs)))"
  unfolding unified_table_def
proof (intro conjI)
  assume "enriched_exists fs"
  then show "has_record_type (fst (snd (load_unified_data parse fs)))"
    by (auto simp: load_unified_data_def load_unified_body_def bindE_def DataFrame0_def
        set_column_def has_record_type_def getcol_def
        split: sum.splits prod.splits if_splits)
  show "''observation_date'' \<in> set (columns (fst (snd (load_unified_data parse fs)))) \<longrightarrow>
     dtypes (fst (snd (load_unified_data parse fs))) ''observation_date'' = Datetime64"
    using load_unified_data_dates [of parse fs] by blast
qed

lemma load_enriched_example:
  "fst (snd (load_unified_data parse_example enriched_example)) = unified_example"
  by (auto simp: load_unified_data_def load_unified_body_def enriched_example_def getcol_def
      set_column_def unified_example_def to_datetime_def fun_eq_iff)

theorem record_type_partition_witness:
  "enriched_exists enriched_example
   \<and> fst (snd (load_unified_data parse_example enriched_example)) = unified_example
   \<and> unified_table unified_example
   \<and> (\<exists>obs ev. get_observations unified_example = Inr obs
          \<and> get_events parse_example unified_example = Inr ev
          \<and> length (rows obs) = 1 \<and> length (rows ev) = 2
          \<and> set (rows obs) \<inter> set (rows ev) = {}
          \<and> length (rows unified_example) = length (rows obs) + length (rows ev) + 1)"
proof -
  have x: "enriched_exists enriched_example"
    by (simp add: enriched_example_def)
  have u: "unified_table unified_example"
    using load_unified_data_enriched [OF x, of parse_example]
    unfolding load_enriched_example .
  from record_type_partition [OF u, of parse_example]
  obtain obs ev where obs: "get_observations unified_example = Inr obs"
    and ev: "get_events parse_example unified_example = Inr ev"
    and o2: "list_all2 (agree_except [''year'']) (filter is_observation (rows unified_example)) (rows obs)"
    and e2: "list_all2 (agree_except [''event_date'', ''observation_date'', ''event_date_parsed''])
                (filter is_event (rows unified_example)) (rows ev)"
    and dj: "set (rows obs) \<inter> set (rows ev) = {}"
    by blast
  from o2 have lo: "length (rows obs) = 1"
    using unified_example_counts(1) by (simp add: list_all2_lengthD [symmetric])
  from e2 have le: "length (rows ev) = 2"
    using unified_example_counts(2) by (simp add: list_all2_lengthD [symmetric])
  have n: "length (rows unified_example) = length (rows obs) + length (rows ev) + 1"
    unfolding lo le by (simp add: unified_example_def)
  show ?thesis
    by (intro exI [of _ obs] exI [of _ ev] conjI)
       (fact x load_enriched_example u obs ev lo le dj n)+
qed

section \<open>Facts about the pages\<close>

lemma kpi_metric_zero:
  "kpi_metric label (Some (Num 0)) = Inr (Metric label [Lit ''N/A''] None)"
  "kpi_metric label None = Inr (Metric label [Lit ''N/A''] None)"
  by (simp_all add: kpi_metric_def)

lemma kpi_forecast_zero:
  "kpi_forecast (Some (Num 0)) = Inr (Metric ''2027 Forecast'' [Lit ''N/A''] None)"
  "kpi_forecast None = Inr (Metric ''2027 Forecast'' [Lit ''N/A''] None)"
  by (simp_all add: kpi_forecast_def)

lemma current_state_zero:
  "current_state (Some (Num 0)) latest_mm n = current_state None latest_mm n"
  "current_state latest_access (Some (Num 0)) n = current_state latest_access None n"
  "current_state None latest_mm n =
     Inr [Markdown ''**Current State**'', Write [Lit ''- Total events tracked: '', Count n]]"
  "current_state latest_access None n =
     Inr [Markdown ''**Current State**'', Write [Lit ''- Total events tracked: '', Count n]]"
  by (simp_all add: current_state_def)

lemma forecast_outlook_zero:
  "forecast_outlook (Some (Num 0)) forecast_wide = forecast_outlook None forecast_wide"
  "forecast_outlook None forecast_wide =
     Inr [Markdown ''**Forecast Outlook**'',
          Write [Lit ''- Key drivers: Telebirr, M-Pesa, NFIS-II'']]"
  by (simp_all add: forecast_outlook_def)

lemma findings_zero:
  "access_finding (Some (Num 0)) = Inr []" "access_finding None = Inr []"
  "usage_finding (Some (Num 0)) = Inr []" "usage_finding None = Inr []"
  by (simp_all add: access_finding_def usage_finding_def)

lemma overview_with_latest_zero:
  "overview_with (latest(c := Inr (Some (Num 0)))) forecastv u yd obs ev fl fw
   = overview_with (latest(c := Inr None)) forecastv u yd obs ev fl fw"
  by (simp add: overview_with_def kpi_metric_zero current_state_zero)

lemma overview_with_forecast_zero:
  "overview_with latest (forecastv(k := Inr (Some (Num 0)))) u yd obs ev fl fw
   = overview_with latest (forecastv(k := Inr None)) u yd obs ev fl fw"
  by (simp add: overview_with_def kpi_forecast_zero forecast_outlook_zero)

lemma findings_forecast_zero:
  "findings (forecastv(k := Inr (Some (Num 0)))) = findings (forecastv(k := Inr None))"
  by (simp add: findings_def findings_zero)

lemma forecasts_with_forecast_zero:
  "forecasts_with (forecastv(k := Inr (Some (Num 0)))) u yd obs fl fw
   = forecasts_with (forecastv(k := Inr None)) u yd obs fl fw"
  unfolding forecasts_with_def findings_forecast_zero ..

lemma absent_like_not_truthy: "absent_like v \<Longrightarrow> \<not> truthy v"
  by (auto simp: absent_like_def)

lemma kpi_metric_absent:
  "absent_like v \<Longrightarrow> kpi_metric label v = Inr m \<Longrightarrow> m = Metric label [Lit ''N/A''] None"
  by (auto simp: absent_like_def kpi_metric_def)

lemma kpi_forecast_absent:
  "absent_like v \<Longrightarrow> kpi_forecast v = Inr m \<Longrightarrow> m = Metric ''2027 Forecast'' [Lit ''N/A''] None"
  by (auto simp: absent_like_def kpi_forecast_def)

lemma current_state_absent:
  "absent_like la \<or> absent_like lm \<Longrightarrow> current_state la lm n = Inr cs \<Longrightarrow>
     cs = [Markdown ''**Current State**'', Write [Lit ''- Total events tracked: '', Count n]]"
  by (auto simp: absent_like_def current_state_def)

lemma forecast_outlook_absent:
  "absent_like v \<Longrightarrow> forecast_outlook v fw = Inr fo \<Longrightarrow>
     fo = [Markdown ''**Forecast Outlook**'',
           Write [Lit ''- Key drivers: Telebirr, M-Pesa, NFIS-II'']]"
  by (auto simp: absent_like_def forecast_outlook_def)

lemma findings_absent:
  "absent_like v \<Longrightarrow> access_finding v = Inr acc \<Longrightarrow> acc = []"
  "absent_like v \<Longrightarrow> usage_finding v = Inr usg \<Longrightarrow> usg = []"
  by (auto simp: absent_like_def access_finding_def usage_finding_def)

lemma overview_with_Inr:
  assumes "overview_with latest forecastv u yd obs ev fl fw = Inr ws"
  shows "\<exists>la lm lu f27 m1 m2 m3 m4 cs fo chart.
           latest (Str ''ACC_OWNERSHIP'') = Inr la
           \<and> latest (Str ''ACC_MM_ACCOUNT'') = Inr lm
           \<and> latest (Str ''USG_DIGITAL_PAYMENT'') = Inr lu
           \<and> forecastv (Str ''ACC_OWNERSHIP'', Num 2027, Str ''base'') = Inr f27
           \<and> kpi_metric ''Latest Account Ownership'' la = Inr m1
           \<and> kpi_metric ''Mobile Money Accounts'' lm = Inr m2
           \<and> kpi_metric ''Digital Payment Usage'' lu = Inr m3
           \<and> kpi_forecast f27 = Inr m4
           \<and> current_state la lm (length (rows ev)) = Inr cs
           \<and> forecast_outlook f27 fw = Inr fo
           \<and> overview_chart u yd obs fl = Inr chart
           \<and> ws = [Markdown ''**Forecasting Access and Usage (2025-2027)**'',
                   Subheader ''Key Performance Indicators'', m1, m2, m3, m4,
                   Subheader ''Key Insights'']
                  @ cs @ fo @ [Subheader ''Historical Trend + Forecast''] @ chart"
  using assms unfolding overview_with_def
  apply (elim bindE_InrE)
  subgoal for la m1 lm m2 lu m3 f27 m4 cs fo chart
    apply (rule exI [of _ la], rule exI [of _ lm], rule exI [of _ lu], rule exI [of _ f27])
    apply (rule exI [of _ m1], rule exI [of _ m2], rule exI [of _ m3], rule exI [of _ m4])
    apply (rule exI [of _ cs], rule exI [of _ fo], rule exI [of _ chart])
    apply (intro conjI)
               apply assumption+
    apply (drule sym [of "Inr _" "Inr ws"])
    apply (simp only: sum.inject)
    done
  done


lemma findings_Inr:
  assumes "findings forecastv = Inr kf"
  shows "\<exists>a27 u27 acc usg.
           forecastv (Str ''ACC_OWNERSHIP'', Num 2027, Str ''base'') = Inr a27
           \<and> forecastv (Str ''USG_DIGITAL_PAYMENT'', Num 2027, Str ''base'') = Inr u27
           \<and> access_finding a27 = Inr acc
           \<and> usage_finding u27 = Inr usg
           \<and> kf = [Subheader ''Key Findings'', Markdown ''**Forecast Interpretation**'']
                  @ acc @ usg @ fixed_findings"
  using assms unfolding findings_def
  apply (elim bindE_InrE)
  subgoal for a27 acc u27 usg
    apply (rule exI [of _ a27], rule exI [of _ u27], rule exI [of _ acc], rule exI [of _ usg])
    apply (intro conjI)
        apply assumption+
    apply (drule sym [of "Inr _" "Inr kf"])
    apply (simp only: sum.inject)
    done
  done

lemma forecasts_with_Inr:
  assumes "forecasts_with forecastv u yd obs (Some fl) fw = Inr ws"
  shows "\<exists>chart kf.
           (case selectbox (unique (map (\<lambda>r. r ''indicator_code'') (rows fl)))
                   (indicator_choice u) of
              None \<Rightarrow> Inr []
            | Some selected \<Rightarrow>
                if truthy (Some selected)
                then forecast_chart yd obs fl fw selected
                else Inr []) = Inr chart
           \<and> findings forecastv = Inr kf
           \<and> ''indicator_code'' \<in> set (columns fl)
           \<and> ws = [Subheader ''Scenario Comparison''] @ chart
                  @ [Subheader ''Forecast Data Table'',
                     Dataframe (case fw of None \<Rightarrow> fl | Some w \<Rightarrow> w),
                     Subheader ''Download Forecasts'',
                     DownloadButton ''Download Forecast CSV'' fl
                       ''ethiopia_fi_forecast_2025_2027.csv'']
                  @ kf"
proof -
  from assms have c: "''indicator_code'' \<in> set (columns fl)"
    by (auto simp: forecasts_with_def getcol_def split: if_splits)
  then have g: "getcol fl ''indicator_code'' = Inr (map (\<lambda>r. r ''indicator_code'') (rows fl))"
    by (simp add: getcol_def)
  from assms show ?thesis
    unfolding forecasts_with_def option.case g bindE_Inr Let_def
    apply (elim bindE_InrE)
    subgoal for chart kf
      apply (rule exI [of _ chart], rule exI [of _ kf])
      apply (intro conjI)
         apply assumption
        apply assumption
       apply (rule c)
      apply (drule sym [of "Inr _" "Inr ws"])
      apply (simp only: sum.inject)
      done
    done
qed

text \<open>
  Claim C10. The pages test the looked-up values by their truth value, so a value of
  exactly 0 is drawn as an absent one. When \<open>get_latest_value\<close> answers 0 for a
  code, the Overview page is the page drawn with that lookup answering \<^verbatim>\<open>None\<close>;
  when \<open>get_forecast_value\<close> answers 0 for a key, the Overview and the Forecasts page
  are the pages drawn with that lookup answering \<^verbatim>\<open>None\<close>. And this is what the
  pages show. The Overview page that is drawn consists of its two headings, the four
  metrics, the two insight panels and the chart, in this order; a metric whose value
  is 0 or absent is the metric \<open>N/A\<close> under its label, the panel of the current state
  is its heading and the count of events alone when the latest account ownership or
  the latest mobile money value is 0 or absent, and the panel of the forecast outlook
  is its heading and the line of the key drivers alone when the forecast for 2027 is 0
  or absent. The Forecasts page that is drawn ends with the findings, in which the
  lines of a forecast that is 0 or absent are left out.
\<close>

theorem zero_rendered_as_absent:
  "(get_latest_value obs c = Inr (Some (Num 0)) \<longrightarrow>
      overview_page u yd obs ev fl fw
        = overview_with ((get_latest_value obs)(c := Inr None)) (forecast_lookup fl)
            u yd obs ev fl fw)
   \<and> (forecast_lookup fl k = Inr (Some (Num 0)) \<longrightarrow>
      overview_page u yd obs ev fl fw
        = overview_with (get_latest_value obs) ((forecast_lookup fl)(k := Inr None))
            u yd obs ev fl fw
      \<and> forecasts_page u yd obs fl fw
        = forecasts_with ((forecast_lookup fl)(k := Inr None)) u yd obs fl fw)
   \<and> (overview_page u yd obs ev fl fw = Inr ws \<longrightarrow>
        (\<exists>la lm lu f27 m1 m2 m3 m4 cs fo chart.
           get_latest_value obs (Str ''ACC_OWNERSHIP'') = Inr la
           \<and> get_latest_value obs (Str ''ACC_MM_ACCOUNT'') = Inr lm
           \<and> get_latest_value obs (Str ''USG_DIGITAL_PAYMENT'') = Inr lu
           \<and> get_forecast_value fl (Str ''ACC_OWNERSHIP'') (Num 2027) (Str ''base'') = Inr f27
           \<and> ws = [Markdown ''**Forecasting Access and Usage (2025-2027)**'',
                   Subheader ''Key Performance Indicators'', m1, m2, m3, m4,
                   Subheader ''Key Insights'']
                  @ cs @ fo @ [Subheader ''Historical Trend + Forecast''] @ chart
           \<and> (absent_like la \<longrightarrow> m1 = Metric ''Latest Account Ownership'' [Lit ''N/A''] None)
           \<and> (absent_like lm \<longrightarrow> m2 = Metric ''Mobile Money Accounts'' [Lit ''N/A''] None)
           \<and> (absent_like lu \<longrightarrow> m3 = Metric ''Digital Payment Usage'' [Lit ''N/A''] None)
           \<and> (absent_like f27 \<longrightarrow> m4 = Metric ''2027 Forecast'' [Lit ''N/A''] None)
           \<and> (absent_like la \<or> absent_like lm \<longrightarrow>
                cs = [Markdown ''**Current State**'',
                      Write [Lit ''- Total events tracked: '', Count (length (rows ev))]])
           \<and> (absent_like f27 \<longrightarrow>
                fo = [Markdown ''**Forecast Outlook**'',
                      Write [Lit ''- Key drivers: Telebirr, M-Pesa, NFIS-II'']])
           \<and> overview_chart u yd obs fl = Inr chart))
   \<and> (forecasts_page u yd obs (Some fl') fw = Inr ws' \<longrightarrow>
        (\<exists>a27 u27 chart acc usg.
           get_forecast_value (Some fl') (Str ''ACC_OWNERSHIP'') (Num 2027) (Str ''base'') = Inr a27
           \<and> get_forecast_value (Some fl') (Str ''USG_DIGITAL_PAYMENT'') (Num 2027) (Str ''base'')
               = Inr u27
           \<and> ws' = [Subheader ''Scenario Comparison''] @ chart
                   @ [Subheader ''Forecast Data Table'',
                      Dataframe (case fw of None \<Rightarrow> fl' | Some w \<Rightarrow> w),
                      Subheader ''Download Forecasts'',
                      DownloadButton ''Download Forecast CSV'' fl'
                        ''ethiopia_fi_forecast_2025_2027.csv'']
                   @ [Subheader ''Key Findings'', Markdown ''**Forecast Interpretation**'']
                   @ acc @ usg @ fixed_findings
           \<and> (absent_like a27 \<longrightarrow> acc = [])
           \<and> (absent_like u27 \<longrightarrow> usg = [])))"
proof (intro conjI)
  show "get_latest_value obs c = Inr (Some (Num 0)) \<longrightarrow>
      overview_page u yd obs ev fl fw
        = overview_with ((get_latest_value obs)(c := Inr None)) (forecast_lookup fl)
            u yd obs ev fl fw"
  proof
    assume z: "get_latest_value obs c = Inr (Some (Num 0))"
    have "(get_latest_value obs)(c := Inr (Some (Num 0))) = get_latest_value obs"
      using z by (metis fun_upd_triv)
    then show "overview_page u yd obs ev fl fw
        = overview_with ((get_latest_value obs)(c := Inr None)) (forecast_lookup fl)
            u yd obs ev fl fw"
      unfolding overview_page_def
      using overview_with_latest_zero [of "get_latest_value obs" c] by simp
  qed
  show "forecast_lookup fl k = Inr (Some (Num 0)) \<longrightarrow>
      overview_page u yd obs ev fl fw
        = overview_with (get_latest_value obs) ((forecast_lookup fl)(k := Inr None))
            u yd obs ev fl fw
      \<and> forecasts_page u yd obs fl fw
        = forecasts_with ((forecast_lookup fl)(k := Inr None)) u yd obs fl fw"
  proof
    assume z: "forecast_lookup fl k = Inr (Some (Num 0))"
    have e: "(forecast_lookup fl)(k := Inr (Some (Num 0))) = forecast_lookup fl"
      using z by (metis fun_upd_triv)
    show "overview_page u yd obs ev fl fw
        = overview_with (get_latest_value obs) ((forecast_lookup fl)(k := Inr None))
            u yd obs ev fl fw
      \<and> forecasts_page u yd obs fl fw
        = forecasts_with ((forecast_lookup fl)(k := Inr None)) u yd obs fl fw"
      unfolding overview_page_def forecasts_page_def
      using overview_with_forecast_zero [of "get_latest_value obs" "forecast_lookup fl" k]
        forecasts_with_forecast_zero [of "forecast_lookup fl" k]
      by (simp add: e)
  qed
  show "overview_page u yd obs ev fl fw = Inr ws \<longrightarrow>
        (\<exists>la lm lu f27 m1 m2 m3 m4 cs fo chart.
           get_latest_value obs (Str ''ACC_OWNERSHIP'') = Inr la
           \<and> get_latest_value obs (Str ''ACC_MM_ACCOUNT'') = Inr lm
           \<and> get_latest_value obs (Str ''USG_DIGITAL_PAYMENT'') = Inr lu
           \<and> get_forecast_value fl (Str ''ACC_OWNERSHIP'') (Num 2027) (Str ''base'') = Inr f27
           \<and> ws = [Markdown ''**Forecasting Access and Usage (2025-2027)**'',
                   Subheader ''Key Performance Indicators'', m1, m2, m3, m4,
                   Subheader ''Key Insights'']
                  @ cs @ fo @ [Subheader ''Historical Trend + Forecast''] @ chart
           \<and> (absent_like la \<longrightarrow> m1 = Metric ''Latest Account Ownership'' [Lit ''N/A''] None)
           \<and> (absent_like lm \<longrightarrow> m2 = Metric ''Mobile Money Accounts'' [Lit ''N/A''] None)
           \<and> (absent_like lu \<longrightarrow> m3 = Metric ''Digital Payment Usage'' [Lit ''N/A''] None)
           \<and> (absent_like f27 \<longrightarrow> m4 = Metric ''2027 Forecast'' [Lit ''N/A''] None)
           \<and> (absent_like la \<or> absent_like lm \<longrightarrow>
                cs = [Markdown ''**Current State**'',
                      Write [Lit ''- Total events tracked: '', Count (length (rows ev))]])
           \<and> (absent_like f27 \<longrightarrow>
                fo = [Markdown ''**Forecast Outlook**'',
                      Write [Lit ''- Key drivers: Telebirr, M-Pesa, NFIS-II'']])
           \<and> overview_chart u yd obs fl = Inr chart)"
  proof
    assume "overview_page u yd obs ev fl fw = Inr ws"
    then have "overview_with (get_latest_value obs) (forecast_lookup fl) u yd obs ev fl fw = Inr ws"
      by (simp only: overview_page_def)
    from overview_with_Inr [OF this] obtain la lm lu f27 m1 m2 m3 m4 cs fo chart where
      la: "get_latest_value obs (Str ''ACC_OWNERSHIP'') = Inr la"
      and lm: "get_latest_value obs (Str ''ACC_MM_ACCOUNT'') = Inr lm"
      and lu: "get_latest_value obs (Str ''USG_DIGITAL_PAYMENT'') = Inr lu"
      and f27: "forecast_lookup fl (Str ''ACC_OWNERSHIP'', Num 2027, Str ''base'') = Inr f27"
      and m1: "kpi_metric ''Latest Account Ownership'' la = Inr m1"
      and m2: "kpi_metric ''Mobile Money Accounts'' lm = Inr m2"
      and m3: "kpi_metric ''Digital Payment Usage'' lu = Inr m3"
      and m4: "kpi_forecast f27 = Inr m4"
      and cs: "current_state la lm (length (rows ev)) = Inr cs"
      and fo: "forecast_outlook f27 fw = Inr fo"
      and ch: "overview_chart u yd obs fl = Inr chart"
      and ws: "ws = [Markdown ''**Forecasting Access and Usage (2025-2027)**'',
                   Subheader ''Key Performance Indicators'', m1, m2, m3, m4,
                   Subheader ''Key Insights'']
                  @ cs @ fo @ [Subheader ''Historical Trend + Forecast''] @ chart"
      by blast
    from f27 have f27': "get_forecast_value fl (Str ''ACC_OWNERSHIP'') (Num 2027) (Str ''base'')
        = Inr f27"
      by (simp add: forecast_lookup_def)
    have a1: "absent_like la \<longrightarrow> m1 = Metric ''Latest Account Ownership'' [Lit ''N/A''] None"
      using m1 kpi_metric_absent by blast
    have a2: "absent_like lm \<longrightarrow> m2 = Metric ''Mobile Money Accounts'' [Lit ''N/A''] None"
      using m2 kpi_metric_absent by blast
    have a3: "absent_like lu \<longrightarrow> m3 = Metric ''Digital Payment Usage'' [Lit ''N/A''] None"
      using m3 kpi_metric_absent by blast
    have a4: "absent_like f27 \<longrightarrow> m4 = Metric ''2027 Forecast'' [Lit ''N/A''] None"
      using m4 kpi_forecast_absent by blast
    have a5: "absent_like la \<or> absent_like lm \<longrightarrow>
                cs = [Markdown ''**Current State**'',
                      Write [Lit ''- Total events tracked: '', Count (length (rows ev))]]"
      using cs current_state_absent by blast
    have a6: "absent_like f27 \<longrightarrow>
                fo = [Markdown ''**Forecast Outlook**'',
                      Write [Lit ''- Key drivers: Telebirr, M-Pesa, NFIS-II'']]"
      using fo forecast_outlook_absent by blast
    show "\<exists>la lm lu f27 m1 m2 m3 m4 cs fo chart.
           get_latest_value obs (Str ''ACC_OWNERSHIP'') = Inr la
           \<and> get_latest_value obs (Str ''ACC_MM_ACCOUNT'') = Inr lm
           \<and> get_latest_value obs (Str ''USG_DIGITAL_PAYMENT'') = Inr lu
           \<and> get_forecast_value fl (Str ''ACC_OWNERSHIP'') (Num 2027) (Str ''base'') = Inr f27
           \<and> ws = [Markdown ''**Forecasting Access and Usage (2025-2027)**'',
                   Subheader ''Key Performance Indicators'', m1, m2, m3, m4,
                   Subheader ''Key Insights'']
                  @ cs @ fo @ [Subheader ''Historical Trend + Forecast''] @ chart
           \<and> (absent_like la \<longrightarrow> m1 = Metric ''Latest Account Ownership'' [Lit ''N/A''] None)
           \<and> (absent_like lm \<longrightarrow> m2 = Metric ''Mobile Money Accounts'' [Lit ''N/A''] None)
           \<and> (absent_like lu \<longrightarrow> m3 = Metric ''Digital Payment Usage'' [Lit ''N/A''] None)
           \<and> (absent_like f27 \<longrightarrow> m4 = Metric ''2027 Forecast'' [Lit ''N/A''] None)
           \<and> (absent_like la \<or> absent_like lm \<longrightarrow>
                cs = [Markdown ''**Current State**'',
                      Write [Lit ''- Total events tracked: '', Count (length (rows ev))]])
           \<and> (absent_like f27 \<longrightarrow>
                fo = [Markdown ''**Forecast Outlook**'',
                      Write [Lit ''- Key drivers: Telebirr, M-Pesa, NFIS-II'']])
           \<and> overview_chart u yd obs fl = Inr chart"
      by (rule exI [of _ la], rule exI [of _ lm], rule exI [of _ lu], rule exI [of _ f27],
          rule exI [of _ m1], rule exI [of _ m2], rule exI [of _ m3], rule exI [of _ m4],
          rule exI [of _ cs], rule exI [of _ fo], rule exI [of _ chart], intro conjI)
         (fact la lm lu f27' ws a1 a2 a3 a4 a5 a6 ch)+
  qed
  show "forecasts_page u yd obs (Some fl') fw = Inr ws' \<longrightarrow>
        (\<exists>a27 u27 chart acc usg.
           get_forecast_value (Some fl') (Str ''ACC_OWNERSHIP'') (Num 2027) (Str ''base'') = Inr a27
           \<and> get_forecast_value (Some fl') (Str ''USG_DIGITAL_PAYMENT'') (Num 2027) (Str ''base'')
               = Inr u27
           \<and> ws' = [Subheader ''Scenario Comparison''] @ chart
                   @ [Subheader ''Forecast Data Table'',
                      Dataframe (case fw of None \<Rightarrow> fl' | Some w \<Rightarrow> w),
                      Subheader ''Download Forecasts'',
                      DownloadButton ''Download Forecast CSV'' fl'
                        ''ethiopia_fi_forecast_2025_2027.csv'']
                   @ [Subheader ''Key Findings'', Markdown ''**Forecast Interpretation**'']
                   @ acc @ usg @ fixed_findings
           \<and> (absent_like a27 \<longrightarrow> acc = [])
           \<and> (absent_like u27 \<longrightarrow> usg = []))"
  proof
    assume "forecasts_page u yd obs (Some fl') fw = Inr ws'"
    then have "forecasts_with (forecast_lookup (Some fl')) u yd obs (Some fl') fw = Inr ws'"
      by (simp only: forecasts_page_def)
    from forecasts_with_Inr [OF this] obtain chart kf where
      kf: "findings (forecast_lookup (Some fl')) = Inr kf"
      and ws: "ws' = [Subheader ''Scenario Comparison''] @ chart
                  @ [Subheader ''Forecast Data Table'',
                     Dataframe (case fw of None \<Rightarrow> fl' | Some w \<Rightarrow> w),
                     Subheader ''Download Forecasts'',
                     DownloadButton ''Download Forecast CSV'' fl'
                       ''ethiopia_fi_forecast_2025_2027.csv'']
                  @ kf"
      by blast
    from findings_Inr [OF kf] obtain a27 u27 acc usg where
      a: "forecast_lookup (Some fl') (Str ''ACC_OWNERSHIP'', Num 2027, Str ''base'') = Inr a27"
      and b: "forecast_lookup (Some fl') (Str ''USG_DIGITAL_PAYMENT'', Num 2027, Str ''base'')
          = Inr u27"
      and acc: "access_finding a27 = Inr acc"
      and usg: "usage_finding u27 = Inr usg"
      and k: "kf = [Subheader ''Key Findings'', Markdown ''**Forecast Interpretation**'']
                  @ acc @ usg @ fixed_findings"
      by blast
    from a have a': "get_forecast_value (Some fl') (Str ''ACC_OWNERSHIP'') (Num 2027) (Str ''base'')
        = Inr a27"
      by (simp add: forecast_lookup_def)
    from b have b': "get_forecast_value (Some fl') (Str ''USG_DIGITAL_PAYMENT'') (Num 2027)
        (Str ''base'') = Inr u27"
      by (simp add: forecast_lookup_def)
    from ws k have w: "ws' = [Subheader ''Scenario Comparison''] @ chart
                   @ [Subheader ''Forecast Data Table'',
                      Dataframe (case fw of None \<Rightarrow> fl' | Some w \<Rightarrow> w),
                      Subheader ''Download Forecasts'',
                      DownloadButton ''Download Forecast CSV'' fl'
                        ''ethiopia_fi_forecast_2025_2027.csv'']
                   @ [Subheader ''Key Findings'', Markdown ''**Forecast Interpretation**'']
                   @ acc @ usg @ fixed_findings"
      by simp
    have x: "absent_like a27 \<longrightarrow> acc = []"
      using acc findings_absent(1) by blast
    have y: "absent_like u27 \<longrightarrow> usg = []"
      using usg findings_absent(2) by blast
    show "\<exists>a27 u27 chart acc usg.
           get_forecast_value (Some fl') (Str ''ACC_OWNERSHIP'') (Num 2027) (Str ''base'') = Inr a27
           \<and> get_forecast_value (Some fl') (Str ''USG_DIGITAL_PAYMENT'') (Num 2027) (Str ''base'')
               = Inr u27
           \<and> ws' = [Subheader ''Scenario Comparison''] @ chart
                   @ [Subheader ''Forecast Data Table'',
                      Dataframe (case fw of None \<Rightarrow> fl' | Some w \<Rightarrow> w),
                      Subheader ''Download Forecasts'',
                      DownloadButton ''Download Forecast CSV'' fl'
                        ''ethiopia_fi_forecast_2025_2027.csv'']
                   @ [Subheader ''Key Findings'', Markdown ''**Forecast Interpretation**'']
                   @ acc @ usg @ fixed_findings
           \<and> (absent_like a27 \<longrightarrow> acc = [])
           \<and> (absent_like u27 \<longrightarrow> usg = [])"
      by (rule exI [of _ a27], rule exI [of _ u27], rule exI [of _ chart], rule exI [of _ acc],
          rule exI [of _ usg], intro conjI)
         (fact a' b' w x y)+
  qed
qed

section \<open>Facts about the charts\<close>


lemma sort_values_Inr:
  assumes "sort_values c df = Inr df'"
  shows "columns df' = columns df" and "mset (rows df') = mset (rows df)"
    and "c \<in> set (columns df)"
proof -
  have p: "mset (filter (\<lambda>r. notna (r c)) (rows df))
           + mset (filter (\<lambda>r. \<not> notna (r c)) (rows df)) = mset (rows df)"
    by (induction "rows df") auto
  from assms show "c \<in> set (columns df)"
    by (auto simp: sort_values_def split: if_splits)
  from assms show "columns df' = columns df"
    by (auto simp: sort_values_def Let_def split: if_splits)
  from assms p show "mset (rows df') = mset (rows df)"
    by (auto simp: sort_values_def Let_def split: if_splits)
qed

lemma sort_values_rows_nil:
  "sort_values c df = Inr df' \<Longrightarrow> rows df' = [] \<longleftrightarrow> rows df = []"
  using sort_values_Inr(2) by (metis mset_zero_iff)

lemma forecast_trace_Inr:
  assumes "forecast_trace yd nm col data = Inr ts"
  shows "(ts = [] \<longleftrightarrow> is_empty data)"
    and "length ts \<le> 1"
    and "\<forall>t\<in>set ts. tname t = nm \<and> tcolor t = Some col \<and> tfill t = None
            \<and> ty t = map (\<lambda>r. r ''forecast_value'') (rows data)"
  using assms
  by (auto simp: forecast_trace_def bindE_eq_Inr getcol_def split: if_splits)

lemma historical_trace_Inr:
  assumes "historical_trace series = Inr ts"
  shows "\<forall>t\<in>set ts. tname t = ''Historical'' \<and> tfill t = None"
  using assms
  by (auto simp: historical_trace_def bindE_eq_Inr getcol_def split: if_splits)

lemma select_rows: "rows (select P df) = filter P (rows df)"
  by (simp add: select_def)

lemma select_columns: "columns (select P df) = columns df"
  by (simp add: select_def)

lemma mset_map_mset_cong: "mset xs = mset ys \<Longrightarrow> mset (map f xs) = mset (map f ys)"
  by (metis mset_map)


lemma overview_forecast_Some:
  assumes "overview_forecast yd s (Some fl') = Inr fc"
  obtains data where
    "sort_values ''year''
       (select (\<lambda>r. cell_eq (r ''indicator_code'') (Str ''ACC_OWNERSHIP'')
                    \<and> cell_eq (r ''scenario'') (Str s)) fl') = Inr data"
    and "forecast_trace yd (''Forecast ('' @ s @ '')'') ''#ff7f0e'' data = Inr fc"
proof -
  from assms have
    "bindE (getcol fl' ''indicator_code'') (\<lambda>_.
       bindE (getcol fl' ''scenario'') (\<lambda>_.
         bindE (sort_values ''year''
                  (select (\<lambda>r. cell_eq (r ''indicator_code'') (Str ''ACC_OWNERSHIP'')
                               \<and> cell_eq (r ''scenario'') (Str s)) fl'))
           (forecast_trace yd (''Forecast ('' @ s @ '')'') ''#ff7f0e''))) = Inr fc"
    by (simp only: overview_forecast_def option.case)
  then obtain v1 where
    "bindE (getcol fl' ''scenario'') (\<lambda>_.
         bindE (sort_values ''year''
                  (select (\<lambda>r. cell_eq (r ''indicator_code'') (Str ''ACC_OWNERSHIP'')
                               \<and> cell_eq (r ''scenario'') (Str s)) fl'))
           (forecast_trace yd (''Forecast ('' @ s @ '')'') ''#ff7f0e'')) = Inr fc"
    by (rule bindE_InrE)
  then obtain v2 where
    "bindE (sort_values ''year''
                  (select (\<lambda>r. cell_eq (r ''indicator_code'') (Str ''ACC_OWNERSHIP'')
                               \<and> cell_eq (r ''scenario'') (Str s)) fl'))
           (forecast_trace yd (''Forecast ('' @ s @ '')'') ''#ff7f0e'') = Inr fc"
    by (rule bindE_InrE)
  then obtain data where
    "sort_values ''year''
       (select (\<lambda>r. cell_eq (r ''indicator_code'') (Str ''ACC_OWNERSHIP'')
                    \<and> cell_eq (r ''scenario'') (Str s)) fl') = Inr data"
    and "forecast_trace yd (''Forecast ('' @ s @ '')'') ''#ff7f0e'' data = Inr fc"
    by (rule bindE_InrE)
  then show thesis by (rule that)
qed

lemma overview_forecast_Inr:
  assumes "overview_forecast yd s fl = Inr fc"
  shows "length fc \<le> 1
         \<and> (\<forall>t\<in>set fc. tname t = ''Forecast ('' @ s @ '')''
           \<and> (\<exists>fl'. fl = Some fl'
                \<and> mset (ty t) = mset (map (\<lambda>r. r ''forecast_value'') (overview_rows s fl'))))"
proof (cases fl)
  case None
  with assms have "fc = []"
    by (simp add: overview_forecast_def)
  then show ?thesis by simp
next
  case (Some fl')
  from assms [unfolded Some] obtain data where
    srt: "sort_values ''year''
            (select (\<lambda>r. cell_eq (r ''indicator_code'') (Str ''ACC_OWNERSHIP'')
                         \<and> cell_eq (r ''scenario'') (Str s)) fl') = Inr data"
    and tr: "forecast_trace yd (''Forecast ('' @ s @ '')'') ''#ff7f0e'' data = Inr fc"
    by (rule overview_forecast_Some)
  have "mset (rows data) = mset (overview_rows s fl')"
    using sort_values_Inr(2) [OF srt] unfolding select_rows overview_rows_def .
  then have eq: "mset (map (\<lambda>r. r ''forecast_value'') (rows data))
      = mset (map (\<lambda>r. r ''forecast_value'') (overview_rows s fl'))"
    by (rule mset_map_mset_cong)
  note len = forecast_trace_Inr(2) [OF tr]
  note each = forecast_trace_Inr(3) [OF tr]
  have "tname t = ''Forecast ('' @ s @ '')''
      \<and> (\<exists>fl'. fl = Some fl'
            \<and> mset (ty t) = mset (map (\<lambda>r. r ''forecast_value'') (overview_rows s fl')))"
    if t: "t \<in> set fc" for t
  proof (intro conjI exI [of _ fl'])
    from each t have all: "tname t = ''Forecast ('' @ s @ '')'' \<and> tcolor t = Some ''#ff7f0e''
        \<and> tfill t = None \<and> ty t = map (\<lambda>r. r ''forecast_value'') (rows data)"
      by (rule bspec)
    from all show "tname t = ''Forecast ('' @ s @ '')''"
      by (rule conjunct1)
    show "fl = Some fl'" by (fact Some)
    from all have "ty t = map (\<lambda>r. r ''forecast_value'') (rows data)"
      by (elim conjE)
    then show "mset (ty t) = mset (map (\<lambda>r. r ''forecast_value'') (overview_rows s fl'))"
      using eq by (simp only:)
  qed
  then have "\<forall>t\<in>set fc. tname t = ''Forecast ('' @ s @ '')''
      \<and> (\<exists>fl'. fl = Some fl'
            \<and> mset (ty t) = mset (map (\<lambda>r. r ''forecast_value'') (overview_rows s fl')))"
    by (rule ballI)
  with len show ?thesis by (rule conjI)
qed

lemma overview_chart_Inr:
  assumes "overview_chart u yd obs fl = Inr ws"
    and "overview_chart (u\<lparr>scenario_filter := s'\<rparr>) yd obs fl = Inr ws'"
  shows "(ws = [] \<and> ws' = []) \<or>
         (\<exists>hist fc fc'.
            ws = [PlotlyChart \<lparr>ftitle = [Lit ''Account Ownership: Historical + Forecast''],
                               ftraces = hist @ fc\<rparr>]
            \<and> ws' = [PlotlyChart \<lparr>ftitle = [Lit ''Account Ownership: Historical + Forecast''],
                                  ftraces = hist @ fc'\<rparr>]
            \<and> list_all (\<lambda>t. tname t = ''Historical'') hist
            \<and> overview_forecast yd (scenario_filter u) fl = Inr fc
            \<and> overview_forecast yd s' fl = Inr fc')"
proof (cases "is_empty obs")
  case True
  with assms show ?thesis by (simp add: overview_chart_def)
next
  case False
  with assms(1) obtain series hist fc where
    s: "get_indicator_series obs (Str ''ACC_OWNERSHIP'') = Inr series"
    and h: "historical_trace series = Inr hist"
    and f: "overview_forecast yd (scenario_filter u) fl = Inr fc"
    and w: "ws = [PlotlyChart \<lparr>ftitle = [Lit ''Account Ownership: Historical + Forecast''],
                               ftraces = hist @ fc\<rparr>]"
    by (auto simp: overview_chart_def bindE_eq_Inr)
  from False assms(2) s h obtain fc' where
    f': "overview_forecast yd s' fl = Inr fc'"
    and w': "ws' = [PlotlyChart \<lparr>ftitle = [Lit ''Account Ownership: Historical + Forecast''],
                               ftraces = hist @ fc'\<rparr>]"
    by (auto simp: overview_chart_def bindE_eq_Inr)
  from historical_trace_Inr [OF h] have "list_all (\<lambda>t. tname t = ''Historical'') hist"
    by (simp add: list_all_iff)
  with w w' f f' show ?thesis by blast
qed

lemma indicator_choice_scenario_filter:
  "indicator_choice (u\<lparr>scenario_filter := s'\<rparr>) = indicator_choice u"
  by simp

lemma forecasts_page_scenario_filter:
  "forecasts_page (u\<lparr>scenario_filter := s'\<rparr>) yd obs fl fw = forecasts_page u yd obs fl fw"
  by (cases fl)
     (simp_all only: forecasts_page_def forecasts_with_def option.case Let_def
        indicator_choice_scenario_filter)

lemma mapE_Inr:
  "mapE f xs = Inr ys \<Longrightarrow> list_all2 (\<lambda>x y. f x = Inr y) xs ys"
  by (induction xs arbitrary: ys) (auto simp: bindE_eq_Inr)

lemma scenario_trace_Inr:
  assumes "scenario_trace yd fd (sc, label, color) = Inr ts"
  shows "(ts = [] \<longleftrightarrow> filter (\<lambda>r. cell_eq (r ''scenario'') (Str sc)) (rows fd) = [])
         \<and> length ts \<le> 1
         \<and> (\<forall>t\<in>set ts. tname t = label \<and> tcolor t = Some color \<and> tfill t = None
               \<and> mset (ty t)
                   = mset (map (\<lambda>r. r ''forecast_value'')
                         (filter (\<lambda>r. cell_eq (r ''scenario'') (Str sc)) (rows fd))))"
proof -
  from assms obtain data where
    c: "''scenario'' \<in> set (columns fd)"
    and srt: "sort_values ''year'' (select (\<lambda>r. cell_eq (r ''scenario'') (Str sc)) fd) = Inr data"
    and tr: "forecast_trace yd label color data = Inr ts"
    by (auto simp: scenario_trace_def bindE_eq_Inr getcol_def split: if_splits)
  from sort_values_Inr(1) [OF srt] c have "columns data \<noteq> []"
    by (auto simp: select_def)
  moreover from sort_values_rows_nil [OF srt]
  have "rows data = [] \<longleftrightarrow> filter (\<lambda>r. cell_eq (r ''scenario'') (Str sc)) (rows fd) = []"
    by (simp add: select_def)
  ultimately have "is_empty data \<longleftrightarrow> filter (\<lambda>r. cell_eq (r ''scenario'') (Str sc)) (rows fd) = []"
    by (simp add: is_empty_def)
  moreover have "mset (rows data) = mset (filter (\<lambda>r. cell_eq (r ''scenario'') (Str sc)) (rows fd))"
    using sort_values_Inr(2) [OF srt] by (simp add: select_def)
  then have "mset (map (\<lambda>r. r ''forecast_value'') (rows data))
      = mset (map (\<lambda>r. r ''forecast_value'')
                (filter (\<lambda>r. cell_eq (r ''scenario'') (Str sc)) (rows fd)))"
    by (rule mset_map_mset_cong)
  ultimately show ?thesis
    using forecast_trace_Inr [OF tr] by auto
qed

lemma forecast_chart_Inr:
  assumes "forecast_chart yd obs fl fw selected = Inr ws"
  shows "\<exists>hist scs band.
           ws = [PlotlyChart \<lparr>ftitle = [Val selected, Lit '': Historical + Forecast Scenarios''],
                              ftraces = hist @ concat scs @ band\<rparr>]
           \<and> list_all (\<lambda>t. tname t = ''Historical'') hist
           \<and> list_all2 (drawn_for selected fl) scenarios scs
           \<and> band_traces yd fw selected = Inr band"
proof -
  let ?fd = "select (\<lambda>r. cell_eq (r ''indicator_code'') selected) fl"
  from assms obtain series hist scs band where
    h: "historical_trace series = Inr hist"
    and m: "mapE (scenario_trace yd ?fd) scenarios = Inr scs"
    and b: "band_traces yd fw selected = Inr band"
    and w: "ws = [PlotlyChart \<lparr>ftitle = [Val selected, Lit '': Historical + Forecast Scenarios''],
                              ftraces = hist @ concat scs @ band\<rparr>]"
    by (auto simp: forecast_chart_def bindE_eq_Inr Let_def)
  from historical_trace_Inr [OF h] have hh: "list_all (\<lambda>t. tname t = ''Historical'') hist"
    by (simp add: list_all_iff)
  have "list_all2 (\<lambda>x y. scenario_trace yd ?fd x = Inr y) scenarios scs"
    using m by (rule mapE_Inr)
  then have "list_all2 (drawn_for selected fl) scenarios scs"
  proof (rule list_all2_mono)
    fix x ts
    assume "scenario_trace yd ?fd x = Inr ts"
    then show "drawn_for selected fl x ts"
      using scenario_trace_Inr [of yd ?fd "fst x" "fst (snd x)" "snd (snd x)" ts]
      by (cases x) (auto simp: drawn_for_def scenario_rows_def select_def list_all_iff)
  qed
  with w hh b show ?thesis by blast
qed

lemma forecast_row_simps [simp]:
  "forecast_row code year scenario v ''indicator_code'' = Str code"
  "forecast_row code year scenario v ''year'' = Num year"
  "forecast_row code year scenario v ''scenario'' = Str scenario"
  "forecast_row code year scenario v ''forecast_value'' = Num v"
  by (simp_all add: forecast_row_def)

lemma overview_forecast_example_base:
  "overview_forecast year_dates_example ''base'' (Some forecast_example)
     = Inr [\<lparr>tname = ''Forecast (base)'', tx = [Timestamp (2027, 0)], ty = [Num 58],
             tmode = ''lines+markers'', tcolor = Some ''#ff7f0e'', tfill = None\<rparr>]"
  by (simp add: overview_forecast_def getcol_def forecast_example_def select_def
      sort_values_def cell_eq_def notna_def forecast_trace_def is_empty_def
      year_dates_example_def)

lemma overview_forecast_example_optimistic:
  "overview_forecast year_dates_example ''optimistic'' (Some forecast_example)
     = Inr [\<lparr>tname = ''Forecast (optimistic)'', tx = [Timestamp (2027, 0)], ty = [Num 63],
             tmode = ''lines+markers'', tcolor = Some ''#ff7f0e'', tfill = None\<rparr>]"
  by (simp add: overview_forecast_def getcol_def forecast_example_def select_def
      sort_values_def cell_eq_def notna_def forecast_trace_def is_empty_def
      year_dates_example_def)

lemma series_example_access:
  "get_indicator_series observations_example (Str ''ACC_OWNERSHIP'')
     = Inr (observations_example\<lparr>rows := []\<rparr>)"
proof -
  have ne: "rows observations_example \<noteq> []"
    by (simp add: observations_example_def)
  show ?thesis
    unfolding get_indicator_series_eq [OF observations_example_ok ne]
    by (simp add: observations_example_def in_series_def cell_eq_def notna_def)
qed

lemma overview_forecast_line:
  assumes "overview_forecast yd s fl = Inr fc"
  shows "overview_line s fl fc"
proof (cases fl)
  case None
  with assms have "fc = []"
    by (simp add: overview_forecast_def)
  with None show ?thesis by (simp add: overview_line_def)
next
  case (Some fl')
  have c: "''indicator_code'' \<in> set (columns fl')"
  proof (rule ccontr)
    assume "''indicator_code'' \<notin> set (columns fl')"
    with assms Some show False
      by (simp add: overview_forecast_def getcol_def)
  qed
  from assms [unfolded Some] obtain data where
    srt: "sort_values ''year''
            (select (\<lambda>r. cell_eq (r ''indicator_code'') (Str ''ACC_OWNERSHIP'')
                         \<and> cell_eq (r ''scenario'') (Str s)) fl') = Inr data"
    and tr: "forecast_trace yd (''Forecast ('' @ s @ '')'') ''#ff7f0e'' data = Inr fc"
    by (rule overview_forecast_Some)
  have cols: "columns data \<noteq> []"
    using sort_values_Inr(1) [OF srt] c by (auto simp: select_columns)
  have "rows data = [] \<longleftrightarrow> overview_rows s fl' = []"
    using sort_values_rows_nil [OF srt] by (simp add: select_rows overview_rows_def)
  with cols have e: "is_empty data \<longleftrightarrow> overview_rows s fl' = []"
    by (simp add: is_empty_def)
  from forecast_trace_Inr(1) [OF tr] e have nil: "fc = [] \<longleftrightarrow> overview_rows s fl' = []"
    by simp
  from overview_forecast_Inr [OF assms] have len: "length fc \<le> 1"
    and each: "\<forall>t\<in>set fc. tname t = ''Forecast ('' @ s @ '')''
           \<and> (\<exists>fl'. fl = Some fl'
                \<and> mset (ty t) = mset (map (\<lambda>r. r ''forecast_value'') (overview_rows s fl')))"
    by (rule conjunct1, rule conjunct2)
  from each Some have "list_all (\<lambda>t. tname t = ''Forecast ('' @ s @ '')''
       \<and> mset (ty t) = mset (map (\<lambda>r. r ''forecast_value'') (overview_rows s fl'))) fc"
    by (simp add: list_all_iff)
  with len nil Some show ?thesis
    by (simp add: overview_line_def)
qed

lemma overview_chart_pair:
  assumes "overview_chart u yd obs fl = Inr ws"
    and "overview_chart (u\<lparr>scenario_filter := s'\<rparr>) yd obs fl = Inr ws'"
  shows "(is_empty obs \<and> ws = [] \<and> ws' = []) \<or>
         (\<not> is_empty obs \<and>
          (\<exists>hist fc fc'.
            ws = [PlotlyChart \<lparr>ftitle = [Lit ''Account Ownership: Historical + Forecast''],
                               ftraces = hist @ fc\<rparr>]
            \<and> ws' = [PlotlyChart \<lparr>ftitle = [Lit ''Account Ownership: Historical + Forecast''],
                                  ftraces = hist @ fc'\<rparr>]
            \<and> list_all (\<lambda>t. tname t = ''Historical'') hist
            \<and> overview_line (scenario_filter u) fl fc
            \<and> overview_line s' fl fc'))"
proof (cases "is_empty obs")
  case True
  with assms show ?thesis by (simp add: overview_chart_def)
next
  case False
  from overview_chart_Inr [OF assms] have
    "(ws = [] \<and> ws' = []) \<or>
         (\<exists>hist fc fc'.
            ws = [PlotlyChart \<lparr>ftitle = [Lit ''Account Ownership: Historical + Forecast''],
                               ftraces = hist @ fc\<rparr>]
            \<and> ws' = [PlotlyChart \<lparr>ftitle = [Lit ''Account Ownership: Historical + Forecast''],
                                  ftraces = hist @ fc'\<rparr>]
            \<and> list_all (\<lambda>t. tname t = ''Historical'') hist
            \<and> overview_forecast yd (scenario_filter u) fl = Inr fc
            \<and> overview_forecast yd s' fl = Inr fc')" .
  moreover have "ws \<noteq> []"
    using assms(1) False by (auto simp: overview_chart_def bindE_eq_Inr)
  ultimately obtain hist fc fc' where
    w: "ws = [PlotlyChart \<lparr>ftitle = [Lit ''Account Ownership: Historical + Forecast''],
                               ftraces = hist @ fc\<rparr>]"
    and w': "ws' = [PlotlyChart \<lparr>ftitle = [Lit ''Account Ownership: Historical + Forecast''],
                                  ftraces = hist @ fc'\<rparr>]"
    and h: "list_all (\<lambda>t. tname t = ''Historical'') hist"
    and f: "overview_forecast yd (scenario_filter u) fl = Inr fc"
    and f': "overview_forecast yd s' fl = Inr fc'"
    by blast
  note l = overview_forecast_line [OF f] and l' = overview_forecast_line [OF f']
  have "\<exists>hist fc fc'.
            ws = [PlotlyChart \<lparr>ftitle = [Lit ''Account Ownership: Historical + Forecast''],
                               ftraces = hist @ fc\<rparr>]
            \<and> ws' = [PlotlyChart \<lparr>ftitle = [Lit ''Account Ownership: Historical + Forecast''],
                                  ftraces = hist @ fc'\<rparr>]
            \<and> list_all (\<lambda>t. tname t = ''Historical'') hist
            \<and> overview_line (scenario_filter u) fl fc
            \<and> overview_line s' fl fc'"
    by (rule exI [of _ hist], rule exI [of _ fc], rule exI [of _ fc'], intro conjI)
       (fact w w' h l l')+
  with False show ?thesis by blast
qed

lemma overview_page_pair:
  assumes "overview_page u yd obs ev fl fw = Inr ws"
    and "overview_page (u\<lparr>scenario_filter := s'\<rparr>) yd obs ev fl fw = Inr ws'"
  shows "\<exists>pre chart chart'.
           ws = pre @ chart \<and> ws' = pre @ chart'
           \<and> overview_chart u yd obs fl = Inr chart
           \<and> overview_chart (u\<lparr>scenario_filter := s'\<rparr>) yd obs fl = Inr chart'"
proof -
  from assms(1) have "overview_with (get_latest_value obs) (forecast_lookup fl) u yd obs ev fl fw
      = Inr ws"
    by (simp only: overview_page_def)
  from overview_with_Inr [OF this] obtain la lm lu f27 m1 m2 m3 m4 cs fo chart where
    a: "get_latest_value obs (Str ''ACC_OWNERSHIP'') = Inr la"
      "get_latest_value obs (Str ''ACC_MM_ACCOUNT'') = Inr lm"
      "get_latest_value obs (Str ''USG_DIGITAL_PAYMENT'') = Inr lu"
      "forecast_lookup fl (Str ''ACC_OWNERSHIP'', Num 2027, Str ''base'') = Inr f27"
      "kpi_metric ''Latest Account Ownership'' la = Inr m1"
      "kpi_metric ''Mobile Money Accounts'' lm = Inr m2"
      "kpi_metric ''Digital Payment Usage'' lu = Inr m3"
      "kpi_forecast f27 = Inr m4"
      "current_state la lm (length (rows ev)) = Inr cs"
      "forecast_outlook f27 fw = Inr fo"
    and ch: "overview_chart u yd obs fl = Inr chart"
    and ws: "ws = [Markdown ''**Forecasting Access and Usage (2025-2027)**'',
                   Subheader ''Key Performance Indicators'', m1, m2, m3, m4,
                   Subheader ''Key Insights'']
                  @ cs @ fo @ [Subheader ''Historical Trend + Forecast''] @ chart"
    by blast
  from assms(2) have "overview_with (get_latest_value obs) (forecast_lookup fl)
      (u\<lparr>scenario_filter := s'\<rparr>) yd obs ev fl fw = Inr ws'"
    by (simp only: overview_page_def)
  from overview_with_Inr [OF this] obtain la' lm' lu' f27' m1' m2' m3' m4' cs' fo' chart' where
    a': "get_latest_value obs (Str ''ACC_OWNERSHIP'') = Inr la'"
      "get_latest_value obs (Str ''ACC_MM_ACCOUNT'') = Inr lm'"
      "get_latest_value obs (Str ''USG_DIGITAL_PAYMENT'') = Inr lu'"
      "forecast_lookup fl (Str ''ACC_OWNERSHIP'', Num 2027, Str ''base'') = Inr f27'"
      "kpi_metric ''Latest Account Ownership'' la' = Inr m1'"
      "kpi_metric ''Mobile Money Accounts'' lm' = Inr m2'"
      "kpi_metric ''Digital Payment Usage'' lu' = Inr m3'"
      "kpi_forecast f27' = Inr m4'"
      "current_state la' lm' (length (rows ev)) = Inr cs'"
      "forecast_outlook f27' fw = Inr fo'"
    and ch': "overview_chart (u\<lparr>scenario_filter := s'\<rparr>) yd obs fl = Inr chart'"
    and ws': "ws' = [Markdown ''**Forecasting Access and Usage (2025-2027)**'',
                   Subheader ''Key Performance Indicators'', m1', m2', m3', m4',
                   Subheader ''Key Insights'']
                  @ cs' @ fo' @ [Subheader ''Historical Trend + Forecast''] @ chart'"
    by blast
  from a(1) a'(1) have "la' = la" by simp
  moreover from a(2) a'(2) have "lm' = lm" by simp
  moreover from a(3) a'(3) have "lu' = lu" by simp
  moreover from a(4) a'(4) have "f27' = f27" by simp
  ultimately have "m1' = m1" "m2' = m2" "m3' = m3" "m4' = m4" "cs' = cs" "fo' = fo"
    using a(5-10) a'(5-10) by simp_all
  with ws' have ws'': "ws' = ([Markdown ''**Forecasting Access and Usage (2025-2027)**'',
                   Subheader ''Key Performance Indicators'', m1, m2, m3, m4,
                   Subheader ''Key Insights'']
                  @ cs @ fo @ [Subheader ''Historical Trend + Forecast'']) @ chart'"
    by simp
  from ws have ws0: "ws = ([Markdown ''**Forecasting Access and Usage (2025-2027)**'',
                   Subheader ''Key Performance Indicators'', m1, m2, m3, m4,
                   Subheader ''Key Insights'']
                  @ cs @ fo @ [Subheader ''Historical Trend + Forecast'']) @ chart"
    by simp
  show ?thesis
    by (rule exI [of _ "[Markdown ''**Forecasting Access and Usage (2025-2027)**'',
                   Subheader ''Key Performance Indicators'', m1, m2, m3, m4,
                   Subheader ''Key Insights'']
                  @ cs @ fo @ [Subheader ''Historical Trend + Forecast'']"],
        rule exI [of _ chart], rule exI [of _ chart'], intro conjI)
       (fact ws0 ws'' ch ch')+
qed

lemma forecasts_page_chart:
  assumes "forecasts_page u yd obs (Some fl) fw = Inr ws"
  shows "\<exists>chart kf.
           ws = [Subheader ''Scenario Comparison''] @ chart
                @ [Subheader ''Forecast Data Table'',
                   Dataframe (case fw of None \<Rightarrow> fl | Some w \<Rightarrow> w),
                   Subheader ''Download Forecasts'',
                   DownloadButton ''Download Forecast CSV'' fl
                     ''ethiopia_fi_forecast_2025_2027.csv'']
                @ kf
           \<and> scenario_chart yd fl fw
                (selectbox (unique (map (\<lambda>r. r ''indicator_code'') (rows fl)))
                   (indicator_choice u)) chart
           \<and> findings (forecast_lookup (Some fl)) = Inr kf"
proof -
  let ?sel = "selectbox (unique (map (\<lambda>r. r ''indicator_code'') (rows fl))) (indicator_choice u)"
  from assms have "forecasts_with (forecast_lookup (Some fl)) u yd obs (Some fl) fw = Inr ws"
    by (simp only: forecasts_page_def)
  from forecasts_with_Inr [OF this] obtain chart kf where
    ch: "(case ?sel of
              None \<Rightarrow> Inr []
            | Some selected \<Rightarrow>
                if truthy (Some selected)
                then forecast_chart yd obs fl fw selected
                else Inr []) = Inr chart"
    and kf: "findings (forecast_lookup (Some fl)) = Inr kf"
    and ws: "ws = [Subheader ''Scenario Comparison''] @ chart
                  @ [Subheader ''Forecast Data Table'',
                     Dataframe (case fw of None \<Rightarrow> fl | Some w \<Rightarrow> w),
                     Subheader ''Download Forecasts'',
                     DownloadButton ''Download Forecast CSV'' fl
                       ''ethiopia_fi_forecast_2025_2027.csv'']
                  @ kf"
    by blast
  have sc: "scenario_chart yd fl fw ?sel chart"
  proof (cases ?sel)
    case None
    with ch show ?thesis by (simp add: scenario_chart_def)
  next
    case (Some selected)
    show ?thesis
    proof (cases "truthy (Some selected)")
      case False
      with ch Some show ?thesis by (simp add: scenario_chart_def)
    next
      case True
      with ch Some have "forecast_chart yd obs fl fw selected = Inr chart"
        by simp
      from forecast_chart_Inr [OF this] Some True show ?thesis
        by (simp add: scenario_chart_def)
    qed
  qed
  show ?thesis
    by (rule exI [of _ chart], rule exI [of _ kf], intro conjI) (fact ws sc kf)+
qed

text \<open>
  Claim C9, as amended. The scenario chosen in the sidebar reaches the Overview chart
  only. The Forecasts page is the same page for every two values of the filter. Two
  Overview pages drawn from the same tables under two values of the filter are the
  same widgets followed, when there are observations, by one chart each; the two
  charts have the same title and the same historical traces and differ in the forecast
  line alone, which is the line of the chosen scenario: one trace, named after the
  scenario and carrying the forecast values of the \<open>ACC_OWNERSHIP\<close> rows of that
  scenario, or no trace when there is no such row. The Forecasts page that is drawn
  holds, after its first heading, the chart of the selected indicator: the historical
  traces, then for each of \<open>base\<close>, \<open>optimistic\<close> and \<open>pessimistic\<close>, in this
  order and whatever the filter, one line with the label, the colour and the forecast
  values of the scenario when the indicator has a row for it and no line otherwise,
  then the traces of the uncertainty band. So the chart has three scenario lines only
  when the selected indicator has forecasts for all three.
\<close>

theorem scenario_filter_scope:
  "forecasts_page (u\<lparr>scenario_filter := s'\<rparr>) yd obs fl fw = forecasts_page u yd obs fl fw
   \<and> (overview_page u yd obs ev fl fw = Inr ws
        \<and> overview_page (u\<lparr>scenario_filter := s'\<rparr>) yd obs ev fl fw = Inr ws' \<longrightarrow>
        (\<exists>pre hist fc fc'.
           (is_empty obs \<and> ws = pre \<and> ws' = pre)
           \<or> (\<not> is_empty obs
               \<and> ws = pre @ [PlotlyChart
                               \<lparr>ftitle = [Lit ''Account Ownership: Historical + Forecast''],
                                ftraces = hist @ fc\<rparr>]
               \<and> ws' = pre @ [PlotlyChart
                                \<lparr>ftitle = [Lit ''Account Ownership: Historical + Forecast''],
                                 ftraces = hist @ fc'\<rparr>]
               \<and> list_all (\<lambda>t. tname t = ''Historical'') hist
               \<and> overview_line (scenario_filter u) fl fc
               \<and> overview_line s' fl fc')))
   \<and> (forecasts_page u yd obs (Some fl') fw = Inr ws'' \<longrightarrow>
        (\<exists>chart kf.
           ws'' = [Subheader ''Scenario Comparison''] @ chart
                  @ [Subheader ''Forecast Data Table'',
                     Dataframe (case fw of None \<Rightarrow> fl' | Some w \<Rightarrow> w),
                     Subheader ''Download Forecasts'',
                     DownloadButton ''Download Forecast CSV'' fl'
                       ''ethiopia_fi_forecast_2025_2027.csv'']
                  @ kf
           \<and> scenario_chart yd fl' fw
                (selectbox (unique (map (\<lambda>r. r ''indicator_code'') (rows fl')))
                   (indicator_choice u)) chart))"
proof (intro conjI impI)
  show "forecasts_page (u\<lparr>scenario_filter := s'\<rparr>) yd obs fl fw = forecasts_page u yd obs fl fw"
    by (rule forecasts_page_scenario_filter)
next
  assume "overview_page u yd obs ev fl fw = Inr ws
        \<and> overview_page (u\<lparr>scenario_filter := s'\<rparr>) yd obs ev fl fw = Inr ws'"
  then have a: "overview_page u yd obs ev fl fw = Inr ws"
    and b: "overview_page (u\<lparr>scenario_filter := s'\<rparr>) yd obs ev fl fw = Inr ws'"
    by (rule conjunct1, rule conjunct2)
  from overview_page_pair [OF a b] obtain pre chart chart' where
    w: "ws = pre @ chart" and w': "ws' = pre @ chart'"
    and c: "overview_chart u yd obs fl = Inr chart"
    and c': "overview_chart (u\<lparr>scenario_filter := s'\<rparr>) yd obs fl = Inr chart'"
    by blast
  from overview_chart_pair [OF c c'] w w'
  show "\<exists>pre hist fc fc'.
           (is_empty obs \<and> ws = pre \<and> ws' = pre)
           \<or> (\<not> is_empty obs
               \<and> ws = pre @ [PlotlyChart
                               \<lparr>ftitle = [Lit ''Account Ownership: Historical + Forecast''],
                                ftraces = hist @ fc\<rparr>]
               \<and> ws' = pre @ [PlotlyChart
                                \<lparr>ftitle = [Lit ''Account Ownership: Historical + Forecast''],
                                 ftraces = hist @ fc'\<rparr>]
               \<and> list_all (\<lambda>t. tname t = ''Historical'') hist
               \<and> overview_line (scenario_filter u) fl fc
               \<and> overview_line s' fl fc')"
    by (elim disjE conjE exE) (rule exI [of _ pre], simp, rule exI [of _ pre], blast)
next
  assume "forecasts_page u yd obs (Some fl') fw = Inr ws''"
  from forecasts_page_chart [OF this]
  show "\<exists>chart kf.
           ws'' = [Subheader ''Scenario Comparison''] @ chart
                  @ [Subheader ''Forecast Data Table'',
                     Dataframe (case fw of None \<Rightarrow> fl' | Some w \<Rightarrow> w),
                     Subheader ''Download Forecasts'',
                     DownloadButton ''Download Forecast CSV'' fl'
                       ''ethiopia_fi_forecast_2025_2027.csv'']
                  @ kf
           \<and> scenario_chart yd fl' fw
                (selectbox (unique (map (\<lambda>r. r ''indicator_code'') (rows fl')))
                   (indicator_choice u)) chart"
    by blast
qed


section \<open>The Forecasts page without the wide-form table\<close>

lemma not_isl_Inr: "\<not> isl m \<Longrightarrow> \<exists>v. m = Inr v"
  by (cases m) simp_all

lemma sort_values_numeric:
  assumes "c \<in> set (columns df)"
    and "list_all (\<lambda>r. is_Num (r c) \<or> is_NA (r c)) (rows df)"
  shows "\<exists>df'. sort_values c df = Inr df'"
proof -
  have "list_all is_Num (map (\<lambda>r. r c) (filter (\<lambda>r. notna (r c)) (rows df)))"
    using assms(2) by (auto simp: list_all_iff notna_def)
  then show ?thesis
    using assms(1) by (simp add: sort_values_def Let_def)
qed

lemma forecast_trace_returns:
  assumes "''year'' \<in> set (columns data)" and "''forecast_value'' \<in> set (columns data)"
    and "\<not> isl (yd (map (\<lambda>r. r ''year'') (rows data)))"
  shows "\<exists>ts. forecast_trace yd nm col data = Inr ts"
proof -
  from assms(3) obtain ds where "yd (map (\<lambda>r. r ''year'') (rows data)) = Inr ds"
    using not_isl_Inr by blast
  then show ?thesis
    using assms(1,2) by (simp add: forecast_trace_def getcol_def)
qed

lemma scenario_trace_returns:
  assumes "forecast_long_table fl" and "years_convert yd fl"
  shows "\<exists>ts. scenario_trace yd (select P fl) x = Inr ts"
proof -
  obtain sc label color where x: "x = (sc, label, color)"
    by (cases x)
  let ?fd = "select P fl"
  let ?sel = "select (\<lambda>r. cell_eq (r ''scenario'') (Str sc)) ?fd"
  from assms(1) have cols: "''year'' \<in> set (columns fl)" "''scenario'' \<in> set (columns fl)"
      "''forecast_value'' \<in> set (columns fl)"
    and num: "list_all (\<lambda>r. is_Num (r ''year'') \<or> is_NA (r ''year'')) (rows fl)"
    by (simp_all add: forecast_long_table_def has_columns_def)
  have c: "''year'' \<in> set (columns ?sel)"
    using cols by (simp add: select_columns)
  have n: "list_all (\<lambda>r. is_Num (r ''year'') \<or> is_NA (r ''year'')) (rows ?sel)"
    using num by (simp add: select_rows list_all_iff)
  from sort_values_numeric [OF c n] obtain data where
    srt: "sort_values ''year'' ?sel = Inr data"
    by blast
  have dc: "columns data = columns fl"
    using sort_values_Inr(1) [OF srt] by (simp add: select_columns)
  have "set (rows data) = set (rows ?sel)"
    using sort_values_Inr(2) [OF srt] by (rule mset_eq_setD)
  then have "set (map (\<lambda>r. r ''year'') (rows data)) \<subseteq> set (map (\<lambda>r. r ''year'') (rows fl))"
    by (auto simp: select_rows)
  with assms(2) have "\<not> isl (yd (map (\<lambda>r. r ''year'') (rows data)))"
    unfolding years_convert_def by blast
  with dc cols have "\<exists>ts. forecast_trace yd label color data = Inr ts"
    by (intro forecast_trace_returns) simp_all
  then show ?thesis
    using cols(2) srt by (simp add: x scenario_trace_def getcol_def select_columns)
qed

lemma mapE_returns:
  "(\<And>x. \<exists>y. f x = Inr y) \<Longrightarrow> \<exists>ys. mapE f xs = Inr ys"
proof (induction xs)
  case Nil
  show ?case by simp
next
  case (Cons a as)
  from Cons.prems obtain b where "f a = Inr b" by blast
  moreover from Cons.IH [OF Cons.prems] obtain bs where "mapE f as = Inr bs" by blast
  ultimately show ?case by simp
qed

lemma historical_trace_returns:
  assumes "observation_table obs"
  shows "\<exists>series hist. get_indicator_series obs selected = Inr series
            \<and> historical_trace series = Inr hist"
proof (cases "rows obs = []")
  case True
  then show ?thesis
    by (simp add: get_indicator_series_rows_nil historical_trace_def is_empty_def DataFrame0_def)
next
  case False
  with assms have cols: "''observation_date'' \<in> set (columns obs)"
      "''value_numeric'' \<in> set (columns obs)"
    by (simp_all add: observation_table_def has_columns_def)
  show ?thesis
    unfolding get_indicator_series_eq [OF assms False]
    using cols by (simp add: historical_trace_def getcol_def)
qed

lemma forecast_chart_returns:
  assumes "forecast_long_table fl" and "years_convert yd fl" and "observation_table obs"
  shows "\<exists>cs. forecast_chart yd obs fl None selected = Inr cs"
proof -
  from historical_trace_returns [OF assms(3)] obtain series hist where
    s: "get_indicator_series obs selected = Inr series"
    and h: "historical_trace series = Inr hist"
    by blast
  have "\<exists>scs. mapE (scenario_trace yd (select (\<lambda>r. cell_eq (r ''indicator_code'') selected) fl))
           scenarios = Inr scs"
    using assms(1,2) by (intro mapE_returns scenario_trace_returns)
  then obtain scs where
    m: "mapE (scenario_trace yd (select (\<lambda>r. cell_eq (r ''indicator_code'') selected) fl))
           scenarios = Inr scs"
    by blast
  show ?thesis
    by (simp add: forecast_chart_def s h m band_traces_def Let_def)
qed

lemma list_all2_right:
  "list_all2 P xs ys \<Longrightarrow> y \<in> set ys \<Longrightarrow> \<exists>x\<in>set xs. P x y"
  by (induction rule: list_all2_induct) auto

lemma forecast_chart_no_band:
  assumes "forecast_chart yd obs fl None selected = Inr cs"
  shows "\<exists>fig. cs = [PlotlyChart fig] \<and> (\<forall>t\<in>set (ftraces fig). tfill t = None
           \<and> tname t \<noteq> ''Upper Bound'' \<and> tname t \<noteq> ''Uncertainty Band'')"
proof -
  let ?fd = "select (\<lambda>r. cell_eq (r ''indicator_code'') selected) fl"
  from assms obtain series hist scs where
    h: "historical_trace series = Inr hist"
    and m: "mapE (scenario_trace yd ?fd) scenarios = Inr scs"
    and w: "cs = [PlotlyChart \<lparr>ftitle = [Val selected, Lit '': Historical + Forecast Scenarios''],
                              ftraces = hist @ concat scs\<rparr>]"
    by (auto simp: forecast_chart_def bindE_eq_Inr Let_def band_traces_def)
  have hh: "\<forall>t\<in>set hist. tfill t = None
           \<and> tname t \<noteq> ''Upper Bound'' \<and> tname t \<noteq> ''Uncertainty Band''"
    using historical_trace_Inr [OF h] by simp
  have l: "list_all2 (\<lambda>x y. scenario_trace yd ?fd x = Inr y) scenarios scs"
    using m by (rule mapE_Inr)
  have ss: "\<forall>ts\<in>set scs. \<forall>t\<in>set ts. tfill t = None
           \<and> tname t \<noteq> ''Upper Bound'' \<and> tname t \<noteq> ''Uncertainty Band''"
  proof
    fix ts
    assume i: "ts \<in> set scs"
    have "\<exists>x\<in>set scenarios. scenario_trace yd ?fd x = Inr ts"
      using l i by (rule list_all2_right)
    then obtain x where x: "x \<in> set scenarios" and tr: "scenario_trace yd ?fd x = Inr ts"
      by (rule bexE)
    obtain sc label color where xe: "x = (sc, label, color)"
      by (cases x)
    from x xe have lab: "label \<noteq> ''Upper Bound''" "label \<noteq> ''Uncertainty Band''"
      by (auto simp: scenarios_def)
    from scenario_trace_Inr [OF tr [unfolded xe]] lab
    show "\<forall>t\<in>set ts. tfill t = None
           \<and> tname t \<noteq> ''Upper Bound'' \<and> tname t \<noteq> ''Uncertainty Band''"
      by simp
  qed
  from hh ss have "\<forall>t\<in>set (hist @ concat scs). tfill t = None
           \<and> tname t \<noteq> ''Upper Bound'' \<and> tname t \<noteq> ''Uncertainty Band''"
    by auto
  with w show ?thesis by simp
qed


lemma finding_returns:
  assumes "v = None \<or> (\<exists>c. v = Some c \<and> (is_Num c \<or> is_NA c))"
  shows "\<exists>ws. access_finding v = Inr ws \<and> (\<forall>fig. PlotlyChart fig \<notin> set ws)"
    and "\<exists>ws. usage_finding v = Inr ws \<and> (\<forall>fig. PlotlyChart fig \<notin> set ws)"
proof -
  show "\<exists>ws. access_finding v = Inr ws \<and> (\<forall>fig. PlotlyChart fig \<notin> set ws)"
  proof (cases v)
    case None
    then show ?thesis by (simp add: access_finding_def)
  next
    case (Some c)
    with assms show ?thesis
      by (cases c) (simp_all add: access_finding_def)
  qed
  show "\<exists>ws. usage_finding v = Inr ws \<and> (\<forall>fig. PlotlyChart fig \<notin> set ws)"
  proof (cases v)
    case None
    then show ?thesis by (simp add: usage_finding_def)
  next
    case (Some c)
    with assms show ?thesis
      by (cases c) (simp_all add: usage_finding_def)
  qed
qed

lemma forecast_long_table_forecast_table:
  "forecast_long_table fl \<Longrightarrow> forecast_table fl"
  by (simp add: forecast_long_table_def forecast_table_def)

lemma forecast_lookup_returns:
  assumes "forecast_long_table fl"
  shows "\<exists>v. forecast_lookup (Some fl) k = Inr v
           \<and> (v = None \<or> (\<exists>c. v = Some c \<and> (is_Num c \<or> is_NA c)))"
proof -
  obtain i y s where k: "k = (i, y, s)"
    by (cases k)
  have ft: "forecast_table fl"
    using assms by (rule forecast_long_table_forecast_table)
  from assms have num: "\<forall>r\<in>set (rows fl). is_Num (r ''forecast_value'') \<or> is_NA (r ''forecast_value'')"
    by (simp add: forecast_long_table_def list_all_iff)
  show ?thesis
  proof (cases "filter (matches i y s) (rows fl)")
    case Nil
    then show ?thesis
      by (simp add: k forecast_lookup_def get_forecast_value_eq [OF ft])
  next
    case (Cons r rs)
    then have "r \<in> set (filter (matches i y s) (rows fl))"
      by simp
    then have "r \<in> set (rows fl)"
      by simp
    with num have "is_Num (r ''forecast_value'') \<or> is_NA (r ''forecast_value'')"
      by (rule bspec)
    with Cons show ?thesis
      by (simp add: k forecast_lookup_def get_forecast_value_eq [OF ft])
  qed
qed

lemma findings_returns:
  assumes "forecast_long_table fl"
  shows "\<exists>kf. findings (forecast_lookup (Some fl)) = Inr kf \<and> (\<forall>fig. PlotlyChart fig \<notin> set kf)"
proof -
  from forecast_lookup_returns [OF assms] obtain a where
    a: "forecast_lookup (Some fl) (Str ''ACC_OWNERSHIP'', Num 2027, Str ''base'') = Inr a"
    and an: "a = None \<or> (\<exists>c. a = Some c \<and> (is_Num c \<or> is_NA c))"
    by blast
  from forecast_lookup_returns [OF assms] obtain b where
    b: "forecast_lookup (Some fl) (Str ''USG_DIGITAL_PAYMENT'', Num 2027, Str ''base'') = Inr b"
    and bn: "b = None \<or> (\<exists>c. b = Some c \<and> (is_Num c \<or> is_NA c))"
    by blast
  from finding_returns(1) [OF an] obtain acc where
    acc: "access_finding a = Inr acc" and accn: "\<forall>fig. PlotlyChart fig \<notin> set acc"
    by blast
  from finding_returns(2) [OF bn] obtain usg where
    usg: "usage_finding b = Inr usg" and usgn: "\<forall>fig. PlotlyChart fig \<notin> set usg"
    by blast
  have "findings (forecast_lookup (Some fl))
      = Inr ([Subheader ''Key Findings'', Markdown ''**Forecast Interpretation**'']
            @ acc @ usg @ fixed_findings)"
    by (simp add: findings_def a b acc usg)
  moreover have "\<forall>fig. PlotlyChart fig \<notin> set fixed_findings"
    by (simp add: fixed_findings_def)
  ultimately show ?thesis
    using accn usgn by simp
qed

lemma chart_part_returns:
  assumes "forecast_long_table fl" and "years_convert yd fl" and "observation_table obs"
  shows "\<exists>chart. (case sel of
                     None \<Rightarrow> Inr []
                   | Some selected \<Rightarrow>
                       if truthy (Some selected)
                       then forecast_chart yd obs fl None selected
                       else Inr []) = Inr chart
           \<and> no_band chart \<and> (truthy sel \<longrightarrow> (\<exists>fig. PlotlyChart fig \<in> set chart))"
proof (cases sel)
  case None
  then show ?thesis by (simp add: no_band_def)
next
  case (Some selected)
  show ?thesis
  proof (cases "truthy (Some selected)")
    case False
    with Some show ?thesis by (simp add: no_band_def)
  next
    case True
    from forecast_chart_returns [OF assms] obtain cs where
      cs: "forecast_chart yd obs fl None selected = Inr cs"
      by blast
    from forecast_chart_no_band [OF cs] obtain fig where
      f: "cs = [PlotlyChart fig]"
      and n: "\<forall>t\<in>set (ftraces fig). tfill t = None
           \<and> tname t \<noteq> ''Upper Bound'' \<and> tname t \<noteq> ''Uncertainty Band''"
      by blast
    from f n have "no_band cs"
      by (simp add: no_band_def)
    with Some True cs f show ?thesis by simp
  qed
qed

lemma no_band_append:
  "no_band (xs @ ys) \<longleftrightarrow> no_band xs \<and> no_band ys"
  by (auto simp: no_band_def)

lemma no_band_no_chart:
  "\<forall>fig. PlotlyChart fig \<notin> set ws \<Longrightarrow> no_band ws"
  by (simp add: no_band_def)

lemma forecasts_page_returns:
  assumes "forecast_long_table fl" and "years_convert yd fl" and "observation_table obs"
  shows "\<exists>ws. forecasts_page u yd obs (Some fl) None = Inr ws
           \<and> no_band ws
           \<and> Dataframe fl \<in> set ws
           \<and> (truthy (selectbox (unique (map (\<lambda>r. r ''indicator_code'') (rows fl)))
                       (indicator_choice u))
                \<longrightarrow> (\<exists>fig. PlotlyChart fig \<in> set ws))"
proof -
  let ?sel = "selectbox (unique (map (\<lambda>r. r ''indicator_code'') (rows fl))) (indicator_choice u)"
  let ?mid = "[Subheader ''Forecast Data Table'', Dataframe fl,
               Subheader ''Download Forecasts'',
               DownloadButton ''Download Forecast CSV'' fl
                 ''ethiopia_fi_forecast_2025_2027.csv'']"
  from assms(1) have c: "getcol fl ''indicator_code'' = Inr (map (\<lambda>r. r ''indicator_code'') (rows fl))"
    by (simp add: forecast_long_table_def has_columns_def getcol_def)
  from chart_part_returns [OF assms, of ?sel] obtain chart where
    ch: "(case ?sel of
            None \<Rightarrow> Inr []
          | Some selected \<Rightarrow>
              if truthy (Some selected)
              then forecast_chart yd obs fl None selected
              else Inr []) = Inr chart"
    and nb: "no_band chart"
    and dr: "truthy ?sel \<longrightarrow> (\<exists>fig. PlotlyChart fig \<in> set chart)"
    by blast
  from findings_returns [OF assms(1)] obtain kf where
    kf: "findings (forecast_lookup (Some fl)) = Inr kf"
    and kn: "\<forall>fig. PlotlyChart fig \<notin> set kf"
    by blast
  have page: "forecasts_page u yd obs (Some fl) None
      = Inr ([Subheader ''Scenario Comparison''] @ chart @ ?mid @ kf)"
    unfolding forecasts_page_def forecasts_with_def option.case c bindE_Inr Let_def ch kf
    by (rule refl)
  have "no_band [Subheader ''Scenario Comparison'']" and "no_band ?mid" and "no_band kf"
    using kn by (simp_all add: no_band_def)
  with nb have n: "no_band ([Subheader ''Scenario Comparison''] @ chart @ ?mid @ kf)"
    by (simp only: no_band_append)
  have d: "Dataframe fl \<in> set ([Subheader ''Scenario Comparison''] @ chart @ ?mid @ kf)"
    by simp
  have p: "truthy ?sel
      \<longrightarrow> (\<exists>fig. PlotlyChart fig \<in> set ([Subheader ''Scenario Comparison''] @ chart @ ?mid @ kf))"
    using dr by auto
  from page n d p show ?thesis
    by (intro exI conjI)
qed



lemma long_example_ok: "forecast_long_table long_example"
  by (simp add: forecast_long_table_def has_columns_def long_example_def)

lemma year_dates_example_ok: "years_convert year_dates_example fl"
  by (simp add: years_convert_def year_dates_example_def)

lemma historical_example:
  "bindE (get_indicator_series observations_example (Str ''X'')) historical_trace
     = Inr [\<lparr>tname = ''Historical'',
             tx = [Timestamp (2020, 0), Timestamp (2021, 0), Timestamp (2022, 0)],
             ty = [Num 10, Num 20, Num 30], tmode = ''lines+markers'',
             tcolor = Some ''#1f77b4'', tfill = None\<rparr>]"
proof -
  have ne: "rows observations_example \<noteq> []"
    by (simp add: observations_example_def)
  show ?thesis
    unfolding get_indicator_series_eq [OF observations_example_ok ne]
    by (simp add: historical_trace_def is_empty_def getcol_def observations_example_def
        in_series_def cell_eq_def notna_def obs_date_def)
qed

lemma scenario_traces_example:
  "mapE (scenario_trace year_dates_example
           (select (\<lambda>r. cell_eq (r ''indicator_code'') (Str ''X'')) long_example)) scenarios
     = Inr [[\<lparr>tname = ''Base'', tx = [Timestamp (2025, 0), Timestamp (2026, 0)],
              ty = [Num 40, Num 45], tmode = ''lines+markers'',
              tcolor = Some ''#ff7f0e'', tfill = None\<rparr>], [], []]"
  by (simp add: scenarios_def scenario_trace_def getcol_def long_example_def select_def
      sort_values_def cell_eq_def notna_def forecast_trace_def is_empty_def
      year_dates_example_def)

lemma forecast_chart_example:
  "forecast_chart year_dates_example observations_example long_example None (Str ''X'')
     = Inr [PlotlyChart
              \<lparr>ftitle = [Val (Str ''X''), Lit '': Historical + Forecast Scenarios''],
               ftraces =
                 [\<lparr>tname = ''Historical'',
                   tx = [Timestamp (2020, 0), Timestamp (2021, 0), Timestamp (2022, 0)],
                   ty = [Num 10, Num 20, Num 30], tmode = ''lines+markers'',
                   tcolor = Some ''#1f77b4'', tfill = None\<rparr>,
                  \<lparr>tname = ''Base'', tx = [Timestamp (2025, 0), Timestamp (2026, 0)],
                   ty = [Num 40, Num 45], tmode = ''lines+markers'',
                   tcolor = Some ''#ff7f0e'', tfill = None\<rparr>]\<rparr>]"
proof -
  from historical_example obtain series where
    s: "get_indicator_series observations_example (Str ''X'') = Inr series"
    and h: "historical_trace series
     = Inr [\<lparr>tname = ''Historical'',
             tx = [Timestamp (2020, 0), Timestamp (2021, 0), Timestamp (2022, 0)],
             ty = [Num 10, Num 20, Num 30], tmode = ''lines+markers'',
             tcolor = Some ''#1f77b4'', tfill = None\<rparr>]"
    by (rule bindE_InrE)
  show ?thesis
    unfolding forecast_chart_def s bindE_Inr Let_def h scenario_traces_example
    by (simp add: band_traces_def)
qed

lemma findings_example:
  "findings (forecast_lookup (Some long_example))
     = Inr ([Subheader ''Key Findings'', Markdown ''**Forecast Interpretation**'']
            @ fixed_findings)"
proof -
  have "forecast_lookup (Some long_example) (Str ''ACC_OWNERSHIP'', Num 2027, Str ''base'')
      = Inr None"
    and "forecast_lookup (Some long_example) (Str ''USG_DIGITAL_PAYMENT'', Num 2027, Str ''base'')
      = Inr None"
    unfolding forecast_lookup_def prod.case
      get_forecast_value_eq [OF forecast_long_table_forecast_table [OF long_example_ok]]
    by (simp_all add: long_example_def matches_def cell_eq_def)
  then show ?thesis
    by (simp add: findings_def findings_zero)
qed

lemma selected_example:
  "selectbox (unique (map (\<lambda>r. r ''indicator_code'') (rows long_example)))
     (indicator_choice ui_example) = Some (Str ''X'')"
  by (simp add: long_example_def unique_def selectbox_def ui_example_def)

lemma forecasts_page_example:
  "forecasts_page ui_example year_dates_example observations_example (Some long_example) None
     = Inr ([Subheader ''Scenario Comparison'',
             PlotlyChart
              \<lparr>ftitle = [Val (Str ''X''), Lit '': Historical + Forecast Scenarios''],
               ftraces =
                 [\<lparr>tname = ''Historical'',
                   tx = [Timestamp (2020, 0), Timestamp (2021, 0), Timestamp (2022, 0)],
                   ty = [Num 10, Num 20, Num 30], tmode = ''lines+markers'',
                   tcolor = Some ''#1f77b4'', tfill = None\<rparr>,
                  \<lparr>tname = ''Base'', tx = [Timestamp (2025, 0), Timestamp (2026, 0)],
                   ty = [Num 40, Num 45], tmode = ''lines+markers'',
                   tcolor = Some ''#ff7f0e'', tfill = None\<rparr>]\<rparr>,
             Subheader ''Forecast Data Table'', Dataframe long_example,
             Subheader ''Download Forecasts'',
             DownloadButton ''Download Forecast CSV'' long_example
               ''ethiopia_fi_forecast_2025_2027.csv'',
             Subheader ''Key Findings'', Markdown ''**Forecast Interpretation**'']
            @ fixed_findings)"
proof -
  have c: "getcol long_example ''indicator_code''
      = Inr (map (\<lambda>r. r ''indicator_code'') (rows long_example))"
    by (simp add: getcol_def long_example_def)
  show ?thesis
    unfolding forecasts_page_def forecasts_with_def option.case c bindE_Inr Let_def
      selected_example findings_example
    by (simp add: forecast_chart_example)
qed



section \<open>The pages on a table with a value of 0\<close>

lemma zero_observations_latest:
  "get_latest_value zero_observations (Str ''ACC_OWNERSHIP'') = Inr (Some (Num 0))"
proof -
  have ok: "observation_table zero_observations"
    by (simp add: observation_table_def has_columns_def zero_observations_def dates_or_missing_def)
  have ne: "rows zero_observations \<noteq> []"
    by (simp add: zero_observations_def)
  show ?thesis
    unfolding get_latest_value_eq [OF ok ne]
    by (simp add: zero_observations_def in_series_def cell_eq_def notna_def obs_date_def)
qed

lemma zero_observations_ok: "observation_table zero_observations"
  by (simp add: observation_table_def has_columns_def zero_observations_def dates_or_missing_def)

lemma zero_observations_rows: "rows zero_observations \<noteq> []"
  by (simp add: zero_observations_def)

lemma zero_observations_others:
  "get_latest_value zero_observations (Str ''ACC_MM_ACCOUNT'') = Inr None"
  "get_latest_value zero_observations (Str ''USG_DIGITAL_PAYMENT'') = Inr None"
  unfolding get_latest_value_eq [OF zero_observations_ok zero_observations_rows]
  by (simp_all add: zero_observations_def in_series_def cell_eq_def notna_def obs_date_def)

lemma forecast_example_2027:
  "forecast_lookup (Some forecast_example) (Str ''ACC_OWNERSHIP'', Num 2027, Str ''base'')
     = Inr (Some (Num 58))"
  unfolding forecast_lookup_def prod.case get_forecast_value_eq [OF forecast_example_ok]
  by (simp add: forecast_example_def matches_def cell_eq_def)

lemma zero_observations_chart:
  "overview_chart (ui_example\<lparr>scenario_filter := s\<rparr>) year_dates_example zero_observations
       (Some forecast_example)
     = bindE (overview_forecast year_dates_example s (Some forecast_example)) (\<lambda>fc.
         Inr [PlotlyChart
                \<lparr>ftitle = [Lit ''Account Ownership: Historical + Forecast''],
                 ftraces =
                   [\<lparr>tname = ''Historical'', tx = [Timestamp (2014, 0), Timestamp (2017, 0)],
                     ty = [Num 22, Num 0], tmode = ''lines+markers'',
                     tcolor = Some ''#1f77b4'', tfill = None\<rparr>] @ fc\<rparr>])"
proof -
  have ne: "\<not> is_empty zero_observations"
    by (simp add: zero_observations_def is_empty_def)
  have h: "historical_trace
      (zero_observations\<lparr>rows := sort_key obs_date
          (filter (in_series (Str ''ACC_OWNERSHIP'')) (rows zero_observations))\<rparr>)
      = Inr [\<lparr>tname = ''Historical'', tx = [Timestamp (2014, 0), Timestamp (2017, 0)],
               ty = [Num 22, Num 0], tmode = ''lines+markers'',
               tcolor = Some ''#1f77b4'', tfill = None\<rparr>]"
    by (simp add: historical_trace_def is_empty_def getcol_def zero_observations_def
        in_series_def cell_eq_def notna_def obs_date_def)
  show ?thesis
    unfolding overview_chart_def
      get_indicator_series_eq [OF zero_observations_ok zero_observations_rows]
    using ne by (simp add: h)
qed

lemma overview_page_zero_example:
  "overview_page ui_example year_dates_example zero_observations DataFrame0
       (Some forecast_example) None
     = Inr [Markdown ''**Forecasting Access and Usage (2025-2027)**'',
            Subheader ''Key Performance Indicators'',
            Metric ''Latest Account Ownership'' [Lit ''N/A''] None,
            Metric ''Mobile Money Accounts'' [Lit ''N/A''] None,
            Metric ''Digital Payment Usage'' [Lit ''N/A''] None,
            Metric ''2027 Forecast (Access)'' [F1 58, Lit ''%'']
              (Some [F1 (- 2), Lit ''pp to 60% target'']),
            Subheader ''Key Insights'',
            Markdown ''**Current State**'',
            Write [Lit ''- Total events tracked: '', Count 0],
            Markdown ''**Forecast Outlook**'',
            Write [Lit ''- 2027 base forecast: '', F1 58, Lit ''%''],
            Write [Lit ''- Key drivers: Telebirr, M-Pesa, NFIS-II''],
            Subheader ''Historical Trend + Forecast'',
            PlotlyChart
              \<lparr>ftitle = [Lit ''Account Ownership: Historical + Forecast''],
               ftraces =
                 [\<lparr>tname = ''Historical'', tx = [Timestamp (2014, 0), Timestamp (2017, 0)],
                   ty = [Num 22, Num 0], tmode = ''lines+markers'',
                   tcolor = Some ''#1f77b4'', tfill = None\<rparr>,
                  \<lparr>tname = ''Forecast (base)'', tx = [Timestamp (2027, 0)], ty = [Num 58],
                   tmode = ''lines+markers'', tcolor = Some ''#ff7f0e'', tfill = None\<rparr>]\<rparr>]"
proof -
  have u: "ui_example\<lparr>scenario_filter := ''base''\<rparr> = ui_example"
    by (simp add: ui_example_def)
  have c: "overview_chart ui_example year_dates_example zero_observations
       (Some forecast_example)
     = Inr [PlotlyChart
              \<lparr>ftitle = [Lit ''Account Ownership: Historical + Forecast''],
               ftraces =
                 [\<lparr>tname = ''Historical'', tx = [Timestamp (2014, 0), Timestamp (2017, 0)],
                   ty = [Num 22, Num 0], tmode = ''lines+markers'',
                   tcolor = Some ''#1f77b4'', tfill = None\<rparr>,
                  \<lparr>tname = ''Forecast (base)'', tx = [Timestamp (2027, 0)], ty = [Num 58],
                   tmode = ''lines+markers'', tcolor = Some ''#ff7f0e'', tfill = None\<rparr>]\<rparr>]"
    using zero_observations_chart [of "''base''"]
    unfolding u overview_forecast_example_base by simp
  have k: "kpi_forecast (Some (Num 58))
      = Inr (Metric ''2027 Forecast (Access)'' [F1 58, Lit ''%'']
              (Some [F1 (- 2), Lit ''pp to 60% target'']))"
    by (simp add: kpi_forecast_def)
  have o: "forecast_outlook (Some (Num 58)) None
      = Inr [Markdown ''**Forecast Outlook**'',
             Write [Lit ''- 2027 base forecast: '', F1 58, Lit ''%''],
             Write [Lit ''- Key drivers: Telebirr, M-Pesa, NFIS-II'']]"
    by (simp add: forecast_outlook_def uncertainty_range_def)
  have n: "length (rows DataFrame0) = 0"
    by (simp add: DataFrame0_def)
  show ?thesis
    unfolding overview_page_def overview_with_def zero_observations_latest
      zero_observations_others forecast_example_2027 bindE_Inr kpi_metric_zero k
      current_state_zero o c n
    by simp
qed

theorem zero_rendered_as_absent_witness:
  "get_latest_value zero_observations (Str ''ACC_OWNERSHIP'') = Inr (Some (Num 0))
   \<and> absent_like (Some (Num 0))
   \<and> (\<exists>m2 m3 m4 fo chart.
         overview_page ui_example year_dates_example zero_observations DataFrame0
             (Some forecast_example) None
           = Inr ([Markdown ''**Forecasting Access and Usage (2025-2027)**'',
                   Subheader ''Key Performance Indicators'',
                   Metric ''Latest Account Ownership'' [Lit ''N/A''] None, m2, m3, m4,
                   Subheader ''Key Insights'',
                   Markdown ''**Current State**'',
                   Write [Lit ''- Total events tracked: '', Count 0]]
                  @ fo @ [Subheader ''Historical Trend + Forecast''] @ chart))
   \<and> overview_page ui_example year_dates_example zero_observations DataFrame0
         (Some forecast_example) None
       = overview_with ((get_latest_value zero_observations)(Str ''ACC_OWNERSHIP'' := Inr None))
           (forecast_lookup (Some forecast_example)) ui_example year_dates_example
           zero_observations DataFrame0 (Some forecast_example) None"
proof -
  note t = zero_rendered_as_absent [where obs = zero_observations
      and c = "Str ''ACC_OWNERSHIP''" and u = ui_example and yd = year_dates_example
      and ev = DataFrame0 and fl = "Some forecast_example" and fw = None]
  note page = t [THEN conjunct1, THEN mp, OF zero_observations_latest]
  have z: "absent_like (Some (Num 0))"
    by (simp add: absent_like_def)
  from t [THEN conjunct2, THEN conjunct2, THEN conjunct1, THEN mp, OF overview_page_zero_example]
  obtain la lm m1 m2 m3 m4 cs fo chart where
    la: "get_latest_value zero_observations (Str ''ACC_OWNERSHIP'') = Inr la"
    and ws: "[Markdown ''**Forecasting Access and Usage (2025-2027)**'',
            Subheader ''Key Performance Indicators'',
            Metric ''Latest Account Ownership'' [Lit ''N/A''] None,
            Metric ''Mobile Money Accounts'' [Lit ''N/A''] None,
            Metric ''Digital Payment Usage'' [Lit ''N/A''] None,
            Metric ''2027 Forecast (Access)'' [F1 58, Lit ''%'']
              (Some [F1 (- 2), Lit ''pp to 60% target'']),
            Subheader ''Key Insights'',
            Markdown ''**Current State**'',
            Write [Lit ''- Total events tracked: '', Count 0],
            Markdown ''**Forecast Outlook**'',
            Write [Lit ''- 2027 base forecast: '', F1 58, Lit ''%''],
            Write [Lit ''- Key drivers: Telebirr, M-Pesa, NFIS-II''],
            Subheader ''Historical Trend + Forecast'',
            PlotlyChart
              \<lparr>ftitle = [Lit ''Account Ownership: Historical + Forecast''],
               ftraces =
                 [\<lparr>tname = ''Historical'', tx = [Timestamp (2014, 0), Timestamp (2017, 0)],
                   ty = [Num 22, Num 0], tmode = ''lines+markers'',
                   tcolor = Some ''#1f77b4'', tfill = None\<rparr>,
                  \<lparr>tname = ''Forecast (base)'', tx = [Timestamp (2027, 0)], ty = [Num 58],
                   tmode = ''lines+markers'', tcolor = Some ''#ff7f0e'', tfill = None\<rparr>]\<rparr>]
         = [Markdown ''**Forecasting Access and Usage (2025-2027)**'',
                   Subheader ''Key Performance Indicators'', m1, m2, m3, m4,
                   Subheader ''Key Insights'']
                  @ cs @ fo @ [Subheader ''Historical Trend + Forecast''] @ chart"
    and a1: "absent_like la \<longrightarrow> m1 = Metric ''Latest Account Ownership'' [Lit ''N/A''] None"
    and a5: "absent_like la \<or> absent_like lm \<longrightarrow>
                cs = [Markdown ''**Current State**'',
                      Write [Lit ''- Total events tracked: '', Count (length (rows DataFrame0))]]"
    by blast
  from la have "la = Some (Num 0)"
    unfolding zero_observations_latest by simp
  with z a1 a5 have m1: "m1 = Metric ''Latest Account Ownership'' [Lit ''N/A''] None"
    and cs: "cs = [Markdown ''**Current State**'',
                   Write [Lit ''- Total events tracked: '', Count 0]]"
    by (simp_all add: DataFrame0_def)
  have "overview_page ui_example year_dates_example zero_observations DataFrame0
             (Some forecast_example) None
           = Inr ([Markdown ''**Forecasting Access and Usage (2025-2027)**'',
                   Subheader ''Key Performance Indicators'',
                   Metric ''Latest Account Ownership'' [Lit ''N/A''] None, m2, m3, m4,
                   Subheader ''Key Insights'',
                   Markdown ''**Current State**'',
                   Write [Lit ''- Total events tracked: '', Count 0]]
                  @ fo @ [Subheader ''Historical Trend + Forecast''] @ chart)"
    unfolding overview_page_zero_example ws m1 cs by simp
  then have e: "\<exists>m2 m3 m4 fo chart.
         overview_page ui_example year_dates_example zero_observations DataFrame0
             (Some forecast_example) None
           = Inr ([Markdown ''**Forecasting Access and Usage (2025-2027)**'',
                   Subheader ''Key Performance Indicators'',
                   Metric ''Latest Account Ownership'' [Lit ''N/A''] None, m2, m3, m4,
                   Subheader ''Key Insights'',
                   Markdown ''**Current State**'',
                   Write [Lit ''- Total events tracked: '', Count 0]]
                  @ fo @ [Subheader ''Historical Trend + Forecast''] @ chart)"
    by blast
  show ?thesis
    by (intro conjI) (fact zero_observations_latest z e page)+
qed


section \<open>The two pages under two values of the scenario filter\<close>

lemma overview_page_zero_scenario:
  "overview_page (ui_example\<lparr>scenario_filter := s\<rparr>) year_dates_example zero_observations
       DataFrame0 (Some forecast_example) None
     = bindE (overview_forecast year_dates_example s (Some forecast_example)) (\<lambda>fc.
         Inr ([Markdown ''**Forecasting Access and Usage (2025-2027)**'',
               Subheader ''Key Performance Indicators'',
               Metric ''Latest Account Ownership'' [Lit ''N/A''] None,
               Metric ''Mobile Money Accounts'' [Lit ''N/A''] None,
               Metric ''Digital Payment Usage'' [Lit ''N/A''] None,
               Metric ''2027 Forecast (Access)'' [F1 58, Lit ''%'']
                 (Some [F1 (- 2), Lit ''pp to 60% target'']),
               Subheader ''Key Insights'',
               Markdown ''**Current State**'',
               Write [Lit ''- Total events tracked: '', Count 0],
               Markdown ''**Forecast Outlook**'',
               Write [Lit ''- 2027 base forecast: '', F1 58, Lit ''%''],
               Write [Lit ''- Key drivers: Telebirr, M-Pesa, NFIS-II''],
               Subheader ''Historical Trend + Forecast'']
              @ [PlotlyChart
                   \<lparr>ftitle = [Lit ''Account Ownership: Historical + Forecast''],
                    ftraces =
                      [\<lparr>tname = ''Historical'',
                        tx = [Timestamp (2014, 0), Timestamp (2017, 0)],
                        ty = [Num 22, Num 0], tmode = ''lines+markers'',
                        tcolor = Some ''#1f77b4'', tfill = None\<rparr>] @ fc\<rparr>]))"
proof -
  have k: "kpi_forecast (Some (Num 58))
      = Inr (Metric ''2027 Forecast (Access)'' [F1 58, Lit ''%'']
              (Some [F1 (- 2), Lit ''pp to 60% target'']))"
    by (simp add: kpi_forecast_def)
  have o: "forecast_outlook (Some (Num 58)) None
      = Inr [Markdown ''**Forecast Outlook**'',
             Write [Lit ''- 2027 base forecast: '', F1 58, Lit ''%''],
             Write [Lit ''- Key drivers: Telebirr, M-Pesa, NFIS-II'']]"
    by (simp add: forecast_outlook_def uncertainty_range_def)
  have n: "length (rows DataFrame0) = 0"
    by (simp add: DataFrame0_def)
  show ?thesis
    unfolding overview_page_def overview_with_def zero_observations_latest
      zero_observations_others forecast_example_2027 bindE_Inr kpi_metric_zero k
      current_state_zero o n zero_observations_chart
    by (cases "overview_forecast year_dates_example s (Some forecast_example)") simp_all
qed

lemma scenario_traces_access:
  "mapE (scenario_trace year_dates_example
           (select (\<lambda>r. cell_eq (r ''indicator_code'') (Str ''ACC_OWNERSHIP'')) forecast_example))
      scenarios
     = Inr [[\<lparr>tname = ''Base'', tx = [Timestamp (2027, 0)], ty = [Num 58],
              tmode = ''lines+markers'', tcolor = Some ''#ff7f0e'', tfill = None\<rparr>],
            [\<lparr>tname = ''Optimistic'', tx = [Timestamp (2027, 0)], ty = [Num 63],
              tmode = ''lines+markers'', tcolor = Some ''#2ca02c'', tfill = None\<rparr>],
            []]"
  by (simp add: scenarios_def scenario_trace_def getcol_def forecast_example_def select_def
      sort_values_def cell_eq_def notna_def forecast_trace_def is_empty_def
      year_dates_example_def)

lemma forecast_chart_access:
  "forecast_chart year_dates_example observations_example forecast_example None
       (Str ''ACC_OWNERSHIP'')
     = Inr [PlotlyChart
              \<lparr>ftitle = [Val (Str ''ACC_OWNERSHIP''), Lit '': Historical + Forecast Scenarios''],
               ftraces =
                 [\<lparr>tname = ''Base'', tx = [Timestamp (2027, 0)], ty = [Num 58],
                   tmode = ''lines+markers'', tcolor = Some ''#ff7f0e'', tfill = None\<rparr>,
                  \<lparr>tname = ''Optimistic'', tx = [Timestamp (2027, 0)], ty = [Num 63],
                   tmode = ''lines+markers'', tcolor = Some ''#2ca02c'', tfill = None\<rparr>]\<rparr>]"
proof -
  have h: "historical_trace (observations_example\<lparr>rows := []\<rparr>) = Inr []"
    by (simp add: historical_trace_def is_empty_def)
  show ?thesis
    unfolding forecast_chart_def series_example_access bindE_Inr Let_def h
      scenario_traces_access
    by (simp add: band_traces_def)
qed

lemma findings_access:
  "findings (forecast_lookup (Some forecast_example))
     = Inr ([Subheader ''Key Findings'', Markdown ''**Forecast Interpretation**'',
             Write [Lit ''- **Account Ownership 2027 (base)**: '', F1 58, Lit ''%''],
             Write [Lit ''  - Gap to 60% target: '', F1 2, Lit ''pp'']]
            @ fixed_findings)"
proof -
  have u: "forecast_lookup (Some forecast_example)
      (Str ''USG_DIGITAL_PAYMENT'', Num 2027, Str ''base'') = Inr None"
    unfolding forecast_lookup_def prod.case get_forecast_value_eq [OF forecast_example_ok]
    by (simp add: forecast_example_def matches_def cell_eq_def)
  have a: "access_finding (Some (Num 58))
      = Inr [Write [Lit ''- **Account Ownership 2027 (base)**: '', F1 58, Lit ''%''],
             Write [Lit ''  - Gap to 60% target: '', F1 2, Lit ''pp'']]"
    by (simp add: access_finding_def)
  show ?thesis
    unfolding findings_def forecast_example_2027 u bindE_Inr a findings_zero
    by simp
qed

lemma selected_access:
  "selectbox (unique (map (\<lambda>r. r ''indicator_code'') (rows forecast_example)))
     (indicator_choice ui_pessimistic) = Some (Str ''ACC_OWNERSHIP'')"
  by (simp add: forecast_example_def unique_def selectbox_def ui_pessimistic_def)

lemma forecasts_page_access:
  "forecasts_page ui_pessimistic year_dates_example observations_example
       (Some forecast_example) None
     = Inr ([Subheader ''Scenario Comparison'',
             PlotlyChart
              \<lparr>ftitle = [Val (Str ''ACC_OWNERSHIP''), Lit '': Historical + Forecast Scenarios''],
               ftraces =
                 [\<lparr>tname = ''Base'', tx = [Timestamp (2027, 0)], ty = [Num 58],
                   tmode = ''lines+markers'', tcolor = Some ''#ff7f0e'', tfill = None\<rparr>,
                  \<lparr>tname = ''Optimistic'', tx = [Timestamp (2027, 0)], ty = [Num 63],
                   tmode = ''lines+markers'', tcolor = Some ''#2ca02c'', tfill = None\<rparr>]\<rparr>,
             Subheader ''Forecast Data Table'', Dataframe forecast_example,
             Subheader ''Download Forecasts'',
             DownloadButton ''Download Forecast CSV'' forecast_example
               ''ethiopia_fi_forecast_2025_2027.csv'',
             Subheader ''Key Findings'', Markdown ''**Forecast Interpretation**'',
             Write [Lit ''- **Account Ownership 2027 (base)**: '', F1 58, Lit ''%''],
             Write [Lit ''  - Gap to 60% target: '', F1 2, Lit ''pp'']]
            @ fixed_findings)"
proof -
  have c: "getcol forecast_example ''indicator_code''
      = Inr (map (\<lambda>r. r ''indicator_code'') (rows forecast_example))"
    by (simp add: getcol_def forecast_example_def)
  show ?thesis
    unfolding forecasts_page_def forecasts_with_def option.case c bindE_Inr Let_def
      selected_access findings_access
    by (simp add: forecast_chart_access)
qed

text \<open>
  Claim C9 as stated has the chart of the Forecasts page always draw three scenario
  lines. In the example the filter is set to \<open>pessimistic\<close> and the selected
  indicator has forecasts for \<open>base\<close> and \<open>optimistic\<close> only: the chart has these
  two lines, and no line for the scenario of the filter.
\<close>

theorem two_scenario_lines_counterexample:
  "scenario_filter ui_pessimistic = ''pessimistic''
   \<and> scenario_rows (Str ''ACC_OWNERSHIP'') ''pessimistic'' forecast_example = []
   \<and> forecasts_page ui_pessimistic year_dates_example observations_example
         (Some forecast_example) None
     = Inr ([Subheader ''Scenario Comparison'',
             PlotlyChart
              \<lparr>ftitle = [Val (Str ''ACC_OWNERSHIP''), Lit '': Historical + Forecast Scenarios''],
               ftraces =
                 [\<lparr>tname = ''Base'', tx = [Timestamp (2027, 0)], ty = [Num 58],
                   tmode = ''lines+markers'', tcolor = Some ''#ff7f0e'', tfill = None\<rparr>,
                  \<lparr>tname = ''Optimistic'', tx = [Timestamp (2027, 0)], ty = [Num 63],
                   tmode = ''lines+markers'', tcolor = Some ''#2ca02c'', tfill = None\<rparr>]\<rparr>,
             Subheader ''Forecast Data Table'', Dataframe forecast_example,
             Subheader ''Download Forecasts'',
             DownloadButton ''Download Forecast CSV'' forecast_example
               ''ethiopia_fi_forecast_2025_2027.csv'',
             Subheader ''Key Findings'', Markdown ''**Forecast Interpretation**'',
             Write [Lit ''- **Account Ownership 2027 (base)**: '', F1 58, Lit ''%''],
             Write [Lit ''  - Gap to 60% target: '', F1 2, Lit ''pp'']]
            @ fixed_findings)"
proof (intro conjI)
  show "scenario_filter ui_pessimistic = ''pessimistic''"
    by (simp add: ui_pessimistic_def)
  show "scenario_rows (Str ''ACC_OWNERSHIP'') ''pessimistic'' forecast_example = []"
    by (simp add: scenario_rows_def forecast_example_def cell_eq_def)
qed (rule forecasts_page_access)

theorem scenario_filter_scope_witness:
  "forecasts_page (ui_pessimistic\<lparr>scenario_filter := ''base''\<rparr>) year_dates_example
       observations_example (Some forecast_example) None
     = forecasts_page ui_pessimistic year_dates_example observations_example
         (Some forecast_example) None
   \<and> \<not> is_empty zero_observations
   \<and> (\<exists>pre hist fc fc'.
         overview_page ui_example year_dates_example zero_observations DataFrame0
             (Some forecast_example) None
           = Inr (pre @ [PlotlyChart
                           \<lparr>ftitle = [Lit ''Account Ownership: Historical + Forecast''],
                            ftraces = hist @ fc\<rparr>])
         \<and> overview_page (ui_example\<lparr>scenario_filter := ''optimistic''\<rparr>) year_dates_example
             zero_observations DataFrame0 (Some forecast_example) None
           = Inr (pre @ [PlotlyChart
                           \<lparr>ftitle = [Lit ''Account Ownership: Historical + Forecast''],
                            ftraces = hist @ fc'\<rparr>])
         \<and> list_all (\<lambda>t. tname t = ''Historical'') hist
         \<and> overview_line ''base'' (Some forecast_example) fc
         \<and> overview_line ''optimistic'' (Some forecast_example) fc')
   \<and> (\<exists>chart kf.
         forecasts_page ui_pessimistic year_dates_example observations_example
             (Some forecast_example) None
           = Inr ([Subheader ''Scenario Comparison''] @ chart
                  @ [Subheader ''Forecast Data Table'', Dataframe forecast_example,
                     Subheader ''Download Forecasts'',
                     DownloadButton ''Download Forecast CSV'' forecast_example
                       ''ethiopia_fi_forecast_2025_2027.csv'']
                  @ kf)
         \<and> scenario_chart year_dates_example forecast_example None
              (Some (Str ''ACC_OWNERSHIP'')) chart)"
proof -
  note a = scenario_filter_scope [where u = ui_pessimistic and s' = "''base''"
      and yd = year_dates_example and obs = observations_example
      and fl = "Some forecast_example" and fw = None, THEN conjunct1]
  have ne: "\<not> is_empty zero_observations"
    by (simp add: zero_observations_def is_empty_def)
  have u: "ui_example\<lparr>scenario_filter := ''base''\<rparr> = ui_example"
    and sf: "scenario_filter ui_example = ''base''"
    by (simp_all add: ui_example_def)
  obtain wb where pb: "overview_page ui_example year_dates_example zero_observations DataFrame0
      (Some forecast_example) None = Inr wb"
    using overview_page_zero_scenario [of "''base''"]
    unfolding u overview_forecast_example_base by simp
  obtain wo where po: "overview_page (ui_example\<lparr>scenario_filter := ''optimistic''\<rparr>)
      year_dates_example zero_observations DataFrame0 (Some forecast_example) None = Inr wo"
    using overview_page_zero_scenario [of "''optimistic''"]
    unfolding overview_forecast_example_optimistic by simp
  from scenario_filter_scope [where u = ui_example and s' = "''optimistic''"
      and yd = year_dates_example and obs = zero_observations and ev = DataFrame0
      and fl = "Some forecast_example" and fw = None and ws = wb and ws' = wo,
      THEN conjunct2, THEN conjunct1] pb po ne
  obtain pre hist fc fc' where
    "wb = pre @ [PlotlyChart
                   \<lparr>ftitle = [Lit ''Account Ownership: Historical + Forecast''],
                    ftraces = hist @ fc\<rparr>]"
    "wo = pre @ [PlotlyChart
                   \<lparr>ftitle = [Lit ''Account Ownership: Historical + Forecast''],
                    ftraces = hist @ fc'\<rparr>]"
    "list_all (\<lambda>t. tname t = ''Historical'') hist"
    "overview_line (scenario_filter ui_example) (Some forecast_example) fc"
    "overview_line ''optimistic'' (Some forecast_example) fc'"
    by blast
  with pb po have b: "\<exists>pre hist fc fc'.
         overview_page ui_example year_dates_example zero_observations DataFrame0
             (Some forecast_example) None
           = Inr (pre @ [PlotlyChart
                           \<lparr>ftitle = [Lit ''Account Ownership: Historical + Forecast''],
                            ftraces = hist @ fc\<rparr>])
         \<and> overview_page (ui_example\<lparr>scenario_filter := ''optimistic''\<rparr>) year_dates_example
             zero_observations DataFrame0 (Some forecast_example) None
           = Inr (pre @ [PlotlyChart
                           \<lparr>ftitle = [Lit ''Account Ownership: Historical + Forecast''],
                            ftraces = hist @ fc'\<rparr>])
         \<and> list_all (\<lambda>t. tname t = ''Historical'') hist
         \<and> overview_line ''base'' (Some forecast_example) fc
         \<and> overview_line ''optimistic'' (Some forecast_example) fc'"
    unfolding sf by blast
  from scenario_filter_scope [where u = ui_pessimistic and yd = year_dates_example
      and obs = observations_example and fl' = forecast_example and fw = None,
      THEN conjunct2, THEN conjunct2, THEN mp, OF forecasts_page_access]
  obtain chart kf where
    w: "[Subheader ''Scenario Comparison'',
             PlotlyChart
              \<lparr>ftitle = [Val (Str ''ACC_OWNERSHIP''), Lit '': Historical + Forecast Scenarios''],
               ftraces =
                 [\<lparr>tname = ''Base'', tx = [Timestamp (2027, 0)], ty = [Num 58],
                   tmode = ''lines+markers'', tcolor = Some ''#ff7f0e'', tfill = None\<rparr>,
                  \<lparr>tname = ''Optimistic'', tx = [Timestamp (2027, 0)], ty = [Num 63],
                   tmode = ''lines+markers'', tcolor = Some ''#2ca02c'', tfill = None\<rparr>]\<rparr>,
             Subheader ''Forecast Data Table'', Dataframe forecast_example,
             Subheader ''Download Forecasts'',
             DownloadButton ''Download Forecast CSV'' forecast_example
               ''ethiopia_fi_forecast_2025_2027.csv'',
             Subheader ''Key Findings'', Markdown ''**Forecast Interpretation**'',
             Write [Lit ''- **Account Ownership 2027 (base)**: '', F1 58, Lit ''%''],
             Write [Lit ''  - Gap to 60% target: '', F1 2, Lit ''pp'']]
            @ fixed_findings
        = [Subheader ''Scenario Comparison''] @ chart
                  @ [Subheader ''Forecast Data Table'',
                     Dataframe (case None of None \<Rightarrow> forecast_example | Some w \<Rightarrow> w),
                     Subheader ''Download Forecasts'',
                     DownloadButton ''Download Forecast CSV'' forecast_example
                       ''ethiopia_fi_forecast_2025_2027.csv'']
                  @ kf"
    and sc: "scenario_chart year_dates_example forecast_example None
                (selectbox (unique (map (\<lambda>r. r ''indicator_code'') (rows forecast_example)))
                   (indicator_choice ui_pessimistic)) chart"
    by blast
  from w have pg: "forecasts_page ui_pessimistic year_dates_example observations_example
             (Some forecast_example) None
           = Inr ([Subheader ''Scenario Comparison''] @ chart
                  @ [Subheader ''Forecast Data Table'', Dataframe forecast_example,
                     Subheader ''Download Forecasts'',
                     DownloadButton ''Download Forecast CSV'' forecast_example
                       ''ethiopia_fi_forecast_2025_2027.csv'']
                  @ kf)"
    unfolding forecasts_page_access by (simp only: option.case)
  from sc have sc': "scenario_chart year_dates_example forecast_example None
              (Some (Str ''ACC_OWNERSHIP'')) chart"
    unfolding selected_access .
  from pg sc' have c: "\<exists>chart kf.
         forecasts_page ui_pessimistic year_dates_example observations_example
             (Some forecast_example) None
           = Inr ([Subheader ''Scenario Comparison''] @ chart
                  @ [Subheader ''Forecast Data Table'', Dataframe forecast_example,
                     Subheader ''Download Forecasts'',
                     DownloadButton ''Download Forecast CSV'' forecast_example
                       ''ethiopia_fi_forecast_2025_2027.csv'']
                  @ kf)
         \<and> scenario_chart year_dates_example forecast_example None
              (Some (Str ''ACC_OWNERSHIP'')) chart"
    by blast
  show ?thesis
    by (intro conjI) (fact a ne b c)+
qed


section \<open>The Forecasts page that is drawn without the wide-form table\<close>

text \<open>
  Claim C8, as amended. With no wide-form table the Forecasts page returns its widgets
  and raises nothing, provided that the long-form table has the four columns of its
  schema, with numbers (or missing cells) as years and as forecast values, that the
  conversion of the years of the table to dates succeeds, and that the observations
  are an observation table. The page is then its first heading, the chart of the
  selected indicator (the historical traces and one line for each scenario that has a
  row for the indicator), the heading of the table, the long-form table, the download
  of the long-form table, and the findings; no trace of a chart of the page is the
  upper bound or the filled band of the uncertainty region.
\<close>

theorem forecasts_page_without_wide:
  assumes "forecast_long_table fl" and "years_convert yd fl" and "observation_table obs"
  shows "\<exists>ws chart kf.
           forecasts_page u yd obs (Some fl) None = Inr ws
           \<and> ws = [Subheader ''Scenario Comparison''] @ chart
                  @ [Subheader ''Forecast Data Table'', Dataframe fl,
                     Subheader ''Download Forecasts'',
                     DownloadButton ''Download Forecast CSV'' fl
                       ''ethiopia_fi_forecast_2025_2027.csv'']
                  @ kf
           \<and> scenario_chart yd fl None
                (selectbox (unique (map (\<lambda>r. r ''indicator_code'') (rows fl)))
                   (indicator_choice u)) chart
           \<and> findings (forecast_lookup (Some fl)) = Inr kf
           \<and> no_band ws"
proof -
  from forecasts_page_returns [OF assms, of u] obtain ws where
    p: "forecasts_page u yd obs (Some fl) None = Inr ws" and n: "no_band ws"
    by blast
  from forecasts_page_chart [OF p] obtain chart kf where
    w: "ws = [Subheader ''Scenario Comparison''] @ chart
                @ [Subheader ''Forecast Data Table'',
                   Dataframe (case None of None \<Rightarrow> fl | Some w \<Rightarrow> w),
                   Subheader ''Download Forecasts'',
                   DownloadButton ''Download Forecast CSV'' fl
                     ''ethiopia_fi_forecast_2025_2027.csv'']
                @ kf"
    and sc: "scenario_chart yd fl None
                (selectbox (unique (map (\<lambda>r. r ''indicator_code'') (rows fl)))
                   (indicator_choice u)) chart"
    and kf: "findings (forecast_lookup (Some fl)) = Inr kf"
    by blast
  from w have w': "ws = [Subheader ''Scenario Comparison''] @ chart
                  @ [Subheader ''Forecast Data Table'', Dataframe fl,
                     Subheader ''Download Forecasts'',
                     DownloadButton ''Download Forecast CSV'' fl
                       ''ethiopia_fi_forecast_2025_2027.csv'']
                  @ kf"
    by (simp only: option.case)
  show ?thesis
    by (rule exI [of _ ws], rule exI [of _ chart], rule exI [of _ kf], intro conjI)
       (fact p w' sc kf n)+
qed

theorem forecasts_page_without_wide_witness:
  "forecast_long_table long_example
   \<and> years_convert year_dates_example long_example
   \<and> observation_table observations_example
   \<and> (\<exists>chart. scenario_chart year_dates_example long_example None (Some (Str ''X'')) chart
         \<and> no_band chart
         \<and> chart = [PlotlyChart
              \<lparr>ftitle = [Val (Str ''X''), Lit '': Historical + Forecast Scenarios''],
               ftraces =
                 [\<lparr>tname = ''Historical'',
                   tx = [Timestamp (2020, 0), Timestamp (2021, 0), Timestamp (2022, 0)],
                   ty = [Num 10, Num 20, Num 30], tmode = ''lines+markers'',
                   tcolor = Some ''#1f77b4'', tfill = None\<rparr>,
                  \<lparr>tname = ''Base'', tx = [Timestamp (2025, 0), Timestamp (2026, 0)],
                   ty = [Num 40, Num 45], tmode = ''lines+markers'',
                   tcolor = Some ''#ff7f0e'', tfill = None\<rparr>]\<rparr>])
   \<and> forecasts_page ui_example year_dates_example observations_example (Some long_example) None
     = Inr ([Subheader ''Scenario Comparison'',
             PlotlyChart
              \<lparr>ftitle = [Val (Str ''X''), Lit '': Historical + Forecast Scenarios''],
               ftraces =
                 [\<lparr>tname = ''Historical'',
                   tx = [Timestamp (2020, 0), Timestamp (2021, 0), Timestamp (2022, 0)],
                   ty = [Num 10, Num 20, Num 30], tmode = ''lines+markers'',
                   tcolor = Some ''#1f77b4'', tfill = None\<rparr>,
                  \<lparr>tname = ''Base'', tx = [Timestamp (2025, 0), Timestamp (2026, 0)],
                   ty = [Num 40, Num 45], tmode = ''lines+markers'',
                   tcolor = Some ''#ff7f0e'', tfill = None\<rparr>]\<rparr>,
             Subheader ''Forecast Data Table'', Dataframe long_example,
             Subheader ''Download Forecasts'',
             DownloadButton ''Download Forecast CSV'' long_example
               ''ethiopia_fi_forecast_2025_2027.csv'',
             Subheader ''Key Findings'', Markdown ''**Forecast Interpretation**'']
            @ fixed_findings)"
proof -
  let ?chart = "[PlotlyChart
              \<lparr>ftitle = [Val (Str ''X''), Lit '': Historical + Forecast Scenarios''],
               ftraces =
                 [\<lparr>tname = ''Historical'',
                   tx = [Timestamp (2020, 0), Timestamp (2021, 0), Timestamp (2022, 0)],
                   ty = [Num 10, Num 20, Num 30], tmode = ''lines+markers'',
                   tcolor = Some ''#1f77b4'', tfill = None\<rparr>,
                  \<lparr>tname = ''Base'', tx = [Timestamp (2025, 0), Timestamp (2026, 0)],
                   ty = [Num 40, Num 45], tmode = ''lines+markers'',
                   tcolor = Some ''#ff7f0e'', tfill = None\<rparr>]\<rparr>]"
  from forecasts_page_without_wide
    [OF long_example_ok year_dates_example_ok observations_example_ok, of ui_example]
  obtain ws chart kf where
    p: "forecasts_page ui_example year_dates_example observations_example (Some long_example) None
        = Inr ws"
    and w: "ws = [Subheader ''Scenario Comparison''] @ chart
                  @ [Subheader ''Forecast Data Table'', Dataframe long_example,
                     Subheader ''Download Forecasts'',
                     DownloadButton ''Download Forecast CSV'' long_example
                       ''ethiopia_fi_forecast_2025_2027.csv'']
                  @ kf"
    and sc: "scenario_chart year_dates_example long_example None
                (selectbox (unique (map (\<lambda>r. r ''indicator_code'') (rows long_example)))
                   (indicator_choice ui_example)) chart"
    and n: "no_band ws"
    by blast
  from sc have sc': "scenario_chart year_dates_example long_example None (Some (Str ''X'')) chart"
    unfolding selected_example .
  then obtain fig where f: "chart = [PlotlyChart fig]"
    by (auto simp: scenario_chart_def)
  from p w have "[Subheader ''Scenario Comparison''] @ chart
                  @ [Subheader ''Forecast Data Table'', Dataframe long_example,
                     Subheader ''Download Forecasts'',
                     DownloadButton ''Download Forecast CSV'' long_example
                       ''ethiopia_fi_forecast_2025_2027.csv'']
                  @ kf
      = [Subheader ''Scenario Comparison''] @ ?chart
             @ [Subheader ''Forecast Data Table'', Dataframe long_example,
             Subheader ''Download Forecasts'',
             DownloadButton ''Download Forecast CSV'' long_example
               ''ethiopia_fi_forecast_2025_2027.csv'',
             Subheader ''Key Findings'', Markdown ''**Forecast Interpretation**'']
            @ fixed_findings"
    unfolding forecasts_page_example by simp
  with f have ce: "chart = ?chart"
    by simp
  from n have nc: "no_band chart"
    unfolding w no_band_append by (elim conjE)
  from sc' nc ce have e: "\<exists>chart. scenario_chart year_dates_example long_example None
        (Some (Str ''X'')) chart \<and> no_band chart \<and> chart = ?chart"
    by blast
  show ?thesis
    by (intro conjI)
       (fact long_example_ok year_dates_example_ok observations_example_ok e
          forecasts_page_example)+
qed

text \<open>
  Claim C8 as stated has the page drawn for every long-form table. The loader does not
  check the schema of the forecast file: on a table without the \<open>scenario\<close> column
  the loop over the scenarios raises KeyError. And a table with the schema but a
  missing year makes the conversion of the years to dates raise.
\<close>

theorem forecasts_page_raises_counterexample:
  "forecasts_page ui_example year_dates_example observations_example
       (Some no_scenario_example) None = Inl (KeyError ''scenario'')
   \<and> forecast_long_table long_na_example
   \<and> observation_table observations_example
   \<and> forecasts_page ui_example year_dates_strict observations_example
       (Some long_na_example) None = Inl ValueError"
proof (intro conjI)
  have c: "getcol no_scenario_example ''indicator_code''
      = Inr (map (\<lambda>r. r ''indicator_code'') (rows no_scenario_example))"
    by (simp add: getcol_def no_scenario_example_def)
  have s: "selectbox (unique (map (\<lambda>r. r ''indicator_code'') (rows no_scenario_example)))
     (indicator_choice ui_example) = Some (Str ''X'')"
    by (simp add: no_scenario_example_def unique_def selectbox_def ui_example_def)
  from historical_example obtain series hist where
    g: "get_indicator_series observations_example (Str ''X'') = Inr series"
    and h: "historical_trace series = Inr hist"
    by (rule bindE_InrE)
  have ch: "forecast_chart year_dates_example observations_example no_scenario_example None
      (Str ''X'') = Inl (KeyError ''scenario'')"
    unfolding forecast_chart_def g bindE_Inr Let_def h
    by (simp add: scenarios_def scenario_trace_def getcol_def no_scenario_example_def
        select_def)
  show "forecasts_page ui_example year_dates_example observations_example
       (Some no_scenario_example) None = Inl (KeyError ''scenario'')"
    unfolding forecasts_page_def forecasts_with_def option.case c bindE_Inr Let_def s
    by (simp add: ch)
  show "forecast_long_table long_na_example"
    by (simp add: forecast_long_table_def has_columns_def long_na_example_def)
  show "observation_table observations_example"
    by (rule observations_example_ok)
  have c': "getcol long_na_example ''indicator_code''
      = Inr (map (\<lambda>r. r ''indicator_code'') (rows long_na_example))"
    by (simp add: getcol_def long_na_example_def)
  have s': "selectbox (unique (map (\<lambda>r. r ''indicator_code'') (rows long_na_example)))
     (indicator_choice ui_example) = Some (Str ''X'')"
    by (simp add: long_na_example_def unique_def selectbox_def ui_example_def)
  have ch': "forecast_chart year_dates_strict observations_example long_na_example None
      (Str ''X'') = Inl ValueError"
    unfolding forecast_chart_def g bindE_Inr Let_def h
    by (simp add: scenarios_def scenario_trace_def getcol_def long_na_example_def
        select_def sort_values_def cell_eq_def notna_def forecast_trace_def is_empty_def
        year_dates_strict_def)
  show "forecasts_page ui_example year_dates_strict observations_example
       (Some long_na_example) None = Inl ValueError"
    unfolding forecasts_page_def forecasts_with_def option.case c' bindE_Inr Let_def s'
    by (simp add: ch')
qed

end
